theory Spec2Isabelle
  imports Main "HOL-Library.Sublist"
begin

section \<open>Python values shared by both adapters\<close>

text \<open>
  Both scripts (\<^verbatim>\<open>scripts/parse_claude.py\<close>, \<^verbatim>\<open>scripts/parse_opencode.py\<close>)
  work on values produced by \<^verbatim>\<open>json.load\<close>/\<^verbatim>\<open>json.loads\<close>. A value is
  \<^verbatim>\<open>None\<close>, a bool, an int, a str, a list or a dict with str keys. A dict is the list
  of its items in insertion order (keys distinct, as \<^verbatim>\<open>json.loads\<close> leaves them).
  Characters are code points below 256; JSON numbers with a fraction or an exponent
  (Python floats) are not part of the model.
\<close>

datatype json =
    JNull
  | JBool bool
  | JInt int
  | JStr string
  | JArr "json list"
  | JObj "(string \<times> json) list"

text \<open>Exceptions that the modelled code lets escape.\<close>

datatype error =
    TypeError
  | AttributeError
  | ValueError
  | OutOfRangeError

definition ebind :: "error + 'a \<Rightarrow> ('a \<Rightarrow> error + 'b) \<Rightarrow> error + 'b" where
  "ebind m f = (case m of Inl e \<Rightarrow> Inl e | Inr x \<Rightarrow> f x)"

text \<open>Truth value testing (\<^verbatim>\<open>if x:\<close>, \<^verbatim>\<open>x or y\<close>, \<^verbatim>\<open>not x\<close>).\<close>

fun truthy :: "json \<Rightarrow> bool" where
  "truthy JNull = False"
| "truthy (JBool b) = b"
| "truthy (JInt i) = (i \<noteq> 0)"
| "truthy (JStr s) = (s \<noteq> [])"
| "truthy (JArr xs) = (xs \<noteq> [])"
| "truthy (JObj kvs) = (kvs \<noteq> [])"

text \<open>\<^verbatim>\<open>a or b\<close>: the first operand when it is truthy, the second otherwise.\<close>

definition py_or :: "json \<Rightarrow> json \<Rightarrow> json" where
  "py_or a b = (if truthy a then a else b)"

text \<open>\<^verbatim>\<open>d.get(k, default)\<close> on a dict; \<^verbatim>\<open>x.get\<close> on any other value raises
  \<^verbatim>\<open>AttributeError\<close>.\<close>

definition dict_get :: "(string \<times> json) list \<Rightarrow> string \<Rightarrow> json \<Rightarrow> json" where
  "dict_get kvs k dflt = (case map_of kvs k of None \<Rightarrow> dflt | Some v \<Rightarrow> v)"

fun py_get :: "json \<Rightarrow> string \<Rightarrow> json \<Rightarrow> error + json" where
  "py_get (JObj kvs) k dflt = Inr (dict_get kvs k dflt)"
| "py_get _ k dflt = Inl AttributeError"

fun is_dict :: "json \<Rightarrow> bool" where
  "is_dict (JObj kvs) = True"
| "is_dict _ = False"

text \<open>\<^verbatim>\<open>sep.join(pieces)\<close> on a list of str.\<close>

fun join :: "string \<Rightarrow> string list \<Rightarrow> string" where
  "join sep [] = []"
| "join sep [x] = x"
| "join sep (x # y # ys) = x @ sep @ join sep (y # ys)"

text \<open>\<^verbatim>\<open>sep.join(pieces)\<close> on a list of arbitrary values: \<^verbatim>\<open>TypeError\<close> unless
  every item is a str.\<close>

fun as_strs :: "json list \<Rightarrow> error + string list" where
  "as_strs [] = Inr []"
| "as_strs (JStr s # xs) = ebind (as_strs xs) (\<lambda>ss. Inr (s # ss))"
| "as_strs (_ # xs) = Inl TypeError"

definition py_join :: "string \<Rightarrow> json list \<Rightarrow> error + string" where
  "py_join sep pieces = ebind (as_strs pieces) (\<lambda>ss. Inr (join sep ss))"

subsection \<open>Rendering numbers\<close>

definition digit_char :: "nat \<Rightarrow> char" where
  "digit_char d = ''0123456789abcdef'' ! (d mod 16)"

fun show_nat :: "nat \<Rightarrow> string" where
  "show_nat n = (if n < 10 then [digit_char n] else show_nat (n div 10) @ [digit_char (n mod 10)])"

declare show_nat.simps [simp del]

definition show_int :: "int \<Rightarrow> string" where
  "show_int i = (if i < 0 then CHR ''-'' # show_nat (nat (- i)) else show_nat (nat i))"

definition hex2 :: "nat \<Rightarrow> string" where
  "hex2 n = [digit_char (n div 16), digit_char (n mod 16)]"

subsection \<open>\<^verbatim>\<open>json.dumps(v, ensure_ascii=False)\<close>\<close>

text \<open>
  The standard encoder with its default separators \<^verbatim>\<open>", "\<close> and \<^verbatim>\<open>": "\<close>. In a
  string it escapes the backslash, the double quote and the control characters below
  0x20 (five of them by name, the others as \<^verbatim>\<open>\u00XX\<close>), and nothing else.
\<close>

definition json_escape_char :: "char \<Rightarrow> string" where
  "json_escape_char c =
     (if c = CHR 0x5C then [CHR 0x5C, CHR 0x5C]
      else if c = CHR 0x22 then [CHR 0x5C, CHR 0x22]
      else if c = CHR 0x08 then [CHR 0x5C, CHR ''b'']
      else if c = CHR 0x0C then [CHR 0x5C, CHR ''f'']
      else if c = CHR 0x0A then [CHR 0x5C, CHR ''n'']
      else if c = CHR 0x0D then [CHR 0x5C, CHR ''r'']
      else if c = CHR 0x09 then [CHR 0x5C, CHR ''t'']
      else if of_char c < (0x20 :: nat) then [CHR 0x5C, CHR ''u'', CHR ''0'', CHR ''0''] @ hex2 (of_char c)
      else [c])"

definition encode_basestring :: "string \<Rightarrow> string" where
  "encode_basestring s = [CHR 0x22] @ concat (map json_escape_char s) @ [CHR 0x22]"

fun json_dumps :: "json \<Rightarrow> string" where
  "json_dumps JNull = ''null''"
| "json_dumps (JBool b) = (if b then ''true'' else ''false'')"
| "json_dumps (JInt i) = show_int i"
| "json_dumps (JStr s) = encode_basestring s"
| "json_dumps (JArr xs) = ''['' @ join '', '' (map json_dumps xs) @ '']''"
| "json_dumps (JObj kvs) =
     ''{'' @ join '', '' (map (\<lambda>kv. encode_basestring (fst kv) @ '': '' @ json_dumps (snd kv)) kvs) @ ''}''"

subsection \<open>\<^verbatim>\<open>str(v)\<close> and \<^verbatim>\<open>repr(v)\<close>\<close>

text \<open>
  \<^verbatim>\<open>repr\<close> of a str picks the single quote unless the text has a single quote and no
  double quote; it escapes the backslash, the chosen quote, tab, newline and carriage
  return by name and every other non-printable character as \<^verbatim>\<open>\xNN\<close>.
\<close>

definition printable :: "char \<Rightarrow> bool" where
  "printable c = (let n = (of_char c :: nat) in
     \<not> (n < 0x20 \<or> n = 0x7F \<or> (0x80 \<le> n \<and> n \<le> 0xA0) \<or> n = 0xAD))"

definition repr_char :: "char \<Rightarrow> char \<Rightarrow> string" where
  "repr_char quote c =
     (if c = quote \<or> c = CHR 0x5C then [CHR 0x5C, c]
      else if c = CHR 0x09 then [CHR 0x5C, CHR ''t'']
      else if c = CHR 0x0A then [CHR 0x5C, CHR ''n'']
      else if c = CHR 0x0D then [CHR 0x5C, CHR ''r'']
      else if \<not> printable c then [CHR 0x5C, CHR ''x''] @ hex2 (of_char c)
      else [c])"

definition repr_str :: "string \<Rightarrow> string" where
  "repr_str s =
     (let quote = (if CHR 0x27 \<in> set s \<and> CHR 0x22 \<notin> set s then CHR 0x22 else CHR 0x27)
      in [quote] @ concat (map (repr_char quote) s) @ [quote])"

fun py_repr :: "json \<Rightarrow> string" where
  "py_repr JNull = ''None''"
| "py_repr (JBool b) = (if b then ''True'' else ''False'')"
| "py_repr (JInt i) = show_int i"
| "py_repr (JStr s) = repr_str s"
| "py_repr (JArr xs) = ''['' @ join '', '' (map py_repr xs) @ '']''"
| "py_repr (JObj kvs) =
     ''{'' @ join '', '' (map (\<lambda>kv. repr_str (fst kv) @ '': '' @ py_repr (snd kv)) kvs) @ ''}''"

fun py_str :: "json \<Rightarrow> string" where
  "py_str (JStr s) = s"
| "py_str v = py_repr v"

section \<open>Normalized messages and tool calls\<close>

text \<open>
  A tool call is the dict \<^verbatim>\<open>{"tool": .., "input": .., "output": ..}\<close>; the tool name is
  stored as found. A message is the dict \<^verbatim>\<open>{"role", "content", "timestamp"}\<close> with
  the key \<^verbatim>\<open>"tool_calls"\<close> added only in some cases: \<open>None\<close> is the absent key.
\<close>

record tool_call =
  tc_tool :: json
  tc_input :: string
  tc_output :: string

record message =
  m_role :: json
  m_content :: string
  m_timestamp :: string
  m_tool_calls :: "tool_call list option"

text \<open>
  The output record of both scripts. The key \<^verbatim>\<open>"parent_id"\<close> exists only in
  \<^verbatim>\<open>parse_opencode.py\<close>, and only in some cases: \<open>None\<close> is the absent key.
  Identifier, project and title are stored as found, so they are values of any type.
\<close>

record session_record =
  sr_source :: string
  sr_session_id :: json
  sr_project :: json
  sr_title :: json
  sr_time_start :: string
  sr_time_end :: string
  sr_messages :: "message list"
  sr_parent_id :: "json option"

text \<open>The lines that the scripts write to the error stream with \<^verbatim>\<open>warn\<close> (or
  \<^verbatim>\<open>print(.., file=sys.stderr)\<close>), by kind and with the unit they name. The trace
  lines of \<^verbatim>\<open>verbose_log\<close> are left out: they change neither the output nor the
  control flow.\<close>

datatype diag =
    BothRequired
  | DateParseError
  | DirectoryMissing
  | CorruptIndex string
  | CannotReadIndex string
  | CorruptJSONLLine nat string
  | CannotReadJSONL string
  | JSONLNotFound string string
  | NoSessionsFound

text \<open>What a run leaves behind: the exit code and what it wrote to the two streams.\<close>

record exit_state =
  exit_code :: nat
  stdout_lines :: "session_record list"
  stderr_lines :: "diag list"

text \<open>
  The SQLite store of \<^verbatim>\<open>parse_opencode.py\<close>: the columns that the queries read, with
  the values SQLite can hold in them (reals and blobs left out). The \<^verbatim>\<open>data\<close> column
  of a message or part row is kept as what \<^verbatim>\<open>json.loads\<close> makes of it, \<open>None\<close> where
  it raises.
\<close>

datatype sql_value = Null | Integer int | Text string

record session_row =
  s_id :: sql_value
  s_parent_id :: sql_value
  s_directory :: sql_value
  s_title :: sql_value
  s_time_created :: sql_value
  s_time_updated :: sql_value
  s_time_archived :: sql_value

record message_row =
  mr_id :: sql_value
  mr_session_id :: sql_value
  mr_data :: "json option"
  mr_time_created :: sql_value

record part_row =
  pr_message_id :: sql_value
  pr_data :: "json option"
  pr_time_created :: sql_value

record database =
  db_session :: "session_row list"
  db_message :: "message_row list"
  db_part :: "part_row list"

section \<open>Truncation of tool fields\<close>

text \<open>
  \<^verbatim>\<open>truncate(s, max_len=200)\<close> is the same function in both scripts, and every call
  leaves \<^verbatim>\<open>max_len\<close> at its default. A value that is not a str is first replaced by
  its JSON text, \<^verbatim>\<open>None\<close> by the empty string.
\<close>

definition max_len :: nat where
  "max_len = 200"

definition truncate :: "json \<Rightarrow> string" where
  "truncate v =
     (let s = (case v of JStr x \<Rightarrow> x | JNull \<Rightarrow> [] | _ \<Rightarrow> json_dumps v)
      in if length s > max_len then take (max_len - 3) s @ ''...'' else s)"

text \<open>A \<^verbatim>\<open>for\<close> loop whose body may raise: the first exception ends it.\<close>

fun efold :: "('a \<Rightarrow> 's \<Rightarrow> error + 's) \<Rightarrow> 'a list \<Rightarrow> 's \<Rightarrow> error + 's" where
  "efold f [] s = Inr s"
| "efold f (x # xs) s = ebind (f x s) (efold f xs)"

section \<open>Message decoder of \<^verbatim>\<open>parse_claude.py\<close>\<close>

text \<open>The body of the loop over the inner blocks of a \<^verbatim>\<open>tool_result\<close> block.\<close>

definition inner_text_block :: "json \<Rightarrow> json list \<Rightarrow> json list" where
  "inner_text_block ib inner_texts =
     (case ib of
        JObj kvs \<Rightarrow>
          if dict_get kvs ''type'' JNull = JStr ''text''
          then inner_texts @ [dict_get kvs ''text'' (JStr '''')]
          else inner_texts
      | _ \<Rightarrow> inner_texts)"

text \<open>The body of the loop over the blocks of a user message.\<close>

definition user_block :: "json \<Rightarrow> json list \<Rightarrow> error + json list" where
  "user_block block pieces =
     (case block of
        JObj kvs \<Rightarrow>
          (let btype = dict_get kvs ''type'' (JStr '''') in
           if btype = JStr ''text'' then
             (let text = dict_get kvs ''text'' (JStr '''') in
              if truthy text then Inr (pieces @ [text]) else Inr pieces)
           else if btype = JStr ''tool_result'' then
             (case dict_get kvs ''content'' (JStr '''') of
                JStr inner \<Rightarrow>
                  Inr (pieces @ [JStr (''[Tool result: '' @ truncate (JStr inner) @ '']'')])
              | JArr inner \<Rightarrow>
                  (let inner_texts = fold inner_text_block inner [] in
                   if inner_texts \<noteq> [] then
                     ebind (py_join [CHR 0x0A] inner_texts) (\<lambda>joined.
                       Inr (pieces @ [JStr (''[Tool result: '' @ truncate (JStr joined) @ '']'')]))
                   else Inr pieces)
              | _ \<Rightarrow> Inr pieces)
           else Inr pieces)
      | _ \<Rightarrow> Inr pieces)"

definition extract_user_content :: "json \<Rightarrow> error + string" where
  "extract_user_content message =
     ebind (py_get message ''message'' JNull) (\<lambda>msg_obj.
       (case (case msg_obj of JObj kvs \<Rightarrow> dict_get kvs ''content'' JNull | _ \<Rightarrow> JNull) of
          JNull \<Rightarrow> Inr ''''
        | JStr content \<Rightarrow> Inr content
        | JArr content \<Rightarrow> ebind (efold user_block content []) (py_join [CHR 0x0A])
        | _ \<Rightarrow> Inr ''''))"

text \<open>The body of the loop over the blocks of an assistant message.\<close>

definition assistant_block :: "json \<Rightarrow> json list \<times> tool_call list \<Rightarrow> json list \<times> tool_call list" where
  "assistant_block block acc =
     (case acc of (text_pieces, tool_calls) \<Rightarrow>
       (case block of
          JObj kvs \<Rightarrow>
            (let btype = dict_get kvs ''type'' (JStr '''') in
             if btype = JStr ''text'' then
               (let text = dict_get kvs ''text'' (JStr '''') in
                if truthy text then (text_pieces @ [text], tool_calls) else (text_pieces, tool_calls))
             else if btype = JStr ''tool_use'' then
               (let tool_name = dict_get kvs ''name'' (JStr '''');
                    tool_input = dict_get kvs ''input'' (JObj [])
                in (text_pieces,
                    tool_calls @
                    [\<lparr>tc_tool = tool_name,
                      tc_input = truncate (JStr (if is_dict tool_input then json_dumps tool_input
                                                 else py_str tool_input)),
                      tc_output = ''''\<rparr>]))
             else (text_pieces, tool_calls))
        | _ \<Rightarrow> (text_pieces, tool_calls)))"

definition extract_assistant_content :: "json \<Rightarrow> error + string \<times> tool_call list" where
  "extract_assistant_content message =
     ebind (py_get message ''message'' (JObj [])) (\<lambda>msg_obj.
       (case msg_obj of
          JObj kvs \<Rightarrow>
            (case dict_get kvs ''content'' JNull of
               JArr content \<Rightarrow>
                 (case fold assistant_block content ([], []) of (text_pieces, tool_calls) \<Rightarrow>
                    ebind (py_join [CHR 0x0A] text_pieces) (\<lambda>text. Inr (text, tool_calls)))
             | _ \<Rightarrow> Inr ('''', []))
        | _ \<Rightarrow> Inr ('''', [])))"

section \<open>Part decoder of \<^verbatim>\<open>parse_opencode.py\<close>\<close>

text \<open>
  The body of the loop of \<^verbatim>\<open>process_parts\<close>. A part that is not a dict raises at
  \<^verbatim>\<open>part.get\<close>. The f-string of a reasoning part formats its value with \<^verbatim>\<open>str\<close>.
\<close>

definition process_part :: "json \<Rightarrow> json list \<times> tool_call list \<Rightarrow> error + json list \<times> tool_call list" where
  "process_part part acc =
     (case acc of (text_pieces, tool_calls) \<Rightarrow>
       ebind (py_get part ''type'' JNull) (\<lambda>ptype.
         if ptype = JStr ''text'' then
           ebind (py_get part ''text'' (JStr '''')) (\<lambda>text.
             if truthy text then Inr (text_pieces @ [text], tool_calls)
             else Inr (text_pieces, tool_calls))
         else if ptype = JStr ''reasoning'' then
           ebind (py_get part ''reasoning'' (JStr '''')) (\<lambda>reasoning.
             if truthy reasoning
             then Inr (text_pieces @ [JStr (''[thinking] '' @ py_str reasoning)], tool_calls)
             else Inr (text_pieces, tool_calls))
         else if ptype = JStr ''tool'' then
           ebind (py_get part ''tool'' (JStr '''')) (\<lambda>tool_name.
           ebind (py_get part ''state'' (JObj [])) (\<lambda>state0.
             (let state = (case state0 of JObj kvs \<Rightarrow> kvs | _ \<Rightarrow> []);
                  tool_input = dict_get state ''input'' (JStr '''');
                  tool_output = dict_get state ''output'' (JStr '''')
              in Inr (text_pieces,
                      tool_calls @
                      [\<lparr>tc_tool = tool_name,
                        tc_input = truncate tool_input,
                        tc_output = truncate tool_output\<rparr>]))))
         else Inr (text_pieces, tool_calls)))"

definition process_parts :: "json list \<Rightarrow> error + string \<times> tool_call list" where
  "process_parts parts =
     ebind (efold process_part parts ([], [])) (\<lambda>acc.
       (case acc of (text_pieces, tool_calls) \<Rightarrow>
          ebind (py_join [CHR 0x0A] text_pieces) (\<lambda>content. Inr (content, tool_calls))))"

section \<open>Dates and times\<close>

text \<open>
  A \<^verbatim>\<open>datetime\<close> is a count of microseconds: for an aware value the instant since
  1970-01-01T00:00:00 UTC, for a naive value the wall-clock reading counted from the
  same origin. Python orders two aware values by instant and two naive values by
  reading, and raises \<^verbatim>\<open>TypeError\<close> when asked to order one of each.
\<close>

datatype datetime = Aware int | Naive int

fun dt_less :: "datetime \<Rightarrow> datetime \<Rightarrow> error + bool" where
  "dt_less (Aware a) (Aware b) = Inr (a < b)"
| "dt_less (Naive a) (Naive b) = Inr (a < b)"
| "dt_less _ _ = Inl TypeError"

subsection \<open>The proleptic Gregorian calendar\<close>

definition is_leap :: "int \<Rightarrow> bool" where
  "is_leap y = (y mod 4 = 0 \<and> (y mod 100 \<noteq> 0 \<or> y mod 400 = 0))"

definition days_in_month :: "int \<Rightarrow> int \<Rightarrow> int" where
  "days_in_month y m =
     (if m = 2 then (if is_leap y then 29 else 28)
      else if m = 4 \<or> m = 6 \<or> m = 9 \<or> m = 11 then 30 else 31)"

text \<open>Days between 1970-01-01 and the given date, and back.\<close>

definition days_from_civil :: "int \<Rightarrow> int \<Rightarrow> int \<Rightarrow> int" where
  "days_from_civil y m d =
     (let y' = (if m \<le> 2 then y - 1 else y);
          era = y' div 400;
          yoe = y' - era * 400;
          doy = (153 * (if m > 2 then m - 3 else m + 9) + 2) div 5 + d - 1;
          doe = yoe * 365 + yoe div 4 - yoe div 100 + doy
      in era * 146097 + doe - 719468)"

definition civil_from_days :: "int \<Rightarrow> int \<times> int \<times> int" where
  "civil_from_days z0 =
     (let z = z0 + 719468;
          era = z div 146097;
          doe = z - era * 146097;
          yoe = (doe - doe div 1460 + doe div 36524 - doe div 146096) div 365;
          doy = doe - (365 * yoe + yoe div 4 - yoe div 100);
          mp = (5 * doy + 2) div 153;
          d = doy - (153 * mp + 2) div 5 + 1;
          m = (if mp < 10 then mp + 3 else mp - 9)
      in (yoe + era * 400 + (if m \<le> 2 then 1 else 0), m, d))"

subsection \<open>\<^verbatim>\<open>strftime("%Y-%m-%dT%H:%M:%SZ")\<close>\<close>

definition pad :: "nat \<Rightarrow> int \<Rightarrow> string" where
  "pad w n = (let s = show_nat (nat n) in replicate (w - length s) (CHR ''0'') @ s)"

text \<open>The text of a whole number of seconds since the origin. The year is written
  without padding, as \<^verbatim>\<open>%Y\<close> is with glibc; from the year 1000 on it has four
  digits.\<close>

definition strftime_iso :: "int \<Rightarrow> string" where
  "strftime_iso secs =
     (let rem = secs mod 86400 in
      case civil_from_days (secs div 86400) of (y, m, d) \<Rightarrow>
        show_nat (nat y) @ ''-'' @ pad 2 m @ ''-'' @ pad 2 d @ ''T'' @
        pad 2 (rem div 3600) @ '':'' @ pad 2 (rem mod 3600 div 60) @ '':'' @ pad 2 (rem mod 60) @ ''Z'')"

subsection \<open>\<^verbatim>\<open>datetime.strptime\<close> on the three formats of \<^verbatim>\<open>parse_iso_date\<close>\<close>

text \<open>
  \<^verbatim>\<open>strptime\<close> turns the format into a regular expression, one group of ordered
  alternatives per directive, compiled with \<^verbatim>\<open>IGNORECASE\<close>:
  \<^verbatim>\<open>%Y\<close> is \<^verbatim>\<open>\d\d\d\d\<close>,
  \<^verbatim>\<open>%m\<close> is \<^verbatim>\<open>1[0-2]|0[1-9]|[1-9]\<close>,
  \<^verbatim>\<open>%d\<close> is \<^verbatim>\<open>3[0-1]|[1-2]\d|0[1-9]|[1-9]| [1-9]\<close>,
  \<^verbatim>\<open>%H\<close> is \<^verbatim>\<open>2[0-3]|[0-1]\d|\d\<close>,
  \<^verbatim>\<open>%M\<close> is \<^verbatim>\<open>[0-5]\d|\d\<close>,
  \<^verbatim>\<open>%S\<close> is \<^verbatim>\<open>6[0-1]|[0-5]\d|\d\<close>.
  It takes the first match at the start of the text, fails when text is left over,
  reads each group with \<^verbatim>\<open>int\<close>, and lets the \<^verbatim>\<open>datetime\<close> constructor refuse
  year 0, a day the month does not have and a second above 59. A character class is
  a pair of bounds.
\<close>

datatype directive = DirY | Dirm | Dird | DirH | DirM | DirS | Lit char

definition in_class :: "char \<times> char \<Rightarrow> char \<Rightarrow> bool" where
  "in_class cls c = ((of_char (fst cls) :: nat) \<le> of_char c \<and> (of_char c :: nat) \<le> of_char (snd cls))"

fun match_classes :: "(char \<times> char) list \<Rightarrow> string \<Rightarrow> (string \<times> string) option" where
  "match_classes [] s = Some ([], s)"
| "match_classes (cls # clss) [] = None"
| "match_classes (cls # clss) (c # s) =
     (if in_class cls c
      then (case match_classes clss s of None \<Rightarrow> None | Some (tok, rest) \<Rightarrow> Some (c # tok, rest))
      else None)"

definition digit :: "char \<times> char" where
  "digit = (CHR ''0'', CHR ''9'')"

definition only :: "char \<Rightarrow> char \<times> char" where
  "only c = (c, c)"

fun directive_alts :: "directive \<Rightarrow> (char \<times> char) list list" where
  "directive_alts DirY = [[digit, digit, digit, digit]]"
| "directive_alts Dirm =
     [[only (CHR ''1''), (CHR ''0'', CHR ''2'')], [only (CHR ''0''), (CHR ''1'', CHR ''9'')],
      [(CHR ''1'', CHR ''9'')]]"
| "directive_alts Dird =
     [[only (CHR ''3''), (CHR ''0'', CHR ''1'')], [(CHR ''1'', CHR ''2''), digit],
      [only (CHR ''0''), (CHR ''1'', CHR ''9'')], [(CHR ''1'', CHR ''9'')],
      [only (CHR '' ''), (CHR ''1'', CHR ''9'')]]"
| "directive_alts DirH =
     [[only (CHR ''2''), (CHR ''0'', CHR ''3'')], [(CHR ''0'', CHR ''1''), digit], [digit]]"
| "directive_alts DirM = [[(CHR ''0'', CHR ''5''), digit], [digit]]"
| "directive_alts DirS =
     [[only (CHR ''6''), (CHR ''0'', CHR ''1'')], [(CHR ''0'', CHR ''5''), digit], [digit]]"
| "directive_alts (Lit c) = []"

text \<open>A literal of the format matches itself and, for a letter, its other case.\<close>

definition same_letter :: "char \<Rightarrow> char \<Rightarrow> bool" where
  "same_letter c x =
     (x = c \<or>
      (in_class (CHR ''A'', CHR ''Z'') c \<and> (of_char x :: nat) = of_char c + 32) \<or>
      (in_class (CHR ''a'', CHR ''z'') c \<and> (of_char x :: nat) + 32 = of_char c))"

text \<open>The groups of the first match, in order, and the text left over.\<close>

fun regex_match :: "directive list \<Rightarrow> string \<Rightarrow> (string list \<times> string) option" where
  "regex_match [] s = Some ([], s)"
| "regex_match (Lit c # ds) s =
     (case s of [] \<Rightarrow> None | x # rest \<Rightarrow> if same_letter c x then regex_match ds rest else None)"
| "regex_match (d # ds) s =
     (case List.map_filter
             (\<lambda>tr. case regex_match ds (snd tr) of
                      None \<Rightarrow> None
                    | Some (toks, rest) \<Rightarrow> Some (fst tr # toks, rest))
             (List.map_filter (\<lambda>alt. match_classes alt s) (directive_alts d)) of
        [] \<Rightarrow> None
      | m # ms \<Rightarrow> Some m)"

text \<open>\<^verbatim>\<open>int(tok)\<close> on a group: decimal digits, after an optional blank.\<close>

definition py_int :: "string \<Rightarrow> int" where
  "py_int tok = foldl (\<lambda>n c. 10 * n + (int (of_char c) - 48)) 0 (filter (\<lambda>c. c \<noteq> CHR '' '') tok)"

definition mk_datetime :: "int \<Rightarrow> int \<Rightarrow> int \<Rightarrow> int \<Rightarrow> int \<Rightarrow> int \<Rightarrow> error + datetime" where
  "mk_datetime y m d hh mm ss =
     (if 1 \<le> y \<and> y \<le> 9999 \<and> 1 \<le> m \<and> m \<le> 12 \<and> 1 \<le> d \<and> d \<le> days_in_month y m \<and>
         0 \<le> hh \<and> hh \<le> 23 \<and> 0 \<le> mm \<and> mm \<le> 59 \<and> 0 \<le> ss \<and> ss \<le> 59
      then Inr (Naive ((days_from_civil y m d * 86400 + hh * 3600 + mm * 60 + ss) * 1000000))
      else Inl ValueError)"

definition strptime :: "string \<Rightarrow> directive list \<Rightarrow> error + datetime" where
  "strptime s fmt =
     (case regex_match fmt s of
        Some (toks, []) \<Rightarrow>
          (case map py_int toks of
             [y, m, d] \<Rightarrow> mk_datetime y m d 0 0 0
           | [y, m, d, hh, mm, ss] \<Rightarrow> mk_datetime y m d hh mm ss
           | _ \<Rightarrow> Inl ValueError)
      | _ \<Rightarrow> Inl ValueError)"

text \<open>The tuple of formats that both scripts try in order.\<close>

definition fmt_date :: "directive list" where
  "fmt_date = [DirY, Lit (CHR ''-''), Dirm, Lit (CHR ''-''), Dird]"

definition fmt_datetime :: "directive list" where
  "fmt_datetime = fmt_date @ [Lit (CHR ''T''), DirH, Lit (CHR '':''), DirM, Lit (CHR '':''), DirS]"

definition fmt_datetime_Z :: "directive list" where
  "fmt_datetime_Z = fmt_datetime @ [Lit (CHR ''Z'')]"

definition iso_formats :: "directive list list" where
  "iso_formats = [fmt_datetime_Z, fmt_datetime, fmt_date]"

text \<open>\<^verbatim>\<open>.replace(tzinfo=timezone.utc)\<close>: the same reading, now aware.\<close>

fun replace_tzinfo_utc :: "datetime \<Rightarrow> datetime" where
  "replace_tzinfo_utc (Naive us) = Aware us"
| "replace_tzinfo_utc (Aware us) = Aware us"

text \<open>The loop over the formats: the first that parses wins, \<^verbatim>\<open>ValueError\<close> after
  the last.\<close>

fun try_formats :: "string \<Rightarrow> directive list list \<Rightarrow> error + datetime" where
  "try_formats s [] = Inl ValueError"
| "try_formats s (fmt # fmts) =
     (case strptime s fmt of
        Inr dt \<Rightarrow> Inr (replace_tzinfo_utc dt)
      | Inl e \<Rightarrow> try_formats s fmts)"

text \<open>\<^verbatim>\<open>parse_iso_date\<close> of \<^verbatim>\<open>parse_claude.py\<close> returns the aware datetime.\<close>

definition claude_parse_iso_date :: "string \<Rightarrow> error + datetime" where
  "claude_parse_iso_date s = try_formats s iso_formats"

text \<open>\<^verbatim>\<open>parse_iso_date\<close> of \<^verbatim>\<open>parse_opencode.py\<close> returns
  \<^verbatim>\<open>int(dt.timestamp() * 1000)\<close>, the milliseconds of the instant.\<close>

definition opencode_parse_iso_date :: "string \<Rightarrow> error + int" where
  "opencode_parse_iso_date s =
     ebind (try_formats s iso_formats) (\<lambda>dt.
       case dt of Aware us \<Rightarrow> Inr (us div 1000) | Naive us \<Rightarrow> Inr (us div 1000))"

section \<open>\<^verbatim>\<open>parse_claude.py\<close>: timestamps, filter and assembly\<close>

text \<open>
  \<^verbatim>\<open>datetime.fromisoformat\<close> is a parameter of the model: a function from the text to
  the datetime it denotes, \<open>None\<close> where Python raises \<^verbatim>\<open>ValueError\<close>. The set of
  texts it accepts depends on the Python version.
\<close>

definition replace_Z :: "string \<Rightarrow> string" where
  "replace_Z ts = concat (map (\<lambda>c. if c = CHR ''Z'' then ''+00:00'' else [c]) ts)"

definition parse_timestamp :: "(string \<Rightarrow> datetime option) \<Rightarrow> json \<Rightarrow> datetime option" where
  "parse_timestamp fromisoformat ts =
     (case ts of
        JStr s \<Rightarrow> if s = [] then None else fromisoformat (replace_Z s)
      | _ \<Rightarrow> None)"

text \<open>\<^verbatim>\<open>dt_to_iso\<close>. The instant of an aware datetime is taken to lie in the years 1
  to 9999, where \<^verbatim>\<open>astimezone\<close> does not raise.\<close>

fun dt_to_iso :: "datetime option \<Rightarrow> string" where
  "dt_to_iso None = ''''"
| "dt_to_iso (Some (Aware us)) = strftime_iso (us div 1000000)"
| "dt_to_iso (Some (Naive us)) = strftime_iso (us div 1000000)"

text \<open>The body of the loop of \<^verbatim>\<open>filter_sessions_by_index\<close>: \<open>matched\<close> with the
  entry appended, or unchanged after a \<^verbatim>\<open>continue\<close>.\<close>

definition filter_entry ::
  "(string \<Rightarrow> datetime option) \<Rightarrow> datetime \<Rightarrow> datetime \<Rightarrow> json \<Rightarrow> json list \<Rightarrow> error + json list" where
  "filter_entry fromisoformat from_dt to_dt entry matched =
     ebind (py_get entry ''sessionId'' (JStr '''')) (\<lambda>session_id.
     ebind (py_get entry ''isSidechain'' (JBool False)) (\<lambda>is_sidechain.
       if truthy is_sidechain then Inr matched else
     ebind (py_get entry ''isMeta'' (JBool False)) (\<lambda>is_meta.
       if truthy is_meta then Inr matched else
     ebind (py_get entry ''created'' (JStr '''')) (\<lambda>created_str.
     ebind (py_get entry ''modified'' (JStr '''')) (\<lambda>modified_str.
       (let created_dt = parse_timestamp fromisoformat created_str;
            modified_dt = parse_timestamp fromisoformat modified_str
        in
        ebind (case created_dt of None \<Rightarrow> Inr False | Some c \<Rightarrow> dt_less to_dt c) (\<lambda>created_after.
          if created_after then Inr matched else
        ebind (case modified_dt of None \<Rightarrow> Inr False | Some m \<Rightarrow> dt_less m from_dt) (\<lambda>modified_before.
          if modified_before then Inr matched else Inr (matched @ [entry])))))))))"

definition filter_sessions_by_index ::
  "(string \<Rightarrow> datetime option) \<Rightarrow> json \<Rightarrow> datetime \<Rightarrow> datetime \<Rightarrow> error + json list" where
  "filter_sessions_by_index fromisoformat index_data from_dt to_dt =
     ebind (py_get index_data ''entries'' (JArr [])) (\<lambda>entries.
       case entries of
         JArr es \<Rightarrow> efold (filter_entry fromisoformat from_dt to_dt) es []
       | _ \<Rightarrow> Inr [])"

text \<open>
  The fallback of \<^verbatim>\<open>discover_jsonl_sessions\<close>. The directory is the list of its
  regular files, each with its modification time in microseconds.
\<close>

definition endswith :: "string \<Rightarrow> string \<Rightarrow> bool" where
  "endswith s suf = (length suf \<le> length s \<and> drop (length s - length suf) s = suf)"

definition jsonl_file_entry :: "datetime \<Rightarrow> string \<times> int \<Rightarrow> json list \<Rightarrow> error + json list" where
  "jsonl_file_entry from_dt file entries =
     (case file of (fname, mtime) \<Rightarrow>
        if \<not> endswith fname ''.jsonl'' then Inr entries
        else
          (let session_id = take (length fname - length ''.jsonl'') fname;
               mtime_dt = Aware mtime
           in ebind (dt_less mtime_dt from_dt) (\<lambda>before.
                if before then Inr entries
                else Inr (entries @
                  [JObj [(''sessionId'', JStr session_id),
                         (''created'', JStr ''''),
                         (''modified'', JStr (dt_to_iso (Some mtime_dt))),
                         (''firstPrompt'', JStr ''''),
                         (''summary'', JStr ''''),
                         (''projectPath'', JStr ''''),
                         (''isSidechain'', JBool False)]]))))"

definition discover_jsonl_sessions :: "(string \<times> int) list \<Rightarrow> datetime \<Rightarrow> error + json list" where
  "discover_jsonl_sessions listing from_dt = efold (jsonl_file_entry from_dt) listing []"

text \<open>
  A session file is the list of its lines: blank after \<^verbatim>\<open>strip\<close>, refused by
  \<^verbatim>\<open>json.loads\<close>, or the value that \<^verbatim>\<open>json.loads\<close> returns. The file system maps a
  path to a regular file; a file can refuse to open. Files are valid UTF-8.
\<close>

datatype line = Blank | Corrupt | Parsed json

datatype session_file = Unreadable | Readable "line list"

definition isfile :: "(string \<Rightarrow> session_file option) \<Rightarrow> string \<Rightarrow> bool" where
  "isfile fs path = (fs path \<noteq> None)"

definition path_join :: "string \<Rightarrow> string \<Rightarrow> string" where
  "path_join a b =
     (if b \<noteq> [] \<and> hd b = CHR ''/'' then b
      else if a = [] \<or> last a = CHR ''/'' then a @ b
      else a @ ''/'' @ b)"

text \<open>The body of the loop over the lines of a session file. The state is the line
  number, the messages and the warnings so far.\<close>

definition jsonl_line ::
  "(string \<Rightarrow> datetime option) \<Rightarrow> string \<Rightarrow> line \<Rightarrow> nat \<times> message list \<times> diag list
     \<Rightarrow> error + nat \<times> message list \<times> diag list" where
  "jsonl_line fromisoformat jsonl_path raw_line st =
     (case st of (line_num0, messages, warnings) \<Rightarrow>
       (let line_num = line_num0 + 1 in
        case raw_line of
          Blank \<Rightarrow> Inr (line_num, messages, warnings)
        | Corrupt \<Rightarrow> Inr (line_num, messages, warnings @ [CorruptJSONLLine line_num jsonl_path])
        | Parsed record \<Rightarrow>
            (case record of
               JObj kvs \<Rightarrow>
                 (let rtype = dict_get kvs ''type'' (JStr '''');
                      timestamp_str = dict_get kvs ''timestamp'' (JStr '''');
                      ts_iso = dt_to_iso (parse_timestamp fromisoformat timestamp_str)
                  in
                  if rtype = JStr ''user'' then
                    ebind (extract_user_content record) (\<lambda>content.
                      if content \<noteq> [] then
                        Inr (line_num,
                             messages @ [\<lparr>m_role = JStr ''user'', m_content = content,
                                          m_timestamp = ts_iso, m_tool_calls = None\<rparr>],
                             warnings)
                      else Inr (line_num, messages, warnings))
                  else if rtype = JStr ''assistant'' then
                    ebind (extract_assistant_content record) (\<lambda>res.
                      case res of (text, tool_calls) \<Rightarrow>
                        if text \<noteq> [] \<or> tool_calls \<noteq> [] then
                          Inr (line_num,
                               messages @ [\<lparr>m_role = JStr ''assistant'', m_content = text,
                                            m_timestamp = ts_iso,
                                            m_tool_calls = (if tool_calls \<noteq> [] then Some tool_calls else None)\<rparr>],
                               warnings)
                        else Inr (line_num, messages, warnings))
                  else Inr (line_num, messages, warnings))
             | _ \<Rightarrow> Inr (line_num, messages, warnings))))"

text \<open>\<^verbatim>\<open>process_jsonl_session\<close>: the warnings written, and the record or \<open>None\<close>.\<close>

definition process_jsonl_session ::
  "(string \<Rightarrow> datetime option) \<Rightarrow> (string \<Rightarrow> session_file option) \<Rightarrow> string \<Rightarrow> json \<Rightarrow> json
     \<Rightarrow> error + diag list \<times> session_record option" where
  "process_jsonl_session fromisoformat fs jsonl_path index_entry project_path =
     ebind (py_get index_entry ''sessionId'' (JStr '''')) (\<lambda>session_id.
       case fs jsonl_path of
         Some (Readable lines) \<Rightarrow>
           ebind (efold (jsonl_line fromisoformat jsonl_path) lines (0, [], [])) (\<lambda>st.
             case st of (line_num, messages, warnings) \<Rightarrow>
               if messages = [] then Inr (warnings, None)
               else
                 ebind (py_get index_entry ''firstPrompt'' (JStr '''')) (\<lambda>first_prompt.
                 ebind (py_get index_entry ''summary'' (JStr '''')) (\<lambda>summary.
                 ebind (py_get index_entry ''created'' (JStr '''')) (\<lambda>created_str.
                 ebind (py_get index_entry ''modified'' (JStr '''')) (\<lambda>modified_str.
                 ebind (py_get index_entry ''projectPath'' (JStr '''')) (\<lambda>entry_project.
                   (let title = py_or (py_or first_prompt summary) session_id;
                        time_start0 = dt_to_iso (parse_timestamp fromisoformat created_str);
                        time_end0 = dt_to_iso (parse_timestamp fromisoformat modified_str);
                        time_start = (if time_start0 = [] \<and> messages \<noteq> []
                                      then m_timestamp (hd messages) else time_start0);
                        time_end = (if time_end0 = [] \<and> messages \<noteq> []
                                    then m_timestamp (last messages) else time_end0);
                        effective_project = py_or entry_project project_path
                    in Inr (warnings,
                            Some \<lparr>sr_source = ''claude-code'',
                                  sr_session_id = session_id,
                                  sr_project = effective_project,
                                  sr_title = title,
                                  sr_time_start = time_start,
                                  sr_time_end = time_end,
                                  sr_messages = messages,
                                  sr_parent_id = None\<rparr>))))))))
       | _ \<Rightarrow> Inr ([CannotReadJSONL jsonl_path], None))"

section \<open>\<^verbatim>\<open>parse_claude.py\<close>: the main loop\<close>

text \<open>
  The body of the loop over the matched entries of one project. The state is what has
  been written to the two streams; the number of sessions written is the length of
  the first. \<^verbatim>\<open>os.path.isfile\<close> reads an int as a file descriptor; no descriptor
  is taken to be a session file, so that a \<^verbatim>\<open>fullPath\<close> that is an int is not found.
\<close>

definition main_entry ::
  "(string \<Rightarrow> datetime option) \<Rightarrow> (string \<Rightarrow> session_file option) \<Rightarrow> string \<Rightarrow> string \<Rightarrow> json
     \<Rightarrow> session_record list \<times> diag list \<Rightarrow> error + session_record list \<times> diag list" where
  "main_entry fromisoformat fs project_dir_path project_path_decoded entry st =
     (case st of (out, err) \<Rightarrow>
       ebind (py_get entry ''sessionId'' (JStr '''')) (\<lambda>session_id.
         if \<not> truthy session_id then Inr (out, err)
         else
           (case session_id of
              JStr sid \<Rightarrow>
                (let jsonl_path = path_join project_dir_path (sid @ ''.jsonl'') in
                 ebind (if isfile fs jsonl_path then Inr (Some jsonl_path)
                        else
                          ebind (py_get entry ''fullPath'' (JStr '''')) (\<lambda>full_path.
                            if \<not> truthy full_path then Inr None
                            else (case full_path of
                                    JStr fp \<Rightarrow> Inr (if isfile fs fp then Some fp else None)
                                  | JInt n \<Rightarrow> Inr None
                                  | JBool b \<Rightarrow> Inr None
                                  | _ \<Rightarrow> Inl TypeError)))
                   (\<lambda>found.
                      case found of
                        None \<Rightarrow> Inr (out, err @ [JSONLNotFound sid jsonl_path])
                      | Some path \<Rightarrow>
                          ebind (process_jsonl_session fromisoformat fs path entry
                                   (JStr project_path_decoded)) (\<lambda>res.
                            case res of (warnings, result) \<Rightarrow>
                              Inr (case result of None \<Rightarrow> out | Some r \<Rightarrow> out @ [r],
                                   err @ warnings))))
            | _ \<Rightarrow> Inl TypeError)))"

text \<open>
  A project directory as \<^verbatim>\<open>discover_project_dirs\<close> and \<^verbatim>\<open>load_sessions_index\<close>
  find it: its path, the decoded project path, its index file and its regular files
  with their modification times. An index file that holds \<^verbatim>\<open>null\<close> loads as
  \<^verbatim>\<open>None\<close>, which \<^verbatim>\<open>main\<close> takes for a missing index.
\<close>

datatype index_file = NoIndex | BadIndex | UnreadableIndex | Index json

definition load_sessions_index :: "string \<Rightarrow> index_file \<Rightarrow> diag list \<times> json option" where
  "load_sessions_index project_dir idx =
     (case idx of
        NoIndex \<Rightarrow> ([], None)
      | BadIndex \<Rightarrow> ([CorruptIndex (path_join project_dir ''sessions-index.json'')], None)
      | UnreadableIndex \<Rightarrow> ([CannotReadIndex (path_join project_dir ''sessions-index.json'')], None)
      | Index index_data \<Rightarrow> ([], if index_data = JNull then None else Some index_data))"

text \<open>The body of the loop over the project directories.\<close>

definition main_project ::
  "(string \<Rightarrow> datetime option) \<Rightarrow> (string \<Rightarrow> session_file option) \<Rightarrow> datetime \<Rightarrow> datetime
     \<Rightarrow> string \<times> string \<times> index_file \<times> (string \<times> int) list
     \<Rightarrow> session_record list \<times> diag list \<Rightarrow> error + session_record list \<times> diag list" where
  "main_project fromisoformat fs from_dt to_dt project st =
     (case project of (project_dir_path, project_path_decoded, idx, listing) \<Rightarrow>
      case st of (out, err) \<Rightarrow>
      case load_sessions_index project_dir_path idx of (warnings, index_data) \<Rightarrow>
        ebind (case index_data of
                 Some d \<Rightarrow> filter_sessions_by_index fromisoformat d from_dt to_dt
               | None \<Rightarrow> discover_jsonl_sessions listing from_dt) (\<lambda>matched_entries.
          efold (main_entry fromisoformat fs project_dir_path project_path_decoded)
            matched_entries (out, err @ warnings)))"

text \<open>The check of \<^verbatim>\<open>--from\<close> and \<^verbatim>\<open>--to\<close> at the head of \<^verbatim>\<open>main\<close>: the run
  ends there (\<open>Inl\<close>), or goes on with the two bounds.\<close>

definition usage_error :: "diag \<Rightarrow> exit_state" where
  "usage_error d = \<lparr>exit_code = 1, stdout_lines = [], stderr_lines = [d]\<rparr>"

definition claude_main_dates :: "string option \<Rightarrow> string option \<Rightarrow> exit_state + datetime \<times> datetime" where
  "claude_main_dates from_date to_date =
     (if (from_date \<noteq> None) \<noteq> (to_date \<noteq> None) then Inl (usage_error BothRequired)
      else
        (case from_date of
           None \<Rightarrow> Inl (usage_error BothRequired)
         | Some f \<Rightarrow>
             (case to_date of
                None \<Rightarrow> Inl (usage_error BothRequired)
              | Some t \<Rightarrow>
                  (case ebind (claude_parse_iso_date f) (\<lambda>from_dt.
                          ebind (claude_parse_iso_date t) (\<lambda>to_dt. Inr (from_dt, to_dt))) of
                     Inl e \<Rightarrow> Inl (usage_error DateParseError)
                   | Inr bounds \<Rightarrow> Inr bounds))))"

text \<open>\<^verbatim>\<open>main\<close>, given the arguments and what the directory holds. \<open>Inl\<close> is an
  exception that nothing catches.\<close>

definition claude_main ::
  "(string \<Rightarrow> datetime option) \<Rightarrow> (string \<Rightarrow> session_file option) \<Rightarrow> string option \<Rightarrow> string option
     \<Rightarrow> bool \<Rightarrow> (string \<times> string \<times> index_file \<times> (string \<times> int) list) list \<Rightarrow> error + exit_state" where
  "claude_main fromisoformat fs from_date to_date claude_dir_exists project_dirs =
     (case claude_main_dates from_date to_date of
        Inl ex \<Rightarrow> Inr ex
      | Inr (from_dt, to_dt) \<Rightarrow>
          if \<not> claude_dir_exists
          then Inr \<lparr>exit_code = 0, stdout_lines = [], stderr_lines = [DirectoryMissing]\<rparr>
          else
            ebind (efold (main_project fromisoformat fs from_dt to_dt) project_dirs ([], [])) (\<lambda>st.
              case st of (out, err) \<Rightarrow>
                Inr \<lparr>exit_code = 0, stdout_lines = out,
                     stderr_lines = err @ (if out = [] then [NoSessionsFound] else [])\<rparr>))"

section \<open>\<^verbatim>\<open>parse_opencode.py\<close>: assembly\<close>

fun get_nested :: "json \<Rightarrow> string list \<Rightarrow> json \<Rightarrow> json" where
  "get_nested cur [] dflt = cur"
| "get_nested (JObj kvs) (k # ks) dflt =
     (case dict_get kvs k JNull of JNull \<Rightarrow> dflt | v \<Rightarrow> get_nested v ks dflt)"
| "get_nested _ (k # ks) dflt = dflt"

text \<open>
  \<^verbatim>\<open>ms_to_iso\<close>: \<^verbatim>\<open>utcfromtimestamp\<close> raises outside the years 1 to 9999, and
  \<^verbatim>\<open>strftime\<close> drops what is below the second.
\<close>

definition ms_to_iso :: "int \<Rightarrow> error + string" where
  "ms_to_iso ms =
     (let secs = ms div 1000 in
      if - 62135596800 \<le> secs \<and> secs \<le> 253402300799 then Inr (strftime_iso secs)
      else Inl OutOfRangeError)"

text \<open>\<^verbatim>\<open>isinstance(x, (int, float))\<close>: an int, or a bool, which Python counts as one.\<close>

fun as_number :: "json \<Rightarrow> int option" where
  "as_number (JInt n) = Some n"
| "as_number (JBool b) = Some (if b then 1 else 0)"
| "as_number _ = None"

text \<open>The expression \<^verbatim>\<open>ms_to_iso(x) if isinstance(x, (int, float)) else ""\<close>.\<close>

definition iso_if_number :: "json \<Rightarrow> error + string" where
  "iso_if_number x = (case as_number x of Some ms \<Rightarrow> ms_to_iso ms | None \<Rightarrow> Inr '''')"

definition build_session_result ::
  "json \<Rightarrow> json \<Rightarrow> json \<Rightarrow> json \<Rightarrow> json \<Rightarrow> message list \<Rightarrow> json \<Rightarrow> error + session_record" where
  "build_session_result session_id directory title time_created time_updated unified_messages parent_id =
     ebind (iso_if_number time_created) (\<lambda>time_start.
     ebind (iso_if_number time_updated) (\<lambda>time_end.
       Inr \<lparr>sr_source = ''opencode'',
            sr_session_id = session_id,
            sr_project = directory,
            sr_title = title,
            sr_time_start = time_start,
            sr_time_end = time_end,
            sr_messages = unified_messages,
            sr_parent_id = (if truthy parent_id then Some parent_id else None)\<rparr>))"

text \<open>
  The statements that both backends run on the parts of one message (lines 268 to 284
  and 433 to 449): decode the parts, skip the message when nothing came out, append the
  entry otherwise.
\<close>

definition append_message :: "json \<Rightarrow> json \<Rightarrow> json list \<Rightarrow> message list \<Rightarrow> error + message list" where
  "append_message role msg_time parts unified_messages =
     ebind (process_parts parts) (\<lambda>res.
       case res of (content, tool_calls) \<Rightarrow>
         if content = [] \<and> tool_calls = [] then Inr unified_messages
         else
           ebind (iso_if_number msg_time) (\<lambda>ts.
             Inr (unified_messages @
                  [\<lparr>m_role = role, m_content = content, m_timestamp = ts,
                    m_tool_calls = (if tool_calls \<noteq> [] then Some tool_calls else None)\<rparr>])))"

definition rstrip_slash :: "string \<Rightarrow> string" where
  "rstrip_slash s = rev (dropWhile (\<lambda>c. c = CHR ''/'') (rev s))"

section \<open>\<^verbatim>\<open>parse_opencode.py\<close>: the SQLite backend\<close>

text \<open>
  The queries of \<^verbatim>\<open>parse_sqlite\<close>. A \<^verbatim>\<open>WHERE\<close> clause keeps a row when every
  condition is true; a comparison with \<^verbatim>\<open>NULL\<close> is never true. SQLite orders
  \<^verbatim>\<open>NULL\<close> before every number and every number before every text. \<^verbatim>\<open>ORDER BY\<close>
  is an insertion sort that keeps rows with equal keys in table order (SQLite leaves
  their order open).
\<close>

fun py_value :: "sql_value \<Rightarrow> json" where
  "py_value Null = JNull"
| "py_value (Integer n) = JInt n"
| "py_value (Text s) = JStr s"

fun str_le :: "string \<Rightarrow> string \<Rightarrow> bool" where
  "str_le [] t = True"
| "str_le (c # s) [] = False"
| "str_le (c # s) (d # t) =
     ((of_char c :: nat) < of_char d \<or> (c = d \<and> str_le s t))"

fun sql_le :: "sql_value \<Rightarrow> sql_value \<Rightarrow> bool" where
  "sql_le Null v = True"
| "sql_le (Integer a) Null = False"
| "sql_le (Integer a) (Integer b) = (a \<le> b)"
| "sql_le (Integer a) (Text t) = True"
| "sql_le (Text s) (Text t) = str_le s t"
| "sql_le (Text s) _ = False"

text \<open>\<^verbatim>\<open>col >= ?\<close>, \<^verbatim>\<open>col <= ?\<close> and \<^verbatim>\<open>col = ?\<close> as conditions.\<close>

fun sql_ge_cond :: "sql_value \<Rightarrow> sql_value \<Rightarrow> bool" where
  "sql_ge_cond Null v = False"
| "sql_ge_cond u Null = False"
| "sql_ge_cond u v = sql_le v u"

fun sql_le_cond :: "sql_value \<Rightarrow> sql_value \<Rightarrow> bool" where
  "sql_le_cond Null v = False"
| "sql_le_cond u Null = False"
| "sql_le_cond u v = sql_le u v"

fun sql_eq_cond :: "sql_value \<Rightarrow> sql_value \<Rightarrow> bool" where
  "sql_eq_cond Null v = False"
| "sql_eq_cond u Null = False"
| "sql_eq_cond u v = (u = v)"

fun insert_by :: "('a \<Rightarrow> sql_value) \<Rightarrow> 'a \<Rightarrow> 'a list \<Rightarrow> 'a list" where
  "insert_by key x [] = [x]"
| "insert_by key x (y # ys) =
     (if sql_le (key y) (key x) then y # insert_by key x ys else x # y # ys)"

definition order_by :: "('a \<Rightarrow> sql_value) \<Rightarrow> 'a list \<Rightarrow> 'a list" where
  "order_by key rows = foldl (\<lambda>sorted row. insert_by key row sorted) [] rows"

text \<open>The two session queries (lines 188 to 213): with a filter that is neither
  \<^verbatim>\<open>None\<close> nor empty, and without.\<close>

definition select_sessions :: "database \<Rightarrow> int \<Rightarrow> int \<Rightarrow> string option \<Rightarrow> session_row list" where
  "select_sessions db from_ms to_ms project_path_filter =
     (case project_path_filter of
        Some p \<Rightarrow>
          if p \<noteq> [] then
            order_by s_time_created
              (filter (\<lambda>r. sql_eq_cond (s_directory r) (Text (rstrip_slash p)) \<and>
                            sql_ge_cond (s_time_created r) (Integer from_ms) \<and>
                            sql_le_cond (s_time_created r) (Integer to_ms) \<and>
                            s_time_archived r = Null) (db_session db))
          else
            order_by s_time_created
              (filter (\<lambda>r. sql_ge_cond (s_time_created r) (Integer from_ms) \<and>
                            sql_le_cond (s_time_created r) (Integer to_ms) \<and>
                            s_time_archived r = Null) (db_session db))
      | None \<Rightarrow>
          order_by s_time_created
            (filter (\<lambda>r. sql_ge_cond (s_time_created r) (Integer from_ms) \<and>
                          sql_le_cond (s_time_created r) (Integer to_ms) \<and>
                          s_time_archived r = Null) (db_session db)))"

definition select_messages :: "database \<Rightarrow> sql_value \<Rightarrow> message_row list" where
  "select_messages db sid =
     order_by mr_time_created (filter (\<lambda>m. sql_eq_cond (mr_session_id m) sid) (db_message db))"

definition select_parts :: "database \<Rightarrow> sql_value \<Rightarrow> part_row list" where
  "select_parts db mid =
     order_by pr_time_created (filter (\<lambda>p. sql_eq_cond (pr_message_id p) mid) (db_part db))"

text \<open>The body of the loop over the message rows of a session.\<close>

definition sqlite_message :: "database \<Rightarrow> message_row \<Rightarrow> message list \<Rightarrow> error + message list" where
  "sqlite_message db msg_row unified_messages =
     (case mr_data msg_row of
        None \<Rightarrow> Inr unified_messages
      | Some msg_data \<Rightarrow>
          ebind (py_get msg_data ''role'' (JStr '''')) (\<lambda>role.
            (let msg_time = get_nested msg_data [''time'', ''created''] JNull;
                 parts = List.map_filter pr_data (select_parts db (mr_id msg_row))
             in append_message role msg_time parts unified_messages)))"

text \<open>The body of the loop over the selected session rows; \<open>out\<close> is what the
  generator has yielded so far.\<close>

definition sqlite_session :: "database \<Rightarrow> session_row \<Rightarrow> session_record list \<Rightarrow> error + session_record list" where
  "sqlite_session db row out =
     (let sid = py_value (s_id row);
          parent_id = py_or (py_value (s_parent_id row)) JNull;
          directory = py_or (py_value (s_directory row)) (JStr '''');
          title = py_or (py_value (s_title row)) (JStr '''');
          time_created = py_value (s_time_created row);
          time_updated = py_value (s_time_updated row);
          msg_rows = select_messages db (s_id row)
      in
      if msg_rows = [] then Inr out
      else
        ebind (efold (sqlite_message db) msg_rows []) (\<lambda>unified_messages.
          if unified_messages = [] then Inr out
          else
            ebind (build_session_result sid directory title time_created time_updated
                     unified_messages parent_id) (\<lambda>r. Inr (out @ [r]))))"

definition parse_sqlite :: "database \<Rightarrow> int \<Rightarrow> int \<Rightarrow> string option \<Rightarrow> error + session_record list" where
  "parse_sqlite db from_ms to_ms project_path_filter =
     efold (sqlite_session db) (select_sessions db from_ms to_ms project_path_filter) []"

section \<open>\<^verbatim>\<open>parse_opencode.py\<close>: the file backend\<close>

text \<open>
  \<^verbatim>\<open>load_messages\<close> and \<^verbatim>\<open>load_parts\<close> read directories; they are parameters of the
  model, functions from the identifier to the list of dicts they return.
\<close>

definition file_message :: "(json \<Rightarrow> error + json list) \<Rightarrow> json \<Rightarrow> message list \<Rightarrow> error + message list" where
  "file_message load_parts msg unified_messages =
     ebind (py_get msg ''id'' (JStr '''')) (\<lambda>msg_id.
     ebind (py_get msg ''role'' (JStr '''')) (\<lambda>role.
       (let msg_time = get_nested msg [''time'', ''created''] JNull in
        ebind (load_parts msg_id) (\<lambda>parts.
          append_message role msg_time parts unified_messages))))"

definition process_session_file ::
  "(json \<Rightarrow> error + json list) \<Rightarrow> (json \<Rightarrow> error + json list) \<Rightarrow> json \<Rightarrow> string option
     \<Rightarrow> error + session_record option" where
  "process_session_file load_messages load_parts session_data project_path_filter =
     ebind (py_get session_data ''id'' (JStr '''')) (\<lambda>session_id.
     ebind (py_get session_data ''directory'' (JStr '''')) (\<lambda>directory.
     ebind (case project_path_filter of
              None \<Rightarrow> Inr False
            | Some p \<Rightarrow>
                if p = [] then Inr False
                else (case directory of
                        JStr d \<Rightarrow> Inr (rstrip_slash d \<noteq> rstrip_slash p)
                      | _ \<Rightarrow> Inl AttributeError)) (\<lambda>other_project.
       if other_project then Inr None
       else
         ebind (load_messages session_id) (\<lambda>raw_messages.
           if raw_messages = [] then Inr None
           else
             ebind (efold (file_message load_parts) raw_messages []) (\<lambda>unified_messages.
               if unified_messages = [] then Inr None
               else
                 (let time_created = get_nested session_data [''time'', ''created''] JNull;
                      time_updated = get_nested session_data [''time'', ''updated''] JNull
                  in
                  ebind (py_get session_data ''title'' JNull) (\<lambda>title0.
                  ebind (py_get session_data ''slug'' JNull) (\<lambda>slug.
                    (let title = py_or (py_or title0 slug) (JStr '''') in
                     ebind (build_session_result session_id directory title time_created
                              time_updated unified_messages JNull) (\<lambda>r. Inr (Some r)))))))))))"

text \<open>The check of \<^verbatim>\<open>--from\<close> and \<^verbatim>\<open>--to\<close> at the head of \<^verbatim>\<open>main\<close>.\<close>

definition opencode_main_dates :: "string option \<Rightarrow> string option \<Rightarrow> exit_state + int \<times> int" where
  "opencode_main_dates from_date to_date =
     (if (from_date \<noteq> None) \<noteq> (to_date \<noteq> None) then Inl (usage_error BothRequired)
      else
        (case from_date of
           None \<Rightarrow> Inl (usage_error BothRequired)
         | Some f \<Rightarrow>
             (case to_date of
                None \<Rightarrow> Inl (usage_error BothRequired)
              | Some t \<Rightarrow>
                  (case ebind (opencode_parse_iso_date f) (\<lambda>from_ms.
                          ebind (opencode_parse_iso_date t) (\<lambda>to_ms. Inr (from_ms, to_ms))) of
                     Inl e \<Rightarrow> Inl (usage_error DateParseError)
                   | Inr bounds \<Rightarrow> Inr bounds))))"

section \<open>Predicates of the statements\<close>

text \<open>
  What the body of the loop of \<^verbatim>\<open>filter_sessions_by_index\<close> decides on an entry
  that is a dict: it keeps the entry when neither flag is truthy, a creation time that
  parses is compared with \<open>to_dt\<close> and found not to lie after it, and a modification
  time that parses is compared with \<open>from_dt\<close> and found not to lie before it.
\<close>

definition index_rule ::
  "(string \<Rightarrow> datetime option) \<Rightarrow> datetime \<Rightarrow> datetime \<Rightarrow> (string \<times> json) list \<Rightarrow> bool" where
  "index_rule fromisoformat from_dt to_dt kvs \<longleftrightarrow>
     \<not> truthy (dict_get kvs ''isSidechain'' (JBool False)) \<and>
     \<not> truthy (dict_get kvs ''isMeta'' (JBool False)) \<and>
     (\<forall>c. parse_timestamp fromisoformat (dict_get kvs ''created'' (JStr '''')) = Some c \<longrightarrow>
          dt_less to_dt c = Inr False) \<and>
     (\<forall>m. parse_timestamp fromisoformat (dict_get kvs ''modified'' (JStr '''')) = Some m \<longrightarrow>
          dt_less m from_dt = Inr False)"



text \<open>
  The invariant of the data model on a normalized message: it has content or tool
  calls, and the key \<^verbatim>\<open>"tool_calls"\<close> never holds an empty list.
\<close>

definition message_ok :: "message \<Rightarrow> bool" where
  "message_ok m \<longleftrightarrow>
     (m_content m \<noteq> [] \<or> (\<exists>tcs. m_tool_calls m = Some tcs \<and> tcs \<noteq> [])) \<and>
     m_tool_calls m \<noteq> Some []"

definition record_ok :: "session_record \<Rightarrow> bool" where
  "record_ok r \<longleftrightarrow> sr_messages r \<noteq> [] \<and> (\<forall>m \<in> set (sr_messages r). message_ok m)"

text \<open>
  The two forms that the interface names, \<^verbatim>\<open>YYYY-MM-DD\<close> and
  \<^verbatim>\<open>YYYY-MM-DDTHH:MM:SSZ\<close>, as the zero-padded text of a civil date and time.
\<close>

definition valid_civil :: "int \<Rightarrow> int \<Rightarrow> int \<Rightarrow> int \<Rightarrow> int \<Rightarrow> int \<Rightarrow> bool" where
  "valid_civil y m d hh mm ss \<longleftrightarrow>
     1 \<le> y \<and> y \<le> 9999 \<and> 1 \<le> m \<and> m \<le> 12 \<and> 1 \<le> d \<and> d \<le> days_in_month y m \<and>
     0 \<le> hh \<and> hh \<le> 23 \<and> 0 \<le> mm \<and> mm \<le> 59 \<and> 0 \<le> ss \<and> ss \<le> 59"

definition date_text :: "int \<Rightarrow> int \<Rightarrow> int \<Rightarrow> string" where
  "date_text y m d = pad 4 y @ ''-'' @ pad 2 m @ ''-'' @ pad 2 d"

definition datetime_text :: "int \<Rightarrow> int \<Rightarrow> int \<Rightarrow> int \<Rightarrow> int \<Rightarrow> int \<Rightarrow> string" where
  "datetime_text y m d hh mm ss =
     date_text y m d @ ''T'' @ pad 2 hh @ '':'' @ pad 2 mm @ '':'' @ pad 2 ss"

definition datetime_text_Z :: "int \<Rightarrow> int \<Rightarrow> int \<Rightarrow> int \<Rightarrow> int \<Rightarrow> int \<Rightarrow> string" where
  "datetime_text_Z y m d hh mm ss = datetime_text y m d hh mm ss @ ''Z''"

text \<open>A text has one of the two forms when it follows the template letter by letter,
  a digit for each of \<^verbatim>\<open>Y\<close>, \<^verbatim>\<open>M\<close>, \<^verbatim>\<open>D\<close>, \<^verbatim>\<open>H\<close> and \<^verbatim>\<open>S\<close>.\<close>

definition follows_template :: "string \<Rightarrow> string \<Rightarrow> bool" where
  "follows_template template s =
     list_all2 (\<lambda>p c. if p \<in> set ''YMDHS'' then in_class digit c else c = p) template s"

definition documented_form :: "string \<Rightarrow> bool" where
  "documented_form s \<longleftrightarrow>
     follows_template ''YYYY-MM-DDTHH:MM:SSZ'' s \<or> follows_template ''YYYY-MM-DD'' s"

text \<open>A stand-in for \<^verbatim>\<open>datetime.fromisoformat\<close> in the examples: it reads
  \<^verbatim>\<open>YYYY-MM-DDTHH:MM:SS+00:00\<close> and nothing else.\<close>

definition sample_fromisoformat :: "string \<Rightarrow> datetime option" where
  "sample_fromisoformat s =
     (if drop 19 s = ''+00:00'' then
        (case strptime (take 19 s) fmt_datetime of
           Inr dt \<Rightarrow> Some (replace_tzinfo_utc dt)
         | Inl e \<Rightarrow> None)
      else None)"



section \<open>Sample data\<close>

text \<open>An index with one entry inside the range from 2026-02-20 to 2026-02-21, one
  created after it, one last modified before it, one without timestamps and one
  sidechain entry.\<close>

definition entry_inside :: "(string \<times> json) list" where
  "entry_inside =
     [(''sessionId'', JStr ''s-inside''), (''firstPrompt'', JStr ''Fix the build''),
      (''created'', JStr ''2026-02-20T09:00:00Z''), (''modified'', JStr ''2026-02-20T09:00:10Z''),
      (''isSidechain'', JBool False)]"



definition entry_undated :: "(string \<times> json) list" where
  "entry_undated = [(''sessionId'', JStr ''s-undated''), (''summary'', JStr ''Notes'')]"

definition entry_sidechain :: "(string \<times> json) list" where
  "entry_sidechain =
     [(''sessionId'', JStr ''s-side''),
      (''created'', JStr ''2026-02-20T09:00:00Z''), (''modified'', JStr ''2026-02-20T09:00:10Z''),
      (''isSidechain'', JBool True)]"

definition entry_unnamed :: "(string \<times> json) list" where
  "entry_unnamed = [(''sessionId'', JStr ''''), (''firstPrompt'', JStr ''Lost'')]"





text \<open>The bounds, in microseconds: 2026-02-20T00:00:00Z and 2026-02-21T00:00:00Z.\<close>

definition sample_from :: int where
  "sample_from = 1771545600000000"

definition sample_to :: int where
  "sample_to = 1771632000000000"

text \<open>A session file with a user line, an assistant line that calls a tool, a line
  that is not JSON and an assistant line that only thinks.\<close>

definition sample_lines :: "line list" where
  "sample_lines =
     [Parsed (JObj [(''type'', JStr ''user''), (''timestamp'', JStr ''2026-02-20T09:00:01Z''),
                    (''message'', JObj [(''content'', JStr ''Fix the build'')])]),
      Corrupt,
      Parsed (JObj [(''type'', JStr ''assistant''), (''timestamp'', JStr ''2026-02-20T09:00:05Z''),
                    (''message'', JObj [(''content'',
                       JArr [JObj [(''type'', JStr ''thinking''), (''thinking'', JStr ''hm'')],
                             JObj [(''type'', JStr ''tool_use''), (''name'', JStr ''bash''),
                                   (''input'', JObj [(''command'', JStr ''make'')])]])])]),
      Parsed (JObj [(''type'', JStr ''assistant''), (''timestamp'', JStr ''2026-02-20T09:00:07Z''),
                    (''message'', JObj [(''content'',
                       JArr [JObj [(''type'', JStr ''thinking''), (''thinking'', JStr ''done'')]])])])]"

definition sample_fs :: "string \<Rightarrow> session_file option" where
  "sample_fs path =
     (if path = ''/p/s-inside.jsonl'' \<or> path = ''/p/s-undated.jsonl'' \<or> path = ''/p/s-side.jsonl''
      then Some (Readable sample_lines) else None)"

text \<open>An index with the sidechain entry and the undated one only.\<close>

definition flagged_index :: "(string \<times> json) list" where
  "flagged_index = [(''entries'', JArr [JObj entry_sidechain, JObj entry_undated])]"

text \<open>A file system with a one-line session file for the sidechain entry and for the
  undated one.\<close>

definition tiny_fs :: "string \<Rightarrow> session_file option" where
  "tiny_fs path =
     (if path = ''/p/s-undated.jsonl'' \<or> path = ''/p/s-side.jsonl''
      then Some (Readable [Parsed (JObj [(''type'', JStr ''user''),
                                         (''message'', JObj [(''content'', JStr ''hello'')])])])
      else None)"

text \<open>
  A store of \<^verbatim>\<open>parse_opencode.py\<close>, as a database and as files: session
  \<^verbatim>\<open>ses_a\<close> has no title and no update time, a user message and an assistant message
  that calls a tool with no input; session \<^verbatim>\<open>ses_b\<close>, created later, has one message
  whose only part is a step marker; \<^verbatim>\<open>ses_old\<close> lies before the range and
  \<^verbatim>\<open>ses_arch\<close> is archived. The range is 2025-02-20 to 2025-02-21, in milliseconds.
\<close>

definition part_text :: json where
  "part_text = JObj [(''type'', JStr ''text''), (''text'', JStr ''How do I verify a JWT?'')]"

definition part_tool :: json where
  "part_tool = JObj [(''type'', JStr ''tool''), (''tool'', JStr ''bash''),
                     (''state'', JObj [(''input'', JNull)])]"

definition part_step :: json where
  "part_step = JObj [(''type'', JStr ''step-start'')]"

definition msg_user :: json where
  "msg_user = JObj [(''id'', JStr ''msg_1''), (''role'', JStr ''user''),
                    (''time'', JObj [(''created'', JInt 1740052805000)])]"

definition msg_assistant :: json where
  "msg_assistant = JObj [(''id'', JStr ''msg_2''), (''role'', JStr ''assistant''),
                         (''time'', JObj [(''created'', JInt 1740052810000)])]"

definition msg_empty :: json where
  "msg_empty = JObj [(''id'', JStr ''msg_3''), (''role'', JStr ''assistant'')]"

definition sample_db :: database where
  "sample_db =
     \<lparr>db_session =
        [\<lparr>s_id = Text ''ses_b'', s_parent_id = Null, s_directory = Text ''/proj'',
          s_title = Text ''Second'', s_time_created = Integer 1740060000000,
          s_time_updated = Integer 1740060001000, s_time_archived = Null\<rparr>,
         \<lparr>s_id = Text ''ses_a'', s_parent_id = Null, s_directory = Text ''/proj'',
          s_title = Text '''', s_time_created = Integer 1740052800000,
          s_time_updated = Null, s_time_archived = Null\<rparr>,
         \<lparr>s_id = Text ''ses_old'', s_parent_id = Null, s_directory = Text ''/proj'',
          s_title = Text ''Old'', s_time_created = Integer 1577836800000,
          s_time_updated = Null, s_time_archived = Null\<rparr>,
         \<lparr>s_id = Text ''ses_arch'', s_parent_id = Null, s_directory = Text ''/proj'',
          s_title = Text ''Archived'', s_time_created = Integer 1740052900000,
          s_time_updated = Null, s_time_archived = Integer 1740053000000\<rparr>],
      db_message =
        [\<lparr>mr_id = Text ''msg_1'', mr_session_id = Text ''ses_a'', mr_data = Some msg_user,
          mr_time_created = Integer 1740052805000\<rparr>,
         \<lparr>mr_id = Text ''msg_2'', mr_session_id = Text ''ses_a'', mr_data = Some msg_assistant,
          mr_time_created = Integer 1740052810000\<rparr>,
         \<lparr>mr_id = Text ''msg_3'', mr_session_id = Text ''ses_b'', mr_data = Some msg_empty,
          mr_time_created = Integer 1740060000500\<rparr>],
      db_part =
        [\<lparr>pr_message_id = Text ''msg_1'', pr_data = Some part_text,
          pr_time_created = Integer 1740052805000\<rparr>,
         \<lparr>pr_message_id = Text ''msg_2'', pr_data = Some part_tool,
          pr_time_created = Integer 1740052810000\<rparr>,
         \<lparr>pr_message_id = Text ''msg_3'', pr_data = Some part_step,
          pr_time_created = Integer 1740060000500\<rparr>]\<rparr>"

definition sample_from_ms :: int where
  "sample_from_ms = 1740009600000"

definition sample_to_ms :: int where
  "sample_to_ms = 1740096000000"

definition session_a :: "(string \<times> json) list" where
  "session_a = [(''id'', JStr ''ses_a''), (''directory'', JStr ''/proj''), (''title'', JStr ''''),
                (''time'', JObj [(''created'', JInt 1740052800000)])]"

definition session_b :: "(string \<times> json) list" where
  "session_b = [(''id'', JStr ''ses_b''), (''directory'', JStr ''/proj''), (''title'', JStr ''Second''),
                (''time'', JObj [(''created'', JInt 1740060000000)])]"

definition sample_load_messages :: "json \<Rightarrow> error + json list" where
  "sample_load_messages session_id =
     (if session_id = JStr ''ses_a'' then Inr [msg_user, msg_assistant]
      else if session_id = JStr ''ses_b'' then Inr [msg_empty]
      else Inr [])"

definition sample_load_parts :: "json \<Rightarrow> error + json list" where
  "sample_load_parts message_id =
     (if message_id = JStr ''msg_1'' then Inr [part_text]
      else if message_id = JStr ''msg_2'' then Inr [part_tool]
      else if message_id = JStr ''msg_3'' then Inr [part_step]
      else Inr [])"

text \<open>A session file in which nothing decodes to a message: a blank line, a line
  that is not JSON, an assistant line that only thinks and a user line without text.\<close>

definition quiet_lines :: "line list" where
  "quiet_lines =
     [Blank, Corrupt,
      Parsed (JObj [(''type'', JStr ''assistant''),
                    (''message'', JObj [(''content'',
                       JArr [JObj [(''type'', JStr ''thinking''), (''thinking'', JStr ''hm'')]])])]),
      Parsed (JObj [(''type'', JStr ''user''), (''message'', JObj [(''content'', JStr '''')])])]"

definition quiet_fs :: "string \<Rightarrow> session_file option" where
  "quiet_fs path = (if path = ''/p/q.jsonl'' then Some (Readable quiet_lines) else None)"

definition row_b :: session_row where
  "row_b = \<lparr>s_id = Text ''ses_b'', s_parent_id = Null, s_directory = Text ''/proj'',
            s_title = Text ''Second'', s_time_created = Integer 1740060000000,
            s_time_updated = Integer 1740060001000, s_time_archived = Null\<rparr>"

definition row_a :: session_row where
  "row_a = \<lparr>s_id = Text ''ses_a'', s_parent_id = Null, s_directory = Text ''/proj'',
            s_title = Text '''', s_time_created = Integer 1740052800000,
            s_time_updated = Null, s_time_archived = Null\<rparr>"

text \<open>The record that both backends of \<^verbatim>\<open>parse_opencode.py\<close> build for
  \<^verbatim>\<open>ses_a\<close>.\<close>

definition record_a :: session_record where
  "record_a =
     \<lparr>sr_source = ''opencode'', sr_session_id = JStr ''ses_a'', sr_project = JStr ''/proj'',
      sr_title = JStr '''', sr_time_start = ''2025-02-20T12:00:00Z'', sr_time_end = '''',
      sr_messages =
        [\<lparr>m_role = JStr ''user'', m_content = ''How do I verify a JWT?'',
          m_timestamp = ''2025-02-20T12:00:05Z'', m_tool_calls = None\<rparr>,
         \<lparr>m_role = JStr ''assistant'', m_content = '''',
          m_timestamp = ''2025-02-20T12:00:10Z'',
          m_tool_calls = Some [\<lparr>tc_tool = JStr ''bash'', tc_input = '''', tc_output = ''''\<rparr>]\<rparr>],
      sr_parent_id = None\<rparr>"

text \<open>An assistant line of \<^verbatim>\<open>parse_claude.py\<close> whose tool input is \<^verbatim>\<open>true\<close>.\<close>

definition tool_use_true :: "(string \<times> json) list" where
  "tool_use_true = [(''type'', JStr ''tool_use''), (''name'', JStr ''bash''), (''input'', JBool True)]"

definition line_tool_true :: "(string \<times> json) list" where
  "line_tool_true =
     [(''type'', JStr ''assistant''),
      (''message'', JObj [(''content'', JArr [JObj tool_use_true])])]"

text \<open>An index entry with a creation time and no modification time, and its file.\<close>

definition entry_started :: "(string \<times> json) list" where
  "entry_started = [(''sessionId'', JStr ''s-started''), (''created'', JStr ''2026-02-20T09:00:00Z'')]"

definition dated_fs :: "string \<Rightarrow> session_file option" where
  "dated_fs path =
     (if path = ''/p/s-started.jsonl''
      then Some (Readable [Parsed (JObj [(''type'', JStr ''user''),
                                         (''timestamp'', JStr ''2026-02-20T09:00:01Z''),
                                         (''message'', JObj [(''content'', JStr ''hello'')])])])
      else None)"

text \<open>Tool calls whose input is a dict: a block of \<^verbatim>\<open>parse_claude.py\<close> in its line,
  and a part of \<^verbatim>\<open>parse_opencode.py\<close>.\<close>

definition tool_use_make :: "(string \<times> json) list" where
  "tool_use_make = [(''type'', JStr ''tool_use''), (''name'', JStr ''bash''),
                    (''input'', JObj [(''command'', JStr ''make'')])]"

definition line_tool_make :: "(string \<times> json) list" where
  "line_tool_make =
     [(''type'', JStr ''assistant''),
      (''message'', JObj [(''content'', JArr [JObj tool_use_make])])]"

definition part_tool_ls :: "(string \<times> json) list" where
  "part_tool_ls = [(''type'', JStr ''tool''), (''tool'', JStr ''bash''),
                   (''state'', JObj [(''input'', JObj [(''command'', JStr ''ls'')])])]"

section \<open>Properties\<close>

text \<open>
  C6. A str longer than 200 characters comes back 200 characters long, its first 197
  characters kept and followed by three dots; a str of at most 200 characters comes
  back unchanged.
\<close>

theorem truncate_long_short:
  "(length s > 200 \<longrightarrow>
      length (truncate (JStr s)) = 200 \<and>
      take 197 (truncate (JStr s)) = take 197 s \<and>
      drop 197 (truncate (JStr s)) = ''...'') \<and>
   (length s \<le> 200 \<longrightarrow> truncate (JStr s) = s)"
  by (simp add: truncate_def max_len_def)

theorem truncate_long_short_witness:
  "length (replicate 201 (CHR ''a'')) > 200 \<and>
   length (truncate (JStr (replicate 201 (CHR ''a'')))) = 200 \<and>
   drop 197 (truncate (JStr (replicate 201 (CHR ''a'')))) = ''...'' \<and>
   length ''ls -la'' \<le> 200 \<and>
   truncate (JStr ''ls -la'') = ''ls -la''"
  using truncate_long_short [of "replicate 201 (CHR ''a'')"] truncate_long_short [of "''ls -la''"]
  by simp

subsection \<open>Exceptions and loops\<close>

lemma ebind_Inr [simp]: "ebind (Inr x) f = f x"
  by (simp add: ebind_def)

lemma ebind_Inl [simp]: "ebind (Inl e) f = Inl e"
  by (simp add: ebind_def)

lemma ebind_Inr_iff: "ebind m f = Inr y \<longleftrightarrow> (\<exists>x. m = Inr x \<and> f x = Inr y)"
  by (cases m) simp_all

lemma efold_append: "efold f (xs @ ys) s = ebind (efold f xs s) (efold f ys)"
  by (induction xs arbitrary: s) (simp_all add: ebind_def split: sum.splits)

text \<open>A loop whose every step only appends to a part \<open>g\<close> of its state, each new
  item related to the element the step ran on, has appended only such items.\<close>

lemma efold_grows:
  assumes step: "\<And>x s s'. x \<in> set xs \<Longrightarrow> f x s = Inr s' \<Longrightarrow>
                   \<exists>new. g s' = g s @ new \<and> (\<forall>r \<in> set new. P x r)"
    and run: "efold f xs s = Inr s'"
  shows "\<exists>new. g s' = g s @ new \<and> (\<forall>r \<in> set new. \<exists>x \<in> set xs. P x r)"
  using assms
proof (induction xs arbitrary: s)
  case Nil
  then show ?case by simp
next
  case (Cons x xs)
  from Cons.prems(2) obtain s1 where s1: "f x s = Inr s1" and s2: "efold f xs s1 = Inr s'"
    by (auto simp: ebind_Inr_iff)
  from Cons.prems(1) [OF _ s1] obtain new1 where n1: "g s1 = g s @ new1" "\<forall>r \<in> set new1. P x r"
    by auto
  have "\<exists>new. g s' = g s1 @ new \<and> (\<forall>r \<in> set new. \<exists>x \<in> set xs. P x r)"
    by (rule Cons.IH [OF _ s2]) (use Cons.prems(1) in auto)
  then obtain new2 where n2: "g s' = g s1 @ new2" "\<forall>r \<in> set new2. \<exists>x \<in> set xs. P x r"
    by blast
  from n1 n2 have "g s' = g s @ (new1 @ new2)" by simp
  moreover from n1 n2 have "\<forall>r \<in> set (new1 @ new2). \<exists>y \<in> set (x # xs). P y r" by auto
  ultimately show ?case by blast
qed

subsection \<open>The index filter of \<^verbatim>\<open>parse_claude.py\<close>\<close>

lemma filter_entry_Inr:
  assumes "filter_entry fi from_dt to_dt e matched = Inr matched'"
  shows "\<exists>kvs. e = JObj kvs \<and>
           matched' = (if index_rule fi from_dt to_dt kvs then matched @ [e] else matched)"
proof (cases e)
  case (JObj kvs)
  with assms show ?thesis
    by (auto simp: filter_entry_def index_rule_def Let_def ebind_Inr_iff
             split: if_splits option.splits)
qed (use assms in \<open>simp_all add: filter_entry_def\<close>)

lemma efold_filter_entry:
  "efold (filter_entry fi from_dt to_dt) es m0 = Inr m \<Longrightarrow>
   m = m0 @ filter (\<lambda>e. \<exists>kvs. e = JObj kvs \<and> index_rule fi from_dt to_dt kvs) es"
proof (induction es arbitrary: m0)
  case Nil
  then show ?case by simp
next
  case (Cons e es)
  from Cons.prems obtain m1 where s1: "filter_entry fi from_dt to_dt e m0 = Inr m1"
    and s2: "efold (filter_entry fi from_dt to_dt) es m1 = Inr m"
    by (auto simp: ebind_Inr_iff)
  from filter_entry_Inr [OF s1] obtain kvs where e: "e = JObj kvs"
    and m1: "m1 = (if index_rule fi from_dt to_dt kvs then m0 @ [e] else m0)" by blast
  from Cons.IH [OF s2] m1 e show ?case by simp
qed

lemma filter_sessions_by_index_eq:
  assumes "filter_sessions_by_index fi (JObj idx) from_dt to_dt = Inr matched"
    and "dict_get idx ''entries'' (JArr []) = JArr es"
  shows "matched = filter (\<lambda>e. \<exists>kvs. e = JObj kvs \<and> index_rule fi from_dt to_dt kvs) es"
  using assms efold_filter_entry [of fi from_dt to_dt es "[]" matched]
  by (simp add: filter_sessions_by_index_def)






subsection \<open>C1: the time range of the index filter\<close>




subsection \<open>Sessions of \<^verbatim>\<open>parse_claude.py\<close>\<close>

lemma jsonl_line_messages:
  assumes "jsonl_line fi path l (n, msgs, ws) = Inr (n', msgs', ws')"
  shows "\<exists>new. msgs' = msgs @ new \<and> (\<forall>m \<in> set new. message_ok m)"
  using assms
  by (cases l)
     (auto simp: jsonl_line_def Let_def ebind_Inr_iff message_ok_def
           split: json.splits if_splits prod.splits)

lemma efold_jsonl_line_messages:
  assumes "efold (jsonl_line fi path) ls (n, msgs, ws) = Inr (n', msgs', ws')"
  shows "\<exists>new. msgs' = msgs @ new \<and> (\<forall>m \<in> set new. message_ok m)"
proof -
  have "\<exists>new. (fst \<circ> snd) (n', msgs', ws') = (fst \<circ> snd) (n, msgs, ws) @ new \<and>
          (\<forall>r \<in> set new. \<exists>x \<in> set ls. message_ok r)"
  proof (rule efold_grows [where f = "jsonl_line fi path" and P = "\<lambda>x r. message_ok r"])
    show "efold (jsonl_line fi path) ls (n, msgs, ws) = Inr (n', msgs', ws')"
      by (rule assms)
  next
    fix x s s'
    assume "jsonl_line fi path x s = Inr s'"
    then show "\<exists>new. (fst \<circ> snd) s' = (fst \<circ> snd) s @ new \<and> (\<forall>r \<in> set new. message_ok r)"
      using jsonl_line_messages [of fi path x "fst s" "fst (snd s)" "snd (snd s)"
                                   "fst s'" "fst (snd s')" "snd (snd s')"]
      by simp
  qed
  then show ?thesis by auto
qed

text \<open>What \<^verbatim>\<open>process_jsonl_session\<close> returns, in terms of the loop over the lines.\<close>

lemma process_jsonl_session_Some:
  assumes "process_jsonl_session fi fs path (JObj kvs) pp = Inr (ws, Some r)"
  shows "\<exists>ls n msgs.
           fs path = Some (Readable ls) \<and>
           efold (jsonl_line fi path) ls (0, [], []) = Inr (n, msgs, ws) \<and>
           msgs \<noteq> [] \<and>
           r = \<lparr>sr_source = ''claude-code'',
                 sr_session_id = dict_get kvs ''sessionId'' (JStr []),
                 sr_project = py_or (dict_get kvs ''projectPath'' (JStr [])) pp,
                 sr_title = py_or (py_or (dict_get kvs ''firstPrompt'' (JStr []))
                                         (dict_get kvs ''summary'' (JStr [])))
                                  (dict_get kvs ''sessionId'' (JStr [])),
                 sr_time_start =
                   (if dt_to_iso (parse_timestamp fi (dict_get kvs ''created'' (JStr []))) = []
                    then m_timestamp (hd msgs)
                    else dt_to_iso (parse_timestamp fi (dict_get kvs ''created'' (JStr [])))),
                 sr_time_end =
                   (if dt_to_iso (parse_timestamp fi (dict_get kvs ''modified'' (JStr []))) = []
                    then m_timestamp (last msgs)
                    else dt_to_iso (parse_timestamp fi (dict_get kvs ''modified'' (JStr [])))),
                 sr_messages = msgs,
                 sr_parent_id = None\<rparr>"
  using assms
  by (auto simp: process_jsonl_session_def Let_def ebind_Inr_iff
           split: option.splits session_file.splits if_splits prod.splits)

lemma process_jsonl_session_ok:
  assumes "process_jsonl_session fi fs path (JObj kvs) pp = Inr (ws, Some r)"
  shows "record_ok r"
proof -
  from process_jsonl_session_Some [OF assms] obtain ls n msgs where
    run: "efold (jsonl_line fi path) ls (0, [], []) = Inr (n, msgs, ws)"
    and ne: "msgs \<noteq> []" and r: "sr_messages r = msgs"
    by auto
  from efold_jsonl_line_messages [OF run] have "\<forall>m \<in> set msgs. message_ok m" by simp
  with ne r show ?thesis by (simp add: record_ok_def)
qed

lemma process_jsonl_session_not_dict:
  assumes "process_jsonl_session fi fs path e pp = Inr res"
  shows "is_dict e"
  using assms by (cases e) (simp_all add: process_jsonl_session_def)

text \<open>The text of a datetime is never empty.\<close>

lemma strftime_iso_nonempty: "strftime_iso secs \<noteq> []"
  by (simp add: strftime_iso_def Let_def split: prod.splits)

lemma dt_to_iso_empty: "dt_to_iso d = [] \<longleftrightarrow> d = None"
proof (cases d)
  case None
  then show ?thesis by simp
next
  case (Some dt)
  then show ?thesis by (cases dt) (simp_all add: strftime_iso_nonempty)
qed

subsection \<open>The main loop of \<^verbatim>\<open>parse_claude.py\<close>\<close>

lemma main_entry_out:
  assumes "main_entry fi fs dir dec e (out, err) = Inr (out', err')"
  shows "\<exists>new. out' = out @ new \<and>
           (\<forall>r \<in> set new. \<exists>kvs. e = JObj kvs \<and>
              sr_session_id r = dict_get kvs ''sessionId'' (JStr []) \<and> record_ok r)"
proof (cases e)
  case (JObj kvs)
  have "sr_session_id r = dict_get kvs ''sessionId'' (JStr []) \<and> record_ok r"
    if "process_jsonl_session fi fs path (JObj kvs) pp = Inr (ws, Some r)" for path pp ws r
    using process_jsonl_session_Some [OF that] process_jsonl_session_ok [OF that] by auto
  with JObj assms show ?thesis
    by (auto simp: main_entry_def Let_def ebind_Inr_iff
             split: if_splits json.splits option.splits)
qed (use assms in \<open>simp_all add: main_entry_def\<close>)

lemma efold_main_entry_out:
  assumes "efold (main_entry fi fs dir dec) es (out, err) = Inr (out', err')"
  shows "\<exists>new. out' = out @ new \<and>
           (\<forall>r \<in> set new. \<exists>kvs. JObj kvs \<in> set es \<and>
              sr_session_id r = dict_get kvs ''sessionId'' (JStr []) \<and> record_ok r)"
proof -
  have "\<exists>new. fst (out', err') = fst (out, err) @ new \<and>
          (\<forall>r \<in> set new. \<exists>e \<in> set es. \<exists>kvs. e = JObj kvs \<and>
             sr_session_id r = dict_get kvs ''sessionId'' (JStr []) \<and> record_ok r)"
  proof (rule efold_grows [where f = "main_entry fi fs dir dec"])
    show "efold (main_entry fi fs dir dec) es (out, err) = Inr (out', err')"
      by (rule assms)
  next
    fix x s s'
    assume "main_entry fi fs dir dec x s = Inr s'"
    then show "\<exists>new. fst s' = fst s @ new \<and>
                 (\<forall>r \<in> set new. \<exists>kvs. x = JObj kvs \<and>
                    sr_session_id r = dict_get kvs ''sessionId'' (JStr []) \<and> record_ok r)"
      using main_entry_out [of fi fs dir dec x "fst s" "snd s" "fst s'" "snd s'"] by simp
  qed
  then obtain new where n: "out' = out @ new"
    and p: "\<forall>r \<in> set new. \<exists>e \<in> set es. \<exists>kvs. e = JObj kvs \<and>
             sr_session_id r = dict_get kvs ''sessionId'' (JStr []) \<and> record_ok r"
    by auto
  from p have "\<forall>r \<in> set new. \<exists>kvs. JObj kvs \<in> set es \<and>
             sr_session_id r = dict_get kvs ''sessionId'' (JStr []) \<and> record_ok r"
    by blast
  with n show ?thesis by blast
qed

text \<open>An entry whose identifier is falsy leaves both streams as they were.\<close>

lemma main_entry_skip:
  assumes "\<not> truthy (dict_get kvs ''sessionId'' (JStr []))"
  shows "main_entry fi fs dir dec (JObj kvs) st = Inr st"
  using assms by (cases st) (simp add: main_entry_def)

lemma main_project_index_out:
  assumes "main_project fi fs from_dt to_dt (dir, dec, Index (JObj idx), listing) (out, err) = Inr (out', err')"
    and "dict_get idx ''entries'' (JArr []) = JArr es"
  shows "\<exists>new. out' = out @ new \<and>
           (\<forall>r \<in> set new. \<exists>kvs. JObj kvs \<in> set es \<and> index_rule fi from_dt to_dt kvs \<and>
              sr_session_id r = dict_get kvs ''sessionId'' (JStr []) \<and> record_ok r)"
proof -
  from assms(1) obtain matched where
    m: "filter_sessions_by_index fi (JObj idx) from_dt to_dt = Inr matched"
    and run: "efold (main_entry fi fs dir dec) matched (out, err) = Inr (out', err')"
    by (auto simp: main_project_def load_sessions_index_def ebind_Inr_iff)
  from filter_sessions_by_index_eq [OF m assms(2)]
  have "\<forall>kvs. JObj kvs \<in> set matched \<longrightarrow> JObj kvs \<in> set es \<and> index_rule fi from_dt to_dt kvs"
    by auto
  with efold_main_entry_out [OF run] show ?thesis by blast
qed

subsection \<open>C10: entries without a session id\<close>

text \<open>
  C10. A matched entry whose \<^verbatim>\<open>sessionId\<close> is missing or the empty string is passed
  over in silence: the loop body leaves the output and the error stream as they were,
  so the loop over a list that holds such an entry does what it does on the list
  without it.
\<close>

theorem unnamed_entry_skipped:
  assumes "map_of kvs ''sessionId'' = None \<or> map_of kvs ''sessionId'' = Some (JStr '''')"
  shows "main_entry fromisoformat fs project_dir_path project_path_decoded (JObj kvs) (out, err) =
           Inr (out, err) \<and>
         efold (main_entry fromisoformat fs project_dir_path project_path_decoded)
           (before @ JObj kvs # after) (out, err) =
         efold (main_entry fromisoformat fs project_dir_path project_path_decoded)
           (before @ after) (out, err)"
proof -
  from assms have falsy: "\<not> truthy (dict_get kvs ''sessionId'' (JStr []))"
    by (auto simp: dict_get_def)
  have skip: "main_entry fromisoformat fs project_dir_path project_path_decoded (JObj kvs) st = Inr st"
    for st
    by (rule main_entry_skip [OF falsy])
  have "efold (main_entry fromisoformat fs project_dir_path project_path_decoded) (JObj kvs # after) =
        efold (main_entry fromisoformat fs project_dir_path project_path_decoded) after"
    by (rule ext) (simp add: skip)
  then have "efold (main_entry fromisoformat fs project_dir_path project_path_decoded)
               (before @ JObj kvs # after) (out, err) =
             efold (main_entry fromisoformat fs project_dir_path project_path_decoded)
               (before @ after) (out, err)"
    by (simp only: efold_append)
  with skip show ?thesis by simp
qed

theorem unnamed_entry_skipped_witness:
  "(map_of entry_unnamed ''sessionId'' = None \<or> map_of entry_unnamed ''sessionId'' = Some (JStr '''')) \<and>
   main_entry sample_fromisoformat sample_fs ''/p'' ''/p'' (JObj entry_unnamed) ([], []) = Inr ([], []) \<and>
   efold (main_entry sample_fromisoformat sample_fs ''/p'' ''/p'')
     ([JObj entry_inside] @ JObj entry_unnamed # [JObj entry_undated]) ([], []) =
   efold (main_entry sample_fromisoformat sample_fs ''/p'' ''/p'')
     ([JObj entry_inside] @ [JObj entry_undated]) ([], [])"
proof -
  have h: "map_of entry_unnamed ''sessionId'' = None \<or>
           map_of entry_unnamed ''sessionId'' = Some (JStr '''')"
    by (simp add: entry_unnamed_def)
  from unnamed_entry_skipped [OF h, of sample_fromisoformat sample_fs "''/p''" "''/p''" "[]" "[]"
         "[JObj entry_inside]" "[JObj entry_undated]"] h
  show ?thesis by simp
qed

subsection \<open>C8: sidechain and meta entries\<close>

text \<open>
  C8. In a project that has an index, an entry whose \<^verbatim>\<open>isSidechain\<close> (or
  \<^verbatim>\<open>isMeta\<close>) flag is truthy is never among the matched entries, whatever the bounds,
  and no record that the project adds to the output carries its session id. Session
  ids are unique within the index, as the data model has them: no other entry shares
  the id of the flagged one.
\<close>

theorem flagged_entries_never_emitted:
  assumes "dict_get idx ''entries'' (JArr []) = JArr es"
    and "JObj kvs \<in> set es"
    and "truthy (dict_get kvs ''isSidechain'' (JBool False)) \<or>
         truthy (dict_get kvs ''isMeta'' (JBool False))"
    and "\<forall>kvs'. JObj kvs' \<in> set es \<and>
           dict_get kvs' ''sessionId'' (JStr '''') = dict_get kvs ''sessionId'' (JStr '''') \<longrightarrow>
           kvs' = kvs"
  shows "(\<forall>matched. filter_sessions_by_index fromisoformat (JObj idx) from_dt to_dt = Inr matched \<longrightarrow>
            JObj kvs \<notin> set matched) \<and>
         (\<forall>out err out' err'.
            main_project fromisoformat fs from_dt to_dt
              (project_dir_path, project_path_decoded, Index (JObj idx), listing) (out, err) =
              Inr (out', err') \<longrightarrow>
            (\<exists>new. out' = out @ new \<and>
               (\<forall>r \<in> set new. sr_session_id r \<noteq> dict_get kvs ''sessionId'' (JStr ''''))))"
proof (intro conjI allI impI)
  fix matched
  assume "filter_sessions_by_index fromisoformat (JObj idx) from_dt to_dt = Inr matched"
  from filter_sessions_by_index_eq [OF this assms(1)] assms(3)
  show "JObj kvs \<notin> set matched"
    by (auto simp: index_rule_def)
next
  fix out err out' err'
  assume "main_project fromisoformat fs from_dt to_dt
            (project_dir_path, project_path_decoded, Index (JObj idx), listing) (out, err) =
            Inr (out', err')"
  from main_project_index_out [OF this assms(1)] obtain new where
    n: "out' = out @ new"
    and p: "\<forall>r \<in> set new. \<exists>kvs'. JObj kvs' \<in> set es \<and>
              index_rule fromisoformat from_dt to_dt kvs' \<and>
              sr_session_id r = dict_get kvs' ''sessionId'' (JStr []) \<and> record_ok r"
    by blast
  have "sr_session_id r \<noteq> dict_get kvs ''sessionId'' (JStr '''')" if "r \<in> set new" for r
  proof
    assume eq: "sr_session_id r = dict_get kvs ''sessionId'' (JStr '''')"
    from p that obtain kvs' where k: "JObj kvs' \<in> set es"
      "index_rule fromisoformat from_dt to_dt kvs'"
      "sr_session_id r = dict_get kvs' ''sessionId'' (JStr [])"
      by blast
    with eq assms(4) have "kvs' = kvs" by simp
    with k(2) assms(3) show False by (auto simp: index_rule_def)
  qed
  with n show "\<exists>new. out' = out @ new \<and>
                 (\<forall>r \<in> set new. sr_session_id r \<noteq> dict_get kvs ''sessionId'' (JStr ''''))"
    by blast
qed

theorem flagged_entries_never_emitted_witness:
  "\<exists>out' err'.
     main_project sample_fromisoformat tiny_fs (Aware sample_from) (Aware sample_to)
       (''/p'', ''/p'', Index (JObj flagged_index), []) ([], []) = Inr (out', err') \<and>
     out' \<noteq> [] \<and> (\<forall>r \<in> set out'. sr_session_id r \<noteq> JStr ''s-side'')"
proof -
  have entries: "dict_get flagged_index ''entries'' (JArr []) =
                   JArr [JObj entry_sidechain, JObj entry_undated]"
    by (simp add: flagged_index_def dict_get_def)
  have member: "JObj entry_sidechain \<in> set [JObj entry_sidechain, JObj entry_undated]"
    by simp
  have flag: "truthy (dict_get entry_sidechain ''isSidechain'' (JBool False)) \<or>
              truthy (dict_get entry_sidechain ''isMeta'' (JBool False))"
    by (simp add: entry_sidechain_def dict_get_def)
  have sid: "dict_get entry_sidechain ''sessionId'' (JStr '''') = JStr ''s-side''"
    by (simp add: entry_sidechain_def dict_get_def)
  have other: "dict_get entry_undated ''sessionId'' (JStr '''') \<noteq> JStr ''s-side''"
    by (simp add: entry_undated_def dict_get_def)
  have unique: "\<forall>kvs'. JObj kvs' \<in> set [JObj entry_sidechain, JObj entry_undated] \<and>
      dict_get kvs' ''sessionId'' (JStr '''') = dict_get entry_sidechain ''sessionId'' (JStr '''') \<longrightarrow>
      kvs' = entry_sidechain"
    using other by (auto simp: sid)
  have "case main_project sample_fromisoformat tiny_fs (Aware sample_from) (Aware sample_to)
               (''/p'', ''/p'', Index (JObj flagged_index), []) ([], []) of
          Inr (out', err') \<Rightarrow> out' \<noteq> [] | Inl e \<Rightarrow> False"
    by code_simp
  then obtain out' err' where
    run: "main_project sample_fromisoformat tiny_fs (Aware sample_from) (Aware sample_to)
            (''/p'', ''/p'', Index (JObj flagged_index), []) ([], []) = Inr (out', err')"
    and ne: "out' \<noteq> []"
    by (auto split: sum.splits)
  from flagged_entries_never_emitted [OF entries member flag unique,
         of sample_fromisoformat "Aware sample_from" "Aware sample_to" tiny_fs "''/p''" "''/p''" "[]"]
       run
  obtain new where "out' = [] @ new"
    "\<forall>r \<in> set new. sr_session_id r \<noteq> dict_get entry_sidechain ''sessionId'' (JStr '''')"
    by blast
  with sid have "\<forall>r \<in> set out'. sr_session_id r \<noteq> JStr ''s-side''"
    by simp
  with run ne show ?thesis by blast
qed

subsection \<open>Tool calls of the decoders\<close>

lemma assistant_block_acc:
  "assistant_block b (tp, tcs) =
     (tp @ fst (assistant_block b ([], [])), tcs @ snd (assistant_block b ([], [])))"
  by (simp add: assistant_block_def Let_def split: json.splits)

lemma fold_assistant_block_calls:
  "snd (fold assistant_block bs (tp, tcs)) =
     tcs @ concat (map (\<lambda>b. snd (assistant_block b ([], []))) bs)"
proof (induction bs arbitrary: tp tcs)
  case Nil
  then show ?case by simp
next
  case (Cons b bs)
  have "assistant_block b (tp, tcs) =
        (tp @ fst (assistant_block b ([], [])), tcs @ snd (assistant_block b ([], [])))"
    by (rule assistant_block_acc)
  then show ?case by (simp add: Cons.IH)
qed

lemma extract_assistant_content_calls:
  assumes "extract_assistant_content (JObj rec) = Inr (text, tcs)"
    and "dict_get rec ''message'' (JObj []) = JObj msg"
    and "dict_get msg ''content'' JNull = JArr blocks"
  shows "tcs = concat (map (\<lambda>b. snd (assistant_block b ([], []))) blocks)"
proof -
  from assms have "tcs = snd (fold assistant_block blocks ([], []))"
    by (auto simp: extract_assistant_content_def ebind_Inr_iff split: prod.splits)
  then show ?thesis by (simp add: fold_assistant_block_calls)
qed

lemma process_part_acc:
  "process_part p (tp, tcs) = Inr acc' \<Longrightarrow>
   \<exists>tp1 tcs1. process_part p ([], []) = Inr (tp1, tcs1) \<and> acc' = (tp @ tp1, tcs @ tcs1)"
  by (cases p) (auto simp: process_part_def Let_def ebind_Inr_iff split: if_splits)

lemma efold_process_part_calls:
  "efold process_part ps (tp, tcs) = Inr (tp', tcs') \<Longrightarrow>
   tcs' = tcs @ concat (map (\<lambda>p. case process_part p ([], []) of
                                    Inr (t, c) \<Rightarrow> c | Inl e \<Rightarrow> []) ps)"
proof (induction ps arbitrary: tp tcs)
  case Nil
  then show ?case by simp
next
  case (Cons p ps)
  from Cons.prems obtain acc1 where s1: "process_part p (tp, tcs) = Inr acc1"
    and s2: "efold process_part ps acc1 = Inr (tp', tcs')"
    by (auto simp: ebind_Inr_iff)
  from process_part_acc [OF s1] obtain tp1 tcs1 where
    e: "process_part p ([], []) = Inr (tp1, tcs1)" and a: "acc1 = (tp @ tp1, tcs @ tcs1)"
    by blast
  from s2 a have "efold process_part ps (tp @ tp1, tcs @ tcs1) = Inr (tp', tcs')"
    by simp
  from Cons.IH [OF this] e show ?case by simp
qed

lemma process_parts_calls:
  assumes "process_parts ps = Inr (content, tcs)"
  shows "tcs = concat (map (\<lambda>p. case process_part p ([], []) of
                                   Inr (t, c) \<Rightarrow> c | Inl e \<Rightarrow> []) ps)"
proof -
  from assms obtain tp where "efold process_part ps ([], []) = Inr (tp, tcs)"
    by (auto simp: process_parts_def ebind_Inr_iff split: prod.splits)
  from efold_process_part_calls [OF this] show ?thesis by simp
qed

subsection \<open>Sessions of \<^verbatim>\<open>parse_opencode.py\<close>\<close>

lemma append_message_ok:
  assumes "append_message role msg_time parts msgs = Inr msgs'"
  shows "\<exists>new. msgs' = msgs @ new \<and> (\<forall>m \<in> set new. message_ok m)"
  using assms
  by (auto simp: append_message_def ebind_Inr_iff message_ok_def split: prod.splits if_splits)

lemma sqlite_message_ok:
  assumes "sqlite_message db row msgs = Inr msgs'"
  shows "\<exists>new. msgs' = msgs @ new \<and> (\<forall>m \<in> set new. message_ok m)"
  using assms
  by (auto simp: sqlite_message_def Let_def ebind_Inr_iff split: option.splits
           dest: append_message_ok)

lemma file_message_ok:
  assumes "file_message load_parts msg msgs = Inr msgs'"
  shows "\<exists>new. msgs' = msgs @ new \<and> (\<forall>m \<in> set new. message_ok m)"
  using assms
  by (auto simp: file_message_def Let_def ebind_Inr_iff dest: append_message_ok)

lemma efold_messages_ok:
  assumes step: "\<And>x s s'. f x s = Inr s' \<Longrightarrow> \<exists>new. s' = s @ new \<and> (\<forall>m \<in> set new. message_ok m)"
    and run: "efold f xs [] = Inr msgs"
  shows "\<forall>m \<in> set msgs. message_ok m"
proof -
  have "\<exists>new. id msgs = id [] @ new \<and> (\<forall>r \<in> set new. \<exists>x \<in> set xs. message_ok r)"
    by (rule efold_grows [where f = f and P = "\<lambda>x r. message_ok r", OF _ run])
       (use step in simp)
  then show ?thesis by auto
qed

lemma build_session_result_Inr:
  assumes "build_session_result sid dir title tc tu msgs parent = Inr r"
  shows "sr_source r = ''opencode'' \<and> sr_session_id r = sid \<and> sr_project r = dir \<and>
         sr_title r = title \<and> sr_messages r = msgs \<and>
         iso_if_number tc = Inr (sr_time_start r) \<and> iso_if_number tu = Inr (sr_time_end r) \<and>
         sr_parent_id r = (if truthy parent then Some parent else None)"
  using assms by (auto simp: build_session_result_def ebind_Inr_iff)

lemma process_session_file_Some:
  assumes "process_session_file load_messages load_parts (JObj kvs) pf = Inr (Some r)"
  shows "\<exists>raw msgs.
           load_messages (dict_get kvs ''id'' (JStr [])) = Inr raw \<and>
           efold (file_message load_parts) raw [] = Inr msgs \<and> msgs \<noteq> [] \<and>
           build_session_result (dict_get kvs ''id'' (JStr [])) (dict_get kvs ''directory'' (JStr []))
             (py_or (py_or (dict_get kvs ''title'' JNull) (dict_get kvs ''slug'' JNull)) (JStr []))
             (get_nested (JObj kvs) [''time'', ''created''] JNull)
             (get_nested (JObj kvs) [''time'', ''updated''] JNull) msgs JNull = Inr r"
  using assms
  by (auto simp: process_session_file_def Let_def ebind_Inr_iff split: if_splits)

lemma process_session_file_ok:
  assumes "process_session_file load_messages load_parts (JObj kvs) pf = Inr (Some r)"
  shows "record_ok r"
proof -
  from process_session_file_Some [OF assms] obtain raw msgs where
    run: "efold (file_message load_parts) raw [] = Inr msgs" and ne: "msgs \<noteq> []"
    and b: "build_session_result (dict_get kvs ''id'' (JStr [])) (dict_get kvs ''directory'' (JStr []))
             (py_or (py_or (dict_get kvs ''title'' JNull) (dict_get kvs ''slug'' JNull)) (JStr []))
             (get_nested (JObj kvs) [''time'', ''created''] JNull)
             (get_nested (JObj kvs) [''time'', ''updated''] JNull) msgs JNull = Inr r"
    by blast
  have "\<forall>m \<in> set msgs. message_ok m"
    by (rule efold_messages_ok [OF _ run]) (rule file_message_ok)
  with ne build_session_result_Inr [OF b] show ?thesis by (simp add: record_ok_def)
qed

lemma sqlite_session_out:
  assumes "sqlite_session db row out = Inr out'"
  shows "out' = out \<or>
         (\<exists>r msgs. out' = out @ [r] \<and>
            efold (sqlite_message db) (select_messages db (s_id row)) [] = Inr msgs \<and> msgs \<noteq> [] \<and>
            build_session_result (py_value (s_id row))
              (py_or (py_value (s_directory row)) (JStr []))
              (py_or (py_value (s_title row)) (JStr []))
              (py_value (s_time_created row)) (py_value (s_time_updated row)) msgs
              (py_or (py_value (s_parent_id row)) JNull) = Inr r)"
  using assms
  by (auto simp: sqlite_session_def Let_def ebind_Inr_iff split: if_splits)

lemma sqlite_session_ok:
  assumes "sqlite_session db row out = Inr out'"
  shows "\<exists>new. out' = out @ new \<and>
           (\<forall>r \<in> set new. record_ok r \<and> sr_session_id r = py_value (s_id row))"
proof -
  from sqlite_session_out [OF assms] consider "out' = out"
    | r msgs where "out' = out @ [r]"
        "efold (sqlite_message db) (select_messages db (s_id row)) [] = Inr msgs" "msgs \<noteq> []"
        "build_session_result (py_value (s_id row))
              (py_or (py_value (s_directory row)) (JStr []))
              (py_or (py_value (s_title row)) (JStr []))
              (py_value (s_time_created row)) (py_value (s_time_updated row)) msgs
              (py_or (py_value (s_parent_id row)) JNull) = Inr r"
    by blast
  then show ?thesis
  proof cases
    case 1
    then show ?thesis by simp
  next
    case 2
    have "\<forall>m \<in> set msgs. message_ok m"
      by (rule efold_messages_ok [OF _ 2(2)]) (rule sqlite_message_ok)
    with 2 build_session_result_Inr [OF 2(4)] show ?thesis by (simp add: record_ok_def)
  qed
qed

subsection \<open>The queries of the SQLite backend\<close>
















lemma parse_sqlite_ok:
  assumes "parse_sqlite db from_ms to_ms pf = Inr rs"
  shows "\<forall>r \<in> set rs. record_ok r"
proof -
  have "\<exists>new. id rs = id [] @ new \<and>
          (\<forall>r \<in> set new. \<exists>x \<in> set (select_sessions db from_ms to_ms pf). record_ok r)"
  proof (rule efold_grows [where f = "sqlite_session db" and g = id and P = "\<lambda>x r. record_ok r"])
    show "efold (sqlite_session db) (select_sessions db from_ms to_ms pf) [] = Inr rs"
      using assms by (simp add: parse_sqlite_def)
  next
    fix x s s'
    assume "sqlite_session db x s = Inr s'"
    from sqlite_session_ok [OF this]
    show "\<exists>new. id s' = id s @ new \<and> (\<forall>r \<in> set new. record_ok r)" by auto
  qed
  then show ?thesis by auto
qed

subsection \<open>C2: what an emitted record holds\<close>

text \<open>Sessions in which no message decodes to content or tool calls.\<close>

lemma jsonl_line_quiet:
  assumes "\<forall>kvs. l = Parsed (JObj kvs) \<longrightarrow>
             (dict_get kvs ''type'' (JStr '''') = JStr ''user'' \<longrightarrow>
                extract_user_content (JObj kvs) = Inr '''') \<and>
             (dict_get kvs ''type'' (JStr '''') = JStr ''assistant'' \<longrightarrow>
                extract_assistant_content (JObj kvs) = Inr ('''', []))"
  shows "\<exists>n' ws'. jsonl_line fi path l (n, msgs, ws) = Inr (n', msgs, ws')"
proof (cases l)
  case (Parsed v)
  show ?thesis
  proof (cases v)
    case (JObj kvs)
    with Parsed assms show ?thesis
      by (auto simp: jsonl_line_def Let_def)
  qed (use Parsed in \<open>simp_all add: jsonl_line_def\<close>)
qed (simp_all add: jsonl_line_def)

lemma efold_jsonl_line_quiet:
  assumes "\<forall>l \<in> set ls. \<forall>kvs. l = Parsed (JObj kvs) \<longrightarrow>
             (dict_get kvs ''type'' (JStr '''') = JStr ''user'' \<longrightarrow>
                extract_user_content (JObj kvs) = Inr '''') \<and>
             (dict_get kvs ''type'' (JStr '''') = JStr ''assistant'' \<longrightarrow>
                extract_assistant_content (JObj kvs) = Inr ('''', []))"
  shows "\<exists>n' ws'. efold (jsonl_line fi path) ls (n, msgs, ws) = Inr (n', msgs, ws')"
  using assms
proof (induction ls arbitrary: n ws)
  case Nil
  then show ?case by simp
next
  case (Cons l ls)
  from Cons.prems have "\<forall>kvs. l = Parsed (JObj kvs) \<longrightarrow>
             (dict_get kvs ''type'' (JStr '''') = JStr ''user'' \<longrightarrow>
                extract_user_content (JObj kvs) = Inr '''') \<and>
             (dict_get kvs ''type'' (JStr '''') = JStr ''assistant'' \<longrightarrow>
                extract_assistant_content (JObj kvs) = Inr ('''', []))"
    by simp
  from jsonl_line_quiet [OF this, of fi path n msgs ws] obtain n1 ws1 where
    s1: "jsonl_line fi path l (n, msgs, ws) = Inr (n1, msgs, ws1)" by blast
  from Cons.IH [of n1 ws1] Cons.prems obtain n' ws' where
    "efold (jsonl_line fi path) ls (n1, msgs, ws1) = Inr (n', msgs, ws')" by auto
  with s1 show ?case by simp
qed

lemma process_jsonl_session_quiet:
  assumes "fs path = Some (Readable ls)"
    and "\<forall>l \<in> set ls. \<forall>kvs. l = Parsed (JObj kvs) \<longrightarrow>
             (dict_get kvs ''type'' (JStr '''') = JStr ''user'' \<longrightarrow>
                extract_user_content (JObj kvs) = Inr '''') \<and>
             (dict_get kvs ''type'' (JStr '''') = JStr ''assistant'' \<longrightarrow>
                extract_assistant_content (JObj kvs) = Inr ('''', []))"
  shows "\<exists>ws. process_jsonl_session fi fs path (JObj kvs) pp = Inr (ws, None)"
proof -
  from efold_jsonl_line_quiet [OF assms(2), of fi path 0 "[]" "[]"] obtain n' ws' where
    "efold (jsonl_line fi path) ls (0, [], []) = Inr (n', [], ws')" by blast
  with assms(1) show ?thesis by (simp add: process_jsonl_session_def)
qed

lemma append_message_quiet:
  "process_parts parts = Inr ('''', []) \<Longrightarrow> append_message role msg_time parts msgs = Inr msgs"
  by (simp add: append_message_def)

lemma efold_file_message_quiet:
  assumes "\<forall>msg \<in> set raw. \<exists>kvs parts. msg = JObj kvs \<and>
             load_parts (dict_get kvs ''id'' (JStr '''')) = Inr parts \<and>
             process_parts parts = Inr ('''', [])"
  shows "efold (file_message load_parts) raw msgs = Inr msgs"
  using assms
proof (induction raw)
  case Nil
  then show ?case by simp
next
  case (Cons msg raw)
  from Cons.prems obtain kvs parts where "msg = JObj kvs"
    "load_parts (dict_get kvs ''id'' (JStr '''')) = Inr parts" "process_parts parts = Inr ('''', [])"
    by auto
  then have "file_message load_parts msg msgs = Inr msgs"
    by (simp add: file_message_def append_message_quiet)
  with Cons show ?case by simp
qed

lemma process_session_file_quiet:
  assumes "load_messages (dict_get sd ''id'' (JStr '''')) = Inr raw"
    and "\<forall>msg \<in> set raw. \<exists>kvs parts. msg = JObj kvs \<and>
             load_parts (dict_get kvs ''id'' (JStr '''')) = Inr parts \<and>
             process_parts parts = Inr ('''', [])"
    and "\<exists>d. dict_get sd ''directory'' (JStr '''') = JStr d"
  shows "process_session_file load_messages load_parts (JObj sd) pf = Inr None"
proof -
  from assms(3) obtain d where d: "dict_get sd ''directory'' (JStr '''') = JStr d" by blast
  have run: "efold (file_message load_parts) raw [] = Inr []"
    by (rule efold_file_message_quiet [OF assms(2)])
  show ?thesis
    by (cases pf) (simp_all add: process_session_file_def d assms(1) run)
qed

lemma efold_sqlite_message_quiet:
  assumes "\<forall>m \<in> set rows. \<forall>md. mr_data m = Some md \<longrightarrow>
             is_dict md \<and>
             process_parts (List.map_filter pr_data (select_parts db (mr_id m))) = Inr ('''', [])"
  shows "efold (sqlite_message db) rows msgs = Inr msgs"
  using assms
proof (induction rows)
  case Nil
  then show ?case by simp
next
  case (Cons m rows)
  have "sqlite_message db m msgs = Inr msgs"
  proof (cases "mr_data m")
    case None
    then show ?thesis by (simp add: sqlite_message_def)
  next
    case (Some md)
    with Cons.prems have d: "is_dict md"
      and p: "process_parts (List.map_filter pr_data (select_parts db (mr_id m))) = Inr ('''', [])"
      by auto
    from d obtain kvs where "md = JObj kvs" by (cases md) auto
    with Some p show ?thesis by (simp add: sqlite_message_def append_message_quiet)
  qed
  with Cons show ?case by simp
qed

lemma sqlite_session_quiet:
  assumes "\<forall>m \<in> set (select_messages db (s_id row)). \<forall>md. mr_data m = Some md \<longrightarrow>
             is_dict md \<and>
             process_parts (List.map_filter pr_data (select_parts db (mr_id m))) = Inr ('''', [])"
  shows "sqlite_session db row out = Inr out"
  using efold_sqlite_message_quiet [OF assms, of "[]"]
  by (simp add: sqlite_session_def Let_def)

text \<open>
  C2. A record that \<^verbatim>\<open>process_jsonl_session\<close>, \<^verbatim>\<open>process_session_file\<close> or
  \<^verbatim>\<open>parse_sqlite\<close> emits has a non-empty list of messages, each of which has content or
  a non-empty list of tool calls, and the key \<^verbatim>\<open>"tool_calls"\<close> is absent rather than
  empty. A session all of whose messages decode to empty content and no tool calls
  gives no record: the two functions return \<^verbatim>\<open>None\<close>, and the SQLite loop yields
  nothing for the row.
\<close>

theorem emitted_records_well_formed:
  "(process_jsonl_session fromisoformat fs path (JObj entry) project_path = Inr (ws, Some r) \<longrightarrow>
      record_ok r) \<and>
   (process_session_file load_messages load_parts (JObj sd) pf = Inr (Some r') \<longrightarrow> record_ok r') \<and>
   (parse_sqlite db from_ms to_ms pf = Inr rs \<longrightarrow> (\<forall>r \<in> set rs. record_ok r)) \<and>
   (fs path = Some (Readable ls) \<and>
    (\<forall>l \<in> set ls. \<forall>kvs. l = Parsed (JObj kvs) \<longrightarrow>
       (dict_get kvs ''type'' (JStr '''') = JStr ''user'' \<longrightarrow>
          extract_user_content (JObj kvs) = Inr '''') \<and>
       (dict_get kvs ''type'' (JStr '''') = JStr ''assistant'' \<longrightarrow>
          extract_assistant_content (JObj kvs) = Inr ('''', []))) \<longrightarrow>
      (\<exists>ws. process_jsonl_session fromisoformat fs path (JObj entry) project_path = Inr (ws, None))) \<and>
   (load_messages (dict_get sd ''id'' (JStr '''')) = Inr raw \<and>
    (\<forall>msg \<in> set raw. \<exists>kvs parts. msg = JObj kvs \<and>
       load_parts (dict_get kvs ''id'' (JStr '''')) = Inr parts \<and>
       process_parts parts = Inr ('''', [])) \<and>
    (\<exists>d. dict_get sd ''directory'' (JStr '''') = JStr d) \<longrightarrow>
      process_session_file load_messages load_parts (JObj sd) pf = Inr None) \<and>
   ((\<forall>m \<in> set (select_messages db (s_id row)). \<forall>md. mr_data m = Some md \<longrightarrow>
       is_dict md \<and>
       process_parts (List.map_filter pr_data (select_parts db (mr_id m))) = Inr ('''', [])) \<longrightarrow>
      sqlite_session db row out = Inr out)"
  using process_jsonl_session_ok [of fromisoformat fs path entry project_path ws r]
    process_session_file_ok [of load_messages load_parts sd pf r']
    parse_sqlite_ok [of db from_ms to_ms pf rs]
    process_jsonl_session_quiet [of fs path ls fromisoformat entry project_path]
    process_session_file_quiet [of load_messages sd raw load_parts pf]
    sqlite_session_quiet [of db row out]
  by blast

theorem emitted_records_well_formed_witness:
  "(\<exists>ws r. process_jsonl_session sample_fromisoformat tiny_fs ''/p/s-undated.jsonl''
              (JObj entry_undated) (JStr ''/p'') = Inr (ws, Some r) \<and> record_ok r) \<and>
   (\<exists>r. process_session_file sample_load_messages sample_load_parts (JObj session_a) None =
           Inr (Some r) \<and> record_ok r) \<and>
   (\<exists>rs. parse_sqlite sample_db sample_from_ms sample_to_ms None = Inr rs \<and> rs \<noteq> [] \<and>
          (\<forall>r \<in> set rs. record_ok r)) \<and>
   (\<exists>ws. process_jsonl_session sample_fromisoformat quiet_fs ''/p/q.jsonl''
            (JObj entry_undated) (JStr ''/p'') = Inr (ws, None)) \<and>
   process_session_file sample_load_messages sample_load_parts (JObj session_b) None = Inr None \<and>
   sqlite_session sample_db row_b [] = Inr []"
proof -
  have "case process_jsonl_session sample_fromisoformat tiny_fs ''/p/s-undated.jsonl''
               (JObj entry_undated) (JStr ''/p'') of
          Inr (ws, Some r) \<Rightarrow> True | _ \<Rightarrow> False"
    by code_simp
  then obtain ws r where 1:
    "process_jsonl_session sample_fromisoformat tiny_fs ''/p/s-undated.jsonl''
       (JObj entry_undated) (JStr ''/p'') = Inr (ws, Some r)"
    by (auto split: sum.splits prod.splits option.splits)
  have "case process_session_file sample_load_messages sample_load_parts (JObj session_a) None of
          Inr (Some r) \<Rightarrow> True | _ \<Rightarrow> False"
    by code_simp
  then obtain r' where 2:
    "process_session_file sample_load_messages sample_load_parts (JObj session_a) None = Inr (Some r')"
    by (auto split: sum.splits option.splits)
  have "case parse_sqlite sample_db sample_from_ms sample_to_ms None of
          Inr rs \<Rightarrow> rs \<noteq> [] | _ \<Rightarrow> False"
    by code_simp
  then obtain rs where 3: "parse_sqlite sample_db sample_from_ms sample_to_ms None = Inr rs"
    and ne: "rs \<noteq> []"
    by (auto split: sum.splits)
  have 4: "quiet_fs ''/p/q.jsonl'' = Some (Readable quiet_lines) \<and>
    (\<forall>l \<in> set quiet_lines. \<forall>kvs. l = Parsed (JObj kvs) \<longrightarrow>
       (dict_get kvs ''type'' (JStr '''') = JStr ''user'' \<longrightarrow>
          extract_user_content (JObj kvs) = Inr '''') \<and>
       (dict_get kvs ''type'' (JStr '''') = JStr ''assistant'' \<longrightarrow>
          extract_assistant_content (JObj kvs) = Inr ('''', [])))"
    by (simp add: quiet_fs_def quiet_lines_def dict_get_def extract_user_content_def
          extract_assistant_content_def assistant_block_def py_join_def)
  have parts: "process_parts [part_step] = Inr ('''', [])"
    by code_simp
  have 5: "sample_load_messages (dict_get session_b ''id'' (JStr '''')) = Inr [msg_empty] \<and>
    (\<forall>msg \<in> set [msg_empty]. \<exists>kvs parts. msg = JObj kvs \<and>
       sample_load_parts (dict_get kvs ''id'' (JStr '''')) = Inr parts \<and>
       process_parts parts = Inr ('''', [])) \<and>
    (\<exists>d. dict_get session_b ''directory'' (JStr '''') = JStr d)"
    using parts
    by (simp add: session_b_def msg_empty_def dict_get_def sample_load_messages_def
          sample_load_parts_def)
  have sel: "select_messages sample_db (s_id row_b) =
               [\<lparr>mr_id = Text ''msg_3'', mr_session_id = Text ''ses_b'', mr_data = Some msg_empty,
                 mr_time_created = Integer 1740060000500\<rparr>]"
    by code_simp
  have selp: "List.map_filter pr_data (select_parts sample_db (Text ''msg_3'')) = [part_step]"
    by code_simp
  have 6: "\<forall>m \<in> set (select_messages sample_db (s_id row_b)). \<forall>md. mr_data m = Some md \<longrightarrow>
       is_dict md \<and>
       process_parts (List.map_filter pr_data (select_parts sample_db (mr_id m))) = Inr ('''', [])"
    using parts by (simp add: sel selp msg_empty_def)
  note thm1 = emitted_records_well_formed
    [where fromisoformat = sample_fromisoformat and fs = tiny_fs and path = "''/p/s-undated.jsonl''"
       and entry = entry_undated and project_path = "JStr ''/p''" and ws = ws and r = r
       and load_messages = sample_load_messages and load_parts = sample_load_parts
       and sd = session_a and pf = None and r' = r'
       and db = sample_db and from_ms = sample_from_ms and to_ms = sample_to_ms and rs = rs]
  note thm2 = emitted_records_well_formed
    [where fromisoformat = sample_fromisoformat and fs = quiet_fs and path = "''/p/q.jsonl''"
       and entry = entry_undated and project_path = "JStr ''/p''" and ls = quiet_lines
       and load_messages = sample_load_messages and load_parts = sample_load_parts
       and sd = session_b and pf = None and raw = "[msg_empty]"
       and db = sample_db and row = row_b and out = "[]"]
  have a1: "record_ok r"
    by (rule thm1 [THEN conjunct1, THEN mp, OF 1])
  have a2: "record_ok r'"
    by (rule thm1 [THEN conjunct2, THEN conjunct1, THEN mp, OF 2])
  have a3: "\<forall>r \<in> set rs. record_ok r"
    by (rule thm1 [THEN conjunct2, THEN conjunct2, THEN conjunct1, THEN mp, OF 3])
  have b4: "\<exists>ws. process_jsonl_session sample_fromisoformat quiet_fs ''/p/q.jsonl''
            (JObj entry_undated) (JStr ''/p'') = Inr (ws, None)"
    by (rule thm2 [THEN conjunct2, THEN conjunct2, THEN conjunct2, THEN conjunct1, THEN mp, OF 4])
  have b5: "process_session_file sample_load_messages sample_load_parts (JObj session_b) None = Inr None"
    by (rule thm2 [THEN conjunct2, THEN conjunct2, THEN conjunct2, THEN conjunct2, THEN conjunct1,
                   THEN mp, OF 5])
  have b6: "sqlite_session sample_db row_b [] = Inr []"
    by (rule thm2 [THEN conjunct2, THEN conjunct2, THEN conjunct2, THEN conjunct2, THEN conjunct2,
                   THEN mp, OF 6])
  from 1 a1 have w1: "\<exists>ws r. process_jsonl_session sample_fromisoformat tiny_fs ''/p/s-undated.jsonl''
              (JObj entry_undated) (JStr ''/p'') = Inr (ws, Some r) \<and> record_ok r"
    by (intro exI conjI)
  from 2 a2 have w2: "\<exists>r. process_session_file sample_load_messages sample_load_parts (JObj session_a) None =
           Inr (Some r) \<and> record_ok r"
    by (intro exI conjI)
  from 3 ne a3 have w3: "\<exists>rs. parse_sqlite sample_db sample_from_ms sample_to_ms None = Inr rs \<and> rs \<noteq> [] \<and>
          (\<forall>r \<in> set rs. record_ok r)"
    by (intro exI conjI)
  from w1 w2 w3 b4 b5 b6 show ?thesis
    by (intro conjI)
qed

subsection \<open>C3: the title\<close>

text \<open>What the sample store gives, by both backends.\<close>

lemma sample_file_record:
  "process_session_file sample_load_messages sample_load_parts (JObj session_a) None =
     Inr (Some record_a)"
  by code_simp

lemma sample_sqlite_records:
  "parse_sqlite sample_db sample_from_ms sample_to_ms None = Inr [record_a]"
  by code_simp

text \<open>
  C3 as stated fails in \<^verbatim>\<open>parse_opencode.py\<close>: session \<^verbatim>\<open>ses_a\<close> has an empty title
  and a session id, and both backends emit it with the empty string as title, not
  with the session id.
\<close>

theorem title_falls_back_to_session_id_counterexample:
  "process_session_file sample_load_messages sample_load_parts (JObj session_a) None =
     Inr (Some record_a) \<and>
   parse_sqlite sample_db sample_from_ms sample_to_ms None = Inr [record_a] \<and>
   dict_get session_a ''title'' JNull = JStr '''' \<and>
   sr_session_id record_a = JStr ''ses_a'' \<and>
   sr_title record_a = JStr '''' \<and>
   sr_title record_a \<noteq> sr_session_id record_a"
  using sample_file_record sample_sqlite_records
  by (simp add: record_a_def session_a_def dict_get_def)

text \<open>
  C3, amended. In \<^verbatim>\<open>parse_claude.py\<close> the title is \<^verbatim>\<open>firstPrompt\<close> when that is
  not empty, else \<^verbatim>\<open>summary\<close> when that is not empty, else the session id; so it is
  not empty when the session id is not. In \<^verbatim>\<open>parse_opencode.py\<close> there is no
  fallback to the session id: the file backend takes \<^verbatim>\<open>title\<close>, else \<^verbatim>\<open>slug\<close>, else
  the empty string, and the SQLite backend takes the \<^verbatim>\<open>title\<close> column, else the empty
  string.
\<close>

theorem title_resolution:
  "(process_jsonl_session fromisoformat fs path (JObj entry) project_path = Inr (ws, Some r) \<longrightarrow>
      sr_title r =
        (if truthy (dict_get entry ''firstPrompt'' (JStr '''')) then dict_get entry ''firstPrompt'' (JStr '''')
         else if truthy (dict_get entry ''summary'' (JStr '''')) then dict_get entry ''summary'' (JStr '''')
         else dict_get entry ''sessionId'' (JStr '''')) \<and>
      (truthy (dict_get entry ''sessionId'' (JStr '''')) \<longrightarrow> truthy (sr_title r))) \<and>
   (process_session_file load_messages load_parts (JObj sd) pf = Inr (Some r') \<longrightarrow>
      sr_title r' =
        (if truthy (dict_get sd ''title'' JNull) then dict_get sd ''title'' JNull
         else if truthy (dict_get sd ''slug'' JNull) then dict_get sd ''slug'' JNull
         else JStr '''')) \<and>
   (sqlite_session db row out = Inr out' \<longrightarrow>
      out' = out \<or>
      (\<exists>r. out' = out @ [r] \<and>
         sr_title r = (if truthy (py_value (s_title row)) then py_value (s_title row) else JStr '''')))"
proof (intro conjI impI)
  assume a: "process_jsonl_session fromisoformat fs path (JObj entry) project_path = Inr (ws, Some r)"
  from process_jsonl_session_Some [OF a]
  show t: "sr_title r =
        (if truthy (dict_get entry ''firstPrompt'' (JStr '''')) then dict_get entry ''firstPrompt'' (JStr '''')
         else if truthy (dict_get entry ''summary'' (JStr '''')) then dict_get entry ''summary'' (JStr '''')
         else dict_get entry ''sessionId'' (JStr ''''))"
    by (auto simp: py_or_def)
  assume "truthy (dict_get entry ''sessionId'' (JStr ''''))"
  with t show "truthy (sr_title r)" by (simp split: if_splits)
next
  assume "process_session_file load_messages load_parts (JObj sd) pf = Inr (Some r')"
  from process_session_file_Some [OF this]
  show "sr_title r' =
        (if truthy (dict_get sd ''title'' JNull) then dict_get sd ''title'' JNull
         else if truthy (dict_get sd ''slug'' JNull) then dict_get sd ''slug'' JNull
         else JStr '''')"
    by (auto simp: py_or_def dest!: build_session_result_Inr)
next
  assume "sqlite_session db row out = Inr out'"
  from sqlite_session_out [OF this]
  show "out' = out \<or>
      (\<exists>r. out' = out @ [r] \<and>
         sr_title r = (if truthy (py_value (s_title row)) then py_value (s_title row) else JStr ''''))"
    by (auto simp: py_or_def dest!: build_session_result_Inr)
qed

theorem title_resolution_witness:
  "(\<exists>ws r. process_jsonl_session sample_fromisoformat tiny_fs ''/p/s-undated.jsonl''
              (JObj entry_undated) (JStr ''/p'') = Inr (ws, Some r) \<and> sr_title r = JStr ''Notes'') \<and>
   sr_title record_a = JStr '''' \<and>
   (\<exists>r. sqlite_session sample_db row_a [] = Inr [r] \<and> sr_title r = JStr '''')"
proof -
  have "case process_jsonl_session sample_fromisoformat tiny_fs ''/p/s-undated.jsonl''
               (JObj entry_undated) (JStr ''/p'') of
          Inr (ws, Some r) \<Rightarrow> True | _ \<Rightarrow> False"
    by code_simp
  then obtain ws r where 1:
    "process_jsonl_session sample_fromisoformat tiny_fs ''/p/s-undated.jsonl''
       (JObj entry_undated) (JStr ''/p'') = Inr (ws, Some r)"
    by (auto split: sum.splits prod.splits option.splits)
  have "case sqlite_session sample_db row_a [] of Inr [r] \<Rightarrow> True | _ \<Rightarrow> False"
    by code_simp
  then obtain r2 where 3: "sqlite_session sample_db row_a [] = Inr [r2]"
    by (auto split: sum.splits list.splits)
  note inst = title_resolution
    [where fromisoformat = sample_fromisoformat and fs = tiny_fs and path = "''/p/s-undated.jsonl''"
       and entry = entry_undated and project_path = "JStr ''/p''" and ws = ws and r = r
       and load_messages = sample_load_messages and load_parts = sample_load_parts
       and sd = session_a and pf = None and r' = record_a
       and db = sample_db and row = row_a and out = "[]" and out' = "[r2]"]
  from inst [THEN conjunct1, THEN mp, OF 1]
  have "sr_title r = JStr ''Notes''"
    by (simp add: entry_undated_def dict_get_def)
  with 1 have w1: "\<exists>ws r. process_jsonl_session sample_fromisoformat tiny_fs ''/p/s-undated.jsonl''
              (JObj entry_undated) (JStr ''/p'') = Inr (ws, Some r) \<and> sr_title r = JStr ''Notes''"
    by (intro exI conjI)
  from inst [THEN conjunct2, THEN conjunct1, THEN mp, OF sample_file_record]
  have w2: "sr_title record_a = JStr ''''"
    by (simp add: session_a_def dict_get_def)
  from inst [THEN conjunct2, THEN conjunct2, THEN mp, OF 3]
  have "sr_title r2 = JStr ''''"
    by (simp add: row_a_def)
  with 3 have w3: "\<exists>r. sqlite_session sample_db row_a [] = Inr [r] \<and> sr_title r = JStr ''''"
    by (intro exI conjI)
  from w1 w2 w3 show ?thesis by (intro conjI)
qed

subsection \<open>C4: the start and end times\<close>

lemma iso_if_number_Inr:
  "iso_if_number x = Inr s \<Longrightarrow>
     s = (case as_number x of Some ms \<Rightarrow> strftime_iso (ms div 1000) | None \<Rightarrow> '''')"
  by (auto simp: iso_if_number_def ms_to_iso_def Let_def split: option.splits if_splits)

lemma build_session_result_times:
  assumes "build_session_result sid dir title tc tu msgs parent = Inr r"
  shows "sr_time_start r = (case as_number tc of Some ms \<Rightarrow> strftime_iso (ms div 1000) | None \<Rightarrow> '''') \<and>
         sr_time_end r = (case as_number tu of Some ms \<Rightarrow> strftime_iso (ms div 1000) | None \<Rightarrow> '''')"
  using build_session_result_Inr [OF assms] by (simp add: iso_if_number_Inr)

text \<open>
  C4 as stated fails in \<^verbatim>\<open>parse_opencode.py\<close>: session \<^verbatim>\<open>ses_a\<close> has no update time
  and its last message has a timestamp, yet the record is emitted with the empty
  string as \<^verbatim>\<open>time_end\<close>.
\<close>

theorem time_end_falls_back_to_last_message_counterexample:
  "process_session_file sample_load_messages sample_load_parts (JObj session_a) None =
     Inr (Some record_a) \<and>
   get_nested (JObj session_a) [''time'', ''updated''] JNull = JNull \<and>
   m_timestamp (last (sr_messages record_a)) = ''2025-02-20T12:00:10Z'' \<and>
   sr_time_end record_a = '''' \<and>
   sr_time_end record_a \<noteq> m_timestamp (last (sr_messages record_a))"
  using sample_file_record
  by (simp add: record_a_def session_a_def dict_get_def)

text \<open>
  C4, amended. In \<^verbatim>\<open>parse_claude.py\<close>, \<^verbatim>\<open>time_start\<close> is the text of the entry's
  \<^verbatim>\<open>created\<close> when that parses, and the timestamp of the first message otherwise
  (which may itself be empty); \<^verbatim>\<open>time_end\<close> likewise with \<^verbatim>\<open>modified\<close> and the last
  message. In \<^verbatim>\<open>parse_opencode.py\<close> there is no fallback to the messages:
  \<^verbatim>\<open>time_start\<close> and \<^verbatim>\<open>time_end\<close> are the texts of the session's creation and update
  times when these are numbers, and the empty string otherwise.
\<close>

theorem time_resolution:
  "(process_jsonl_session fromisoformat fs path (JObj entry) project_path = Inr (ws, Some r) \<longrightarrow>
      sr_messages r \<noteq> [] \<and>
      sr_time_start r =
        (case parse_timestamp fromisoformat (dict_get entry ''created'' (JStr '''')) of
           Some dt \<Rightarrow> dt_to_iso (Some dt)
         | None \<Rightarrow> m_timestamp (hd (sr_messages r))) \<and>
      sr_time_end r =
        (case parse_timestamp fromisoformat (dict_get entry ''modified'' (JStr '''')) of
           Some dt \<Rightarrow> dt_to_iso (Some dt)
         | None \<Rightarrow> m_timestamp (last (sr_messages r)))) \<and>
   (process_session_file load_messages load_parts (JObj sd) pf = Inr (Some r') \<longrightarrow>
      sr_time_start r' =
        (case as_number (get_nested (JObj sd) [''time'', ''created''] JNull) of
           Some ms \<Rightarrow> strftime_iso (ms div 1000) | None \<Rightarrow> '''') \<and>
      sr_time_end r' =
        (case as_number (get_nested (JObj sd) [''time'', ''updated''] JNull) of
           Some ms \<Rightarrow> strftime_iso (ms div 1000) | None \<Rightarrow> '''')) \<and>
   (sqlite_session db row out = Inr out' \<longrightarrow>
      out' = out \<or>
      (\<exists>r. out' = out @ [r] \<and>
         sr_time_start r =
           (case as_number (py_value (s_time_created row)) of
              Some ms \<Rightarrow> strftime_iso (ms div 1000) | None \<Rightarrow> '''') \<and>
         sr_time_end r =
           (case as_number (py_value (s_time_updated row)) of
              Some ms \<Rightarrow> strftime_iso (ms div 1000) | None \<Rightarrow> '''')))"
proof (intro conjI impI)
  assume a: "process_jsonl_session fromisoformat fs path (JObj entry) project_path = Inr (ws, Some r)"
  from process_jsonl_session_Some [OF a] obtain msgs where
    ne: "msgs \<noteq> []" and m: "sr_messages r = msgs"
    and s: "sr_time_start r =
              (if dt_to_iso (parse_timestamp fromisoformat (dict_get entry ''created'' (JStr []))) = []
               then m_timestamp (hd msgs)
               else dt_to_iso (parse_timestamp fromisoformat (dict_get entry ''created'' (JStr []))))"
    and e: "sr_time_end r =
              (if dt_to_iso (parse_timestamp fromisoformat (dict_get entry ''modified'' (JStr []))) = []
               then m_timestamp (last msgs)
               else dt_to_iso (parse_timestamp fromisoformat (dict_get entry ''modified'' (JStr []))))"
    by auto
  from ne m show "sr_messages r \<noteq> []" by simp
  from s m show "sr_time_start r =
        (case parse_timestamp fromisoformat (dict_get entry ''created'' (JStr '''')) of
           Some dt \<Rightarrow> dt_to_iso (Some dt)
         | None \<Rightarrow> m_timestamp (hd (sr_messages r)))"
    by (simp add: dt_to_iso_empty split: option.splits)
  from e m show "sr_time_end r =
        (case parse_timestamp fromisoformat (dict_get entry ''modified'' (JStr '''')) of
           Some dt \<Rightarrow> dt_to_iso (Some dt)
         | None \<Rightarrow> m_timestamp (last (sr_messages r)))"
    by (simp add: dt_to_iso_empty split: option.splits)
next
  assume "process_session_file load_messages load_parts (JObj sd) pf = Inr (Some r')"
  from process_session_file_Some [OF this] obtain msgs where
    b: "build_session_result (dict_get sd ''id'' (JStr [])) (dict_get sd ''directory'' (JStr []))
          (py_or (py_or (dict_get sd ''title'' JNull) (dict_get sd ''slug'' JNull)) (JStr []))
          (get_nested (JObj sd) [''time'', ''created''] JNull)
          (get_nested (JObj sd) [''time'', ''updated''] JNull) msgs JNull = Inr r'"
    by blast
  from build_session_result_times [OF b]
  show "sr_time_start r' =
        (case as_number (get_nested (JObj sd) [''time'', ''created''] JNull) of
           Some ms \<Rightarrow> strftime_iso (ms div 1000) | None \<Rightarrow> '''')"
    and "sr_time_end r' =
        (case as_number (get_nested (JObj sd) [''time'', ''updated''] JNull) of
           Some ms \<Rightarrow> strftime_iso (ms div 1000) | None \<Rightarrow> '''')"
    by simp_all
next
  assume "sqlite_session db row out = Inr out'"
  from sqlite_session_out [OF this]
  show "out' = out \<or>
      (\<exists>r. out' = out @ [r] \<and>
         sr_time_start r =
           (case as_number (py_value (s_time_created row)) of
              Some ms \<Rightarrow> strftime_iso (ms div 1000) | None \<Rightarrow> '''') \<and>
         sr_time_end r =
           (case as_number (py_value (s_time_updated row)) of
              Some ms \<Rightarrow> strftime_iso (ms div 1000) | None \<Rightarrow> ''''))"
  proof (elim disjE exE conjE)
    assume "out' = out"
    then show ?thesis by simp
  next
    fix r msgs
    assume o: "out' = out @ [r]"
      and b: "build_session_result (py_value (s_id row))
                (py_or (py_value (s_directory row)) (JStr []))
                (py_or (py_value (s_title row)) (JStr []))
                (py_value (s_time_created row)) (py_value (s_time_updated row)) msgs
                (py_or (py_value (s_parent_id row)) JNull) = Inr r"
    from build_session_result_times [OF b] o show ?thesis by blast
  qed
qed

theorem time_resolution_witness:
  "(\<exists>ws r. process_jsonl_session sample_fromisoformat dated_fs ''/p/s-started.jsonl''
              (JObj entry_started) (JStr ''/p'') = Inr (ws, Some r) \<and>
            sr_time_start r = ''2026-02-20T09:00:00Z'' \<and>
            sr_time_end r = m_timestamp (last (sr_messages r))) \<and>
   sr_time_start record_a = strftime_iso 1740052800 \<and> sr_time_end record_a = '''' \<and>
   (\<exists>r. sqlite_session sample_db row_a [] = Inr [r] \<and>
        sr_time_start r = strftime_iso 1740052800 \<and> sr_time_end r = '''')"
proof -
  have "case process_jsonl_session sample_fromisoformat dated_fs ''/p/s-started.jsonl''
               (JObj entry_started) (JStr ''/p'') of
          Inr (ws, Some r) \<Rightarrow> True | _ \<Rightarrow> False"
    by code_simp
  then obtain ws r where 1:
    "process_jsonl_session sample_fromisoformat dated_fs ''/p/s-started.jsonl''
       (JObj entry_started) (JStr ''/p'') = Inr (ws, Some r)"
    by (auto split: sum.splits prod.splits option.splits)
  have "case sqlite_session sample_db row_a [] of Inr [r] \<Rightarrow> True | _ \<Rightarrow> False"
    by code_simp
  then obtain r2 where 3: "sqlite_session sample_db row_a [] = Inr [r2]"
    by (auto split: sum.splits list.splits)
  have created: "parse_timestamp sample_fromisoformat (dict_get entry_started ''created'' (JStr '''')) =
                   Some (Aware 1771578000000000)"
    by code_simp
  have modified: "parse_timestamp sample_fromisoformat (dict_get entry_started ''modified'' (JStr '''')) =
                    None"
    by code_simp
  have shown: "strftime_iso 1771578000 = ''2026-02-20T09:00:00Z''"
    by code_simp
  note inst = time_resolution
    [where fromisoformat = sample_fromisoformat and fs = dated_fs and path = "''/p/s-started.jsonl''"
       and entry = entry_started and project_path = "JStr ''/p''" and ws = ws and r = r
       and load_messages = sample_load_messages and load_parts = sample_load_parts
       and sd = session_a and pf = None and r' = record_a
       and db = sample_db and row = row_a and out = "[]" and out' = "[r2]"]
  from inst [THEN conjunct1, THEN mp, OF 1]
  have t1: "sr_time_start r = ''2026-02-20T09:00:00Z''"
    and t2: "sr_time_end r = m_timestamp (last (sr_messages r))"
    by (simp_all add: created modified shown)
  from 1 t1 t2
  have w1: "\<exists>ws r. process_jsonl_session sample_fromisoformat dated_fs ''/p/s-started.jsonl''
              (JObj entry_started) (JStr ''/p'') = Inr (ws, Some r) \<and>
            sr_time_start r = ''2026-02-20T09:00:00Z'' \<and>
            sr_time_end r = m_timestamp (last (sr_messages r))"
    by (intro exI conjI)
  from inst [THEN conjunct2, THEN conjunct1, THEN mp, OF sample_file_record]
  have w2: "sr_time_start record_a = strftime_iso 1740052800"
    and w2': "sr_time_end record_a = ''''"
    by (simp_all add: session_a_def dict_get_def)
  from inst [THEN conjunct2, THEN conjunct2, THEN mp, OF 3]
  have t3: "sr_time_start r2 = strftime_iso 1740052800"
    and t4: "sr_time_end r2 = ''''"
    by (simp_all add: row_a_def)
  from 3 t3 t4
  have w3: "\<exists>r. sqlite_session sample_db row_a [] = Inr [r] \<and>
        sr_time_start r = strftime_iso 1740052800 \<and> sr_time_end r = ''''"
    by (intro exI conjI)
  from w1 w2 w2' w3 show ?thesis by (intro conjI)
qed

subsection \<open>C7: the input and output of a tool call\<close>

lemma truncate_not_str:
  "\<forall>s. v \<noteq> JStr s \<Longrightarrow>
     truncate v = (if v = JNull then '''' else truncate (JStr (json_dumps v)))"
  by (cases v) (simp_all add: truncate_def)

lemma assistant_block_tool_use:
  assumes "dict_get kvs ''type'' (JStr '''') = JStr ''tool_use''"
    and "dict_get kvs ''input'' (JObj []) = v"
  shows "assistant_block (JObj kvs) (tp, tcs) =
           (tp, tcs @ [\<lparr>tc_tool = dict_get kvs ''name'' (JStr ''''),
                        tc_input = truncate (JStr (if is_dict v then json_dumps v else py_str v)),
                        tc_output = ''''\<rparr>])"
  using assms by (simp add: assistant_block_def Let_def)

lemma process_part_tool:
  assumes "dict_get kvs ''type'' JNull = JStr ''tool''"
    and "dict_get kvs ''state'' (JObj []) = JObj st"
  shows "process_part (JObj kvs) (tp, tcs) =
           Inr (tp, tcs @ [\<lparr>tc_tool = dict_get kvs ''tool'' (JStr ''''),
                            tc_input = truncate (dict_get st ''input'' (JStr '''')),
                            tc_output = truncate (dict_get st ''output'' (JStr ''''))\<rparr>])"
  using assms by (simp add: process_part_def Let_def)

lemma truncate_absent:
  "map_of st k = None \<Longrightarrow> truncate (dict_get st k (JStr '''')) = ''''"
  by (simp add: dict_get_def truncate_def max_len_def)

text \<open>
  C7 as stated fails in both scripts. \<^verbatim>\<open>parse_claude.py\<close> serializes only a dict and
  formats every other input with \<^verbatim>\<open>str\<close>: the input \<^verbatim>\<open>true\<close> is stored as
  \<^verbatim>\<open>True\<close>. \<^verbatim>\<open>parse_opencode.py\<close> stores the input \<^verbatim>\<open>null\<close> as the empty string,
  not as \<^verbatim>\<open>null\<close>.
\<close>

theorem tool_input_json_serialized_counterexample:
  "extract_assistant_content (JObj line_tool_true) =
     Inr ('''', [\<lparr>tc_tool = JStr ''bash'', tc_input = ''True'', tc_output = ''''\<rparr>]) \<and>
   truncate (JStr (json_dumps (JBool True))) = ''true'' \<and>
   process_parts [part_tool] =
     Inr ('''', [\<lparr>tc_tool = JStr ''bash'', tc_input = '''', tc_output = ''''\<rparr>]) \<and>
   truncate (JStr (json_dumps JNull)) = ''null''"
  by code_simp

text \<open>
  C7, amended. A \<^verbatim>\<open>tool_use\<close> block of \<^verbatim>\<open>parse_claude.py\<close> adds one tool call whose
  input is the truncated JSON text of the block's input when that is a dict, and the
  truncated \<^verbatim>\<open>str\<close> of it otherwise; its output is the empty string. A \<^verbatim>\<open>tool\<close>
  part of \<^verbatim>\<open>parse_opencode.py\<close> whose input is not a string adds one tool call whose
  input is the empty string when the input is \<^verbatim>\<open>null\<close> and its truncated JSON text
  otherwise; its output is the empty string when the state has no output. The tool
  calls of a message are those of its blocks or parts, in order.
\<close>

theorem tool_call_fields:
  "(dict_get kvs ''type'' (JStr '''') = JStr ''tool_use'' \<and> dict_get kvs ''input'' (JObj []) = v \<longrightarrow>
      assistant_block (JObj kvs) (tp, tcs) =
        (tp, tcs @ [\<lparr>tc_tool = dict_get kvs ''name'' (JStr ''''),
                     tc_input = truncate (JStr (if is_dict v then json_dumps v else py_str v)),
                     tc_output = ''''\<rparr>])) \<and>
   (extract_assistant_content (JObj line) = Inr (content, calls) \<and>
    dict_get line ''message'' (JObj []) = JObj msg \<and>
    dict_get msg ''content'' JNull = JArr blocks \<longrightarrow>
      calls = concat (map (\<lambda>b. snd (assistant_block b ([], []))) blocks)) \<and>
   (dict_get part ''type'' JNull = JStr ''tool'' \<and>
    dict_get part ''state'' (JObj []) = JObj st \<and>
    dict_get st ''input'' (JStr '''') = v' \<and> (\<forall>s. v' \<noteq> JStr s) \<longrightarrow>
      process_part (JObj part) (tp', tcs') =
        Inr (tp', tcs' @ [\<lparr>tc_tool = dict_get part ''tool'' (JStr ''''),
                           tc_input = (if v' = JNull then '''' else truncate (JStr (json_dumps v'))),
                           tc_output = truncate (dict_get st ''output'' (JStr ''''))\<rparr>]) \<and>
      (map_of st ''output'' = None \<longrightarrow> truncate (dict_get st ''output'' (JStr '''')) = '''')) \<and>
   (process_parts ps = Inr (content', calls') \<longrightarrow>
      calls' = concat (map (\<lambda>p. case process_part p ([], []) of
                                   Inr (t, c) \<Rightarrow> c | Inl e \<Rightarrow> []) ps))"
proof (intro conjI impI)
  assume "dict_get kvs ''type'' (JStr '''') = JStr ''tool_use'' \<and> dict_get kvs ''input'' (JObj []) = v"
  then show "assistant_block (JObj kvs) (tp, tcs) =
        (tp, tcs @ [\<lparr>tc_tool = dict_get kvs ''name'' (JStr ''''),
                     tc_input = truncate (JStr (if is_dict v then json_dumps v else py_str v)),
                     tc_output = ''''\<rparr>])"
    by (simp only: assistant_block_tool_use)
next
  assume "extract_assistant_content (JObj line) = Inr (content, calls) \<and>
    dict_get line ''message'' (JObj []) = JObj msg \<and>
    dict_get msg ''content'' JNull = JArr blocks"
  then show "calls = concat (map (\<lambda>b. snd (assistant_block b ([], []))) blocks)"
    using extract_assistant_content_calls [of line content calls msg blocks] by blast
next
  assume a: "dict_get part ''type'' JNull = JStr ''tool'' \<and>
    dict_get part ''state'' (JObj []) = JObj st \<and>
    dict_get st ''input'' (JStr '''') = v' \<and> (\<forall>s. v' \<noteq> JStr s)"
  then have "\<forall>s. v' \<noteq> JStr s" by simp
  then have "truncate v' = (if v' = JNull then '''' else truncate (JStr (json_dumps v')))"
    by (rule truncate_not_str)
  with a process_part_tool [of part st tp' tcs']
  show "process_part (JObj part) (tp', tcs') =
        Inr (tp', tcs' @ [\<lparr>tc_tool = dict_get part ''tool'' (JStr ''''),
                           tc_input = (if v' = JNull then '''' else truncate (JStr (json_dumps v'))),
                           tc_output = truncate (dict_get st ''output'' (JStr ''''))\<rparr>])"
    by simp
next
  assume "map_of st ''output'' = None"
  then show "truncate (dict_get st ''output'' (JStr '''')) = ''''"
    by (rule truncate_absent)
next
  assume "process_parts ps = Inr (content', calls')"
  then show "calls' = concat (map (\<lambda>p. case process_part p ([], []) of
                                   Inr (t, c) \<Rightarrow> c | Inl e \<Rightarrow> []) ps)"
    by (rule process_parts_calls)
qed

theorem tool_call_fields_witness:
  "assistant_block (JObj tool_use_make) ([], []) =
     ([], [\<lparr>tc_tool = JStr ''bash'',
             tc_input = json_dumps (JObj [(''command'', JStr ''make'')]),
             tc_output = ''''\<rparr>]) \<and>
   extract_assistant_content (JObj line_tool_make) =
     Inr ('''', [\<lparr>tc_tool = JStr ''bash'',
                   tc_input = json_dumps (JObj [(''command'', JStr ''make'')]),
                   tc_output = ''''\<rparr>]) \<and>
   process_part (JObj part_tool_ls) ([], []) =
     Inr ([], [\<lparr>tc_tool = JStr ''bash'',
                 tc_input = json_dumps (JObj [(''command'', JStr ''ls'')]),
                 tc_output = ''''\<rparr>]) \<and>
   process_parts [JObj part_tool_ls] =
     Inr ('''', [\<lparr>tc_tool = JStr ''bash'',
                   tc_input = json_dumps (JObj [(''command'', JStr ''ls'')]),
                   tc_output = ''''\<rparr>])"
proof -
  have make: "truncate (JStr (json_dumps (JObj [(''command'', JStr ''make'')]))) =
                json_dumps (JObj [(''command'', JStr ''make'')])"
    by code_simp
  have ls: "truncate (JStr (json_dumps (JObj [(''command'', JStr ''ls'')]))) =
              json_dumps (JObj [(''command'', JStr ''ls'')])"
    by code_simp
  have "case extract_assistant_content (JObj line_tool_make) of
          Inr (content, calls) \<Rightarrow> content = [] | Inl e \<Rightarrow> False"
    by code_simp
  then obtain calls where 2: "extract_assistant_content (JObj line_tool_make) = Inr ('''', calls)"
    by (auto split: sum.splits)
  have "case process_parts [JObj part_tool_ls] of
          Inr (content, calls) \<Rightarrow> content = [] | Inl e \<Rightarrow> False"
    by code_simp
  then obtain calls' where 4: "process_parts [JObj part_tool_ls] = Inr ('''', calls')"
    by (auto split: sum.splits)
  note inst = tool_call_fields
    [where kvs = tool_use_make and v = "JObj [(''command'', JStr ''make'')]" and tp = "[]" and tcs = "[]"
       and line = line_tool_make and content = "[]" and calls = calls
       and msg = "[(''content'', JArr [JObj tool_use_make])]" and blocks = "[JObj tool_use_make]"
       and part = part_tool_ls and st = "[(''input'', JObj [(''command'', JStr ''ls'')])]"
       and v' = "JObj [(''command'', JStr ''ls'')]" and tp' = "[]" and tcs' = "[]"
       and ps = "[JObj part_tool_ls]" and content' = "[]" and calls' = calls']
  have h1: "dict_get tool_use_make ''type'' (JStr '''') = JStr ''tool_use'' \<and>
            dict_get tool_use_make ''input'' (JObj []) = JObj [(''command'', JStr ''make'')]"
    by (simp add: tool_use_make_def dict_get_def)
  have name1: "dict_get tool_use_make ''name'' (JStr '''') = JStr ''bash''"
    by (simp add: tool_use_make_def dict_get_def)
  have w1: "assistant_block (JObj tool_use_make) ([], []) =
     ([], [\<lparr>tc_tool = JStr ''bash'',
             tc_input = json_dumps (JObj [(''command'', JStr ''make'')]),
             tc_output = ''''\<rparr>])"
    using inst [THEN conjunct1, THEN mp, OF h1]
    by (simp only: name1 is_dict.simps if_True make append_Nil)
  have h2: "extract_assistant_content (JObj line_tool_make) = Inr ('''', calls) \<and>
            dict_get line_tool_make ''message'' (JObj []) = JObj [(''content'', JArr [JObj tool_use_make])] \<and>
            dict_get [(''content'', JArr [JObj tool_use_make])] ''content'' JNull = JArr [JObj tool_use_make]"
    using 2 by (simp add: line_tool_make_def dict_get_def)
  have "calls = snd (assistant_block (JObj tool_use_make) ([], []))"
    using inst [THEN conjunct2, THEN conjunct1, THEN mp, OF h2] by simp
  with w1 2 have w2: "extract_assistant_content (JObj line_tool_make) =
     Inr ('''', [\<lparr>tc_tool = JStr ''bash'',
                   tc_input = json_dumps (JObj [(''command'', JStr ''make'')]),
                   tc_output = ''''\<rparr>])"
    by simp
  have h3: "dict_get part_tool_ls ''type'' JNull = JStr ''tool'' \<and>
            dict_get part_tool_ls ''state'' (JObj []) = JObj [(''input'', JObj [(''command'', JStr ''ls'')])] \<and>
            dict_get [(''input'', JObj [(''command'', JStr ''ls'')])] ''input'' (JStr '''') =
              JObj [(''command'', JStr ''ls'')] \<and>
            (\<forall>s. JObj [(''command'', JStr ''ls'')] \<noteq> JStr s)"
    by (simp add: part_tool_ls_def dict_get_def)
  have none: "map_of [(''input'', JObj [(''command'', JStr ''ls'')])] ''output'' = None"
    by simp
  note p3 = inst [THEN conjunct2, THEN conjunct2, THEN conjunct1, THEN mp, OF h3]
  have out: "truncate (dict_get [(''input'', JObj [(''command'', JStr ''ls'')])] ''output'' (JStr '''')) = ''''"
    by (rule p3 [THEN conjunct2, THEN mp, OF none])
  have name3: "dict_get part_tool_ls ''tool'' (JStr '''') = JStr ''bash''"
    by (simp add: part_tool_ls_def dict_get_def)
  have w3: "process_part (JObj part_tool_ls) ([], []) =
     Inr ([], [\<lparr>tc_tool = JStr ''bash'',
                 tc_input = json_dumps (JObj [(''command'', JStr ''ls'')]),
                 tc_output = ''''\<rparr>])"
    using p3 [THEN conjunct1]
    by (simp only: name3 json.distinct if_False ls out append_Nil)
  have "calls' = (case process_part (JObj part_tool_ls) ([], []) of Inr (t, c) \<Rightarrow> c | Inl e \<Rightarrow> [])"
    using inst [THEN conjunct2, THEN conjunct2, THEN conjunct2, THEN mp, OF 4] by simp
  with w3 4 have w4: "process_parts [JObj part_tool_ls] =
     Inr ('''', [\<lparr>tc_tool = JStr ''bash'',
                   tc_input = json_dumps (JObj [(''command'', JStr ''ls'')]),
                   tc_output = ''''\<rparr>])"
    by simp
  from w1 w2 w3 w4 show ?thesis by (intro conjI)
qed

subsection \<open>C5: the session query of the SQLite backend\<close>



subsection \<open>The \<^verbatim>\<open>--from\<close> and \<^verbatim>\<open>--to\<close> arguments\<close>

lemma try_formats_Inr_iff:
  "(\<exists>dt. try_formats s fmts = Inr dt) \<longleftrightarrow> (\<exists>fmt \<in> set fmts. \<exists>dt. strptime s fmt = Inr dt)"
  by (induction fmts) (auto split: sum.splits)

lemma try_formats_Inl: "try_formats s fmts = Inl e \<Longrightarrow> e = ValueError"
  by (induction fmts) (auto split: sum.splits)

lemma try_formats_aware: "try_formats s fmts = Inr dt \<Longrightarrow> \<exists>us. dt = Aware us"
proof (induction fmts)
  case Nil
  then show ?case by simp
next
  case (Cons fmt fmts)
  show ?case
  proof (cases "strptime s fmt")
    case (Inl e)
    with Cons show ?thesis by simp
  next
    case (Inr d)
    with Cons.prems show ?thesis by (cases d) auto
  qed
qed

lemma opencode_parse_Inr_iff:
  "(\<exists>ms. opencode_parse_iso_date s = Inr ms) \<longleftrightarrow> (\<exists>dt. try_formats s iso_formats = Inr dt)"
proof (cases "try_formats s iso_formats")
  case (Inl e)
  then show ?thesis by (simp add: opencode_parse_iso_date_def)
next
  case (Inr dt)
  then show ?thesis by (cases dt) (simp_all add: opencode_parse_iso_date_def)
qed

lemma claude_main_dates_cases:
  "claude_main_dates (Some f) (Some t) =
     (case claude_parse_iso_date f of
        Inl e \<Rightarrow> Inl (usage_error DateParseError)
      | Inr from_dt \<Rightarrow>
          (case claude_parse_iso_date t of
             Inl e \<Rightarrow> Inl (usage_error DateParseError)
           | Inr to_dt \<Rightarrow> Inr (from_dt, to_dt)))"
  by (simp add: claude_main_dates_def split: sum.splits)

lemma opencode_main_dates_cases:
  "opencode_main_dates (Some f) (Some t) =
     (case opencode_parse_iso_date f of
        Inl e \<Rightarrow> Inl (usage_error DateParseError)
      | Inr from_ms \<Rightarrow>
          (case opencode_parse_iso_date t of
             Inl e \<Rightarrow> Inl (usage_error DateParseError)
           | Inr to_ms \<Rightarrow> Inr (from_ms, to_ms)))"
  by (simp add: opencode_main_dates_def split: sum.splits)

subsection \<open>Texts of the documented forms\<close>

lemma of_char_digit_char: "k < 10 \<Longrightarrow> (of_char (digit_char k) :: nat) = 48 + k"
proof -
  assume "k < 10"
  then have "k = 0 \<or> k = 1 \<or> k = 2 \<or> k = 3 \<or> k = 4 \<or> k = 5 \<or> k = 6 \<or> k = 7 \<or> k = 8 \<or> k = 9"
    by arith
  then show ?thesis by (elim disjE) (simp_all add: digit_char_def)
qed

lemma in_class_digit_char:
  "k < 10 \<Longrightarrow> in_class (lo, hi) (digit_char k) \<longleftrightarrow> of_char lo \<le> 48 + k \<and> 48 + k \<le> (of_char hi :: nat)"
  by (simp add: in_class_def of_char_digit_char)

lemma digit_char_not_blank: "k < 10 \<Longrightarrow> digit_char k \<noteq> CHR '' ''"
  using of_char_digit_char [of k] by auto

lemma digit_char_0: "digit_char 0 = CHR ''0''"
  by (simp add: digit_char_def)

lemma show_nat_small: "n < 10 \<Longrightarrow> show_nat n = [digit_char n]"
  by (simp add: show_nat.simps)

lemma show_nat_step: "10 \<le> n \<Longrightarrow> show_nat n = show_nat (n div 10) @ [digit_char (n mod 10)]"
  by (subst show_nat.simps) simp

lemma show_nat_2: "10 \<le> n \<Longrightarrow> n < 100 \<Longrightarrow> show_nat n = [digit_char (n div 10), digit_char (n mod 10)]"
  by (simp add: show_nat_step show_nat_small)

lemma pad_2: "0 \<le> v \<Longrightarrow> v < 100 \<Longrightarrow> pad 2 v = [digit_char (nat v div 10), digit_char (nat v mod 10)]"
proof (cases "nat v < 10")
  case True
  assume "0 \<le> v" "v < 100"
  with True show ?thesis by (simp add: pad_def show_nat_small digit_char_0)
next
  case False
  assume "0 \<le> v" "v < 100"
  with False show ?thesis by (simp add: pad_def show_nat_2)
qed

text \<open>The decimal text of a number: its digits, its length, and what \<^verbatim>\<open>int\<close> reads.\<close>

lemma show_nat_digits: "list_all (in_class digit) (show_nat n)"
proof (induction n rule: show_nat.induct)
  case (1 n)
  show ?case
  proof (cases "n < 10")
    case True
    then show ?thesis by (simp add: show_nat_small digit_def in_class_digit_char)
  next
    case False
    then have "list_all (in_class digit) (show_nat (n div 10))" by (rule 1)
    moreover have "in_class digit (digit_char (n mod 10))"
      by (simp add: digit_def in_class_digit_char)
    ultimately show ?thesis using False by (simp add: show_nat_step)
  qed
qed

lemma length_show_nat: "n < 10 ^ Suc k \<Longrightarrow> length (show_nat n) \<le> Suc k"
proof (induction k arbitrary: n)
  case 0
  then show ?case by (simp add: show_nat_small)
next
  case (Suc k)
  show ?case
  proof (cases "n < 10")
    case True
    then show ?thesis by (simp add: show_nat_small)
  next
    case False
    from Suc.prems have "n div 10 < 10 ^ Suc k" by (simp add: less_mult_imp_div_less)
    then have "length (show_nat (n div 10)) \<le> Suc k" by (rule Suc.IH)
    with False show ?thesis by (simp add: show_nat_step)
  qed
qed

lemma pad_digits:
  assumes "0 \<le> v" "v < 10 ^ Suc k"
  shows "list_all2 in_class (replicate (Suc k) digit) (pad (Suc k) v)"
proof -
  from assms have "nat v < 10 ^ Suc k"
    by (metis nat_less_iff of_nat_numeral of_nat_power)
  then have len: "length (show_nat (nat v)) \<le> Suc k" by (rule length_show_nat)
  have zero: "in_class digit (CHR ''0'')" by (simp add: digit_def in_class_def)
  have "list_all (in_class digit) (pad (Suc k) v)"
    using show_nat_digits [of "nat v"] zero by (auto simp: pad_def Let_def list_all_iff)
  moreover from len have "length (pad (Suc k) v) = Suc k" by (simp add: pad_def Let_def)
  ultimately show ?thesis
    by (simp add: list_all2_conv_all_nth list_all_length del: replicate.simps)
qed

lemma py_int_snoc:
  "c \<noteq> CHR '' '' \<Longrightarrow> py_int (s @ [c]) = 10 * py_int s + (int (of_char c) - 48)"
  by (simp add: py_int_def)

lemma py_int_show_nat: "py_int (show_nat n) = int n"
proof (induction n rule: show_nat.induct)
  case (1 n)
  show ?case
  proof (cases "n < 10")
    case True
    then show ?thesis
      by (simp add: show_nat_small py_int_def digit_char_not_blank of_char_digit_char)
  next
    case False
    then have "py_int (show_nat (n div 10)) = int (n div 10)" by (rule 1)
    moreover have "int (of_char (digit_char (n mod 10))) - 48 = int (n mod 10)"
      by (simp add: of_char_digit_char)
    moreover have "10 * int (n div 10) + int (n mod 10) = int n"
      by (simp add: zdiv_int zmod_int)
    ultimately show ?thesis
      using False by (simp add: show_nat_step py_int_snoc digit_char_not_blank)
  qed
qed

lemma py_int_zeros: "py_int (replicate k (CHR ''0'') @ s) = py_int s"
proof -
  have "foldl (\<lambda>n c. 10 * n + (int (of_char c) - 48)) 0 (replicate k (CHR ''0'')) = 0"
    by (induction k) simp_all
  then show ?thesis by (simp add: py_int_def)
qed

lemma py_int_pad: "0 \<le> v \<Longrightarrow> py_int (pad w v) = v"
  by (simp add: pad_def Let_def py_int_zeros py_int_show_nat)

subsection \<open>Matching a padded number\<close>

lemma match_classes_all:
  "list_all2 in_class clss tok \<Longrightarrow> match_classes clss (tok @ rest) = Some (tok, rest)"
  by (induction clss tok rule: list_all2_induct) simp_all

lemma regex_match_first:
  assumes "\<forall>c. d \<noteq> Lit c"
    and "List.map_filter (\<lambda>alt. match_classes alt s) (directive_alts d) = (tok, rest) # others"
    and "regex_match ds rest = Some (toks, rest')"
  shows "regex_match (d # ds) s = Some (tok # toks, rest')"
proof -
  have "List.map_filter
          (\<lambda>tr. case regex_match ds (snd tr) of
                   None \<Rightarrow> None
                 | Some (toks, rest) \<Rightarrow> Some (fst tr # toks, rest))
          ((tok, rest) # others) =
        (tok # toks, rest') #
        List.map_filter
          (\<lambda>tr. case regex_match ds (snd tr) of
                   None \<Rightarrow> None
                 | Some (toks, rest) \<Rightarrow> Some (fst tr # toks, rest)) others"
    using assms(3) by (simp add: map_filter_simps)
  with assms(1,2) show ?thesis by (cases d) simp_all
qed

lemma regex_match_Lit: "regex_match (Lit c # ds) (c # s) = regex_match ds s"
  by (simp add: same_letter_def)

lemma alts_DirY:
  assumes "0 \<le> y" "y \<le> 9999"
  shows "List.map_filter (\<lambda>alt. match_classes alt (pad 4 y @ rest)) (directive_alts DirY) =
           [(pad 4 y, rest)]"
proof -
  from assms have "y < 10 ^ Suc 3" by simp
  with assms(1) have "list_all2 in_class (replicate (Suc 3) digit) (pad (Suc 3) y)"
    by (rule pad_digits)
  moreover have "Suc 3 = 4" by simp
  ultimately have "list_all2 in_class (replicate 4 digit) (pad 4 y)"
    by (simp only:)
  moreover have "replicate 4 digit = [digit, digit, digit, digit]"
    by (simp add: numeral_eq_Suc)
  ultimately have "list_all2 in_class [digit, digit, digit, digit] (pad 4 y)"
    by (simp only:)
  then have "match_classes [digit, digit, digit, digit] (pad 4 y @ rest) = Some (pad 4 y, rest)"
    by (rule match_classes_all)
  then show ?thesis by (simp add: map_filter_simps)
qed

lemma two_digits:
  assumes "0 \<le> v" "v \<le> 99"
  shows "\<exists>a b. a < 10 \<and> b < 10 \<and> nat v = 10 * a + b \<and> pad 2 v = [digit_char a, digit_char b]"
proof (intro exI conjI)
  from assms show "nat v div 10 < 10" by simp
  show "nat v mod 10 < 10" by simp
  show "nat v = 10 * (nat v div 10) + nat v mod 10" by simp
  from assms show "pad 2 v = [digit_char (nat v div 10), digit_char (nat v mod 10)]"
    by (simp add: pad_2)
qed

lemma alts_Dirm:
  assumes "1 \<le> v" "v \<le> 12"
  shows "\<exists>others. List.map_filter (\<lambda>alt. match_classes alt (pad 2 v @ rest)) (directive_alts Dirm) =
           (pad 2 v, rest) # others"
proof -
  from assms two_digits [of v] obtain a b where ab: "a < 10" "b < 10" "nat v = 10 * a + b"
    and p: "pad 2 v = [digit_char a, digit_char b]"
    by auto
  from assms ab have "a = 1 \<and> b \<le> 2 \<or> a = 0 \<and> 1 \<le> b" by arith
  then show ?thesis
    using ab(1,2)
    by (auto simp: p map_filter_simps in_class_digit_char only_def digit_def)
qed

lemma alts_Dird:
  assumes "1 \<le> v" "v \<le> 31"
  shows "\<exists>others. List.map_filter (\<lambda>alt. match_classes alt (pad 2 v @ rest)) (directive_alts Dird) =
           (pad 2 v, rest) # others"
proof -
  from assms two_digits [of v] obtain a b where ab: "a < 10" "b < 10" "nat v = 10 * a + b"
    and p: "pad 2 v = [digit_char a, digit_char b]"
    by auto
  from assms ab have "a = 3 \<and> b \<le> 1 \<or> (a = 1 \<or> a = 2) \<or> a = 0 \<and> 1 \<le> b" by arith
  then show ?thesis
    using ab(1,2)
    by (auto simp: p map_filter_simps in_class_digit_char only_def digit_def)
qed

lemma alts_DirH:
  assumes "0 \<le> v" "v \<le> 23"
  shows "\<exists>others. List.map_filter (\<lambda>alt. match_classes alt (pad 2 v @ rest)) (directive_alts DirH) =
           (pad 2 v, rest) # others"
proof -
  from assms two_digits [of v] obtain a b where ab: "a < 10" "b < 10" "nat v = 10 * a + b"
    and p: "pad 2 v = [digit_char a, digit_char b]"
    by auto
  from assms ab have "a = 2 \<and> b \<le> 3 \<or> (a = 0 \<or> a = 1)" by arith
  then show ?thesis
    using ab(1,2)
    by (auto simp: p map_filter_simps in_class_digit_char only_def digit_def)
qed

lemma alts_DirM:
  assumes "0 \<le> v" "v \<le> 59"
  shows "\<exists>others. List.map_filter (\<lambda>alt. match_classes alt (pad 2 v @ rest)) (directive_alts DirM) =
           (pad 2 v, rest) # others"
proof -
  from assms two_digits [of v] obtain a b where ab: "a < 10" "b < 10" "nat v = 10 * a + b"
    and p: "pad 2 v = [digit_char a, digit_char b]"
    by auto
  from assms ab have "a \<le> 5" by arith
  then show ?thesis
    using ab(1,2)
    by (auto simp: p map_filter_simps in_class_digit_char only_def digit_def)
qed

lemma alts_DirS:
  assumes "0 \<le> v" "v \<le> 59"
  shows "\<exists>others. List.map_filter (\<lambda>alt. match_classes alt (pad 2 v @ rest)) (directive_alts DirS) =
           (pad 2 v, rest) # others"
proof -
  from assms two_digits [of v] obtain a b where ab: "a < 10" "b < 10" "nat v = 10 * a + b"
    and p: "pad 2 v = [digit_char a, digit_char b]"
    by auto
  from assms ab have "a \<le> 5" by arith
  then show ?thesis
    using ab(1,2)
    by (auto simp: p map_filter_simps in_class_digit_char only_def digit_def)
qed

subsection \<open>What a match needs of the text\<close>

lemma match_classes_append: "match_classes clss s = Some (tok, rest) \<Longrightarrow> s = tok @ rest"
  by (induction clss s arbitrary: tok rest rule: match_classes.induct)
     (auto split: if_splits option.splits)

lemma map_filter_hd: "List.map_filter f xs = m # ms \<Longrightarrow> \<exists>x \<in> set xs. f x = Some m"
  by (induction xs) (auto simp: map_filter_simps split: option.splits)

lemma map_filter_mem: "y \<in> set (List.map_filter f xs) \<Longrightarrow> \<exists>x \<in> set xs. f x = Some y"
  by (induction xs) (auto simp: map_filter_simps split: option.splits)

lemma regex_match_nonlit:
  "\<forall>c. d \<noteq> Lit c \<Longrightarrow>
   regex_match (d # ds) s =
     (case List.map_filter
             (\<lambda>tr. case regex_match ds (snd tr) of
                      None \<Rightarrow> None
                    | Some (toks, rest) \<Rightarrow> Some (fst tr # toks, rest))
             (List.map_filter (\<lambda>alt. match_classes alt s) (directive_alts d)) of
        [] \<Rightarrow> None
      | m # ms \<Rightarrow> Some m)"
  by (cases d) simp_all

lemma regex_match_splits:
  assumes "\<forall>c. d \<noteq> Lit c" and "regex_match (d # ds) s = Some (toks, rest)"
  shows "\<exists>tok r1 toks'. s = tok @ r1 \<and> regex_match ds r1 = Some (toks', rest)"
proof -
  from assms obtain ms where
    "List.map_filter
       (\<lambda>tr. case regex_match ds (snd tr) of
                None \<Rightarrow> None
              | Some (toks, rest) \<Rightarrow> Some (fst tr # toks, rest))
       (List.map_filter (\<lambda>alt. match_classes alt s) (directive_alts d)) = (toks, rest) # ms"
    by (auto simp: regex_match_nonlit split: list.splits)
  from map_filter_hd [OF this] obtain tr where
    tr: "tr \<in> set (List.map_filter (\<lambda>alt. match_classes alt s) (directive_alts d))"
    and g: "(case regex_match ds (snd tr) of
               None \<Rightarrow> None
             | Some (toks, rest) \<Rightarrow> Some (fst tr # toks, rest)) = Some (toks, rest)"
    by blast
  from map_filter_mem [OF tr] obtain alt where "match_classes alt s = Some tr"
    by blast
  then have "s = fst tr @ snd tr"
    by (cases tr) (simp add: match_classes_append)
  moreover from g obtain toks' where "regex_match ds (snd tr) = Some (toks', rest)"
    by (auto split: option.splits)
  ultimately show ?thesis by blast
qed

text \<open>A literal of the format is met by a character of the text.\<close>

lemma regex_match_Lit_mem:
  "regex_match ds s = Some (toks, rest) \<Longrightarrow> Lit c \<in> set ds \<Longrightarrow> \<exists>x \<in> set s. same_letter c x"
proof (induction ds arbitrary: s toks)
  case Nil
  then show ?case by simp
next
  case (Cons d ds)
  show ?case
  proof (cases "\<exists>c'. d = Lit c'")
    case True
    then obtain c' where d: "d = Lit c'" by blast
    with Cons.prems(1) obtain x r where s: "s = x # r" and x: "same_letter c' x"
      and m: "regex_match ds r = Some (toks, rest)"
      by (auto split: list.splits if_splits)
    show ?thesis
    proof (cases "c = c'")
      case True
      with s x show ?thesis by auto
    next
      case False
      with Cons.prems(2) d have "Lit c \<in> set ds" by simp
      from Cons.IH [OF m this] s show ?thesis by auto
    qed
  next
    case False
    then have n: "\<forall>c. d \<noteq> Lit c" by simp
    with Cons.prems(2) have mem: "Lit c \<in> set ds" by auto
    from regex_match_splits [OF n Cons.prems(1)] obtain tok r1 toks' where
      s: "s = tok @ r1" and m: "regex_match ds r1 = Some (toks', rest)"
      by blast
    from Cons.IH [OF m mem] s show ?thesis by auto
  qed
qed

lemma strptime_fails:
  assumes "Lit c \<in> set fmt" and "\<forall>x \<in> set s. \<not> same_letter c x"
  shows "strptime s fmt = Inl ValueError"
proof (cases "regex_match fmt s")
  case None
  then show ?thesis by (simp add: strptime_def)
next
  case (Some res)
  then obtain toks rest where "regex_match fmt s = Some (toks, rest)" by (cases res) simp
  from regex_match_Lit_mem [OF this assms(1)] assms(2) show ?thesis by blast
qed

subsection \<open>The three forms that \<^verbatim>\<open>parse_iso_date\<close> reads\<close>

lemma pad_chars: "x \<in> set (pad w v) \<Longrightarrow> in_class digit x"
  using show_nat_digits [of "nat v"]
  by (auto simp: pad_def Let_def list_all_iff digit_def in_class_def)

lemma digit_no_letter:
  "in_class digit x \<Longrightarrow> \<not> same_letter (CHR ''T'') x \<and> \<not> same_letter (CHR ''Z'') x"
  by (auto simp: in_class_def digit_def same_letter_def)

lemma date_text_chars:
  "x \<in> set (date_text y m d) \<Longrightarrow>
     \<not> same_letter (CHR ''T'') x \<and> \<not> same_letter (CHR ''Z'') x"
proof -
  assume "x \<in> set (date_text y m d)"
  then have "in_class digit x \<or> x = CHR ''-''"
    by (auto simp: date_text_def dest: pad_chars)
  then show ?thesis
  proof
    assume "in_class digit x"
    then show ?thesis by (rule digit_no_letter)
  next
    assume "x = CHR ''-''"
    then show ?thesis by (simp add: same_letter_def in_class_def)
  qed
qed

lemma datetime_text_chars:
  "x \<in> set (datetime_text y m d hh mm ss) \<Longrightarrow> \<not> same_letter (CHR ''Z'') x"
proof -
  assume "x \<in> set (datetime_text y m d hh mm ss)"
  then have "x \<in> set (date_text y m d) \<or> in_class digit x \<or> x = CHR ''T'' \<or> x = CHR '':''"
    by (auto simp: datetime_text_def dest: pad_chars)
  then show ?thesis
  proof (elim disjE)
    assume "x \<in> set (date_text y m d)"
    then show ?thesis by (simp add: date_text_chars)
  next
    assume "in_class digit x"
    then show ?thesis by (simp add: digit_no_letter)
  next
    assume "x = CHR ''T''"
    then show ?thesis by (simp add: same_letter_def in_class_def)
  next
    assume "x = CHR '':''"
    then show ?thesis by (simp add: same_letter_def in_class_def)
  qed
qed

lemma days_in_month_le: "days_in_month y m \<le> 31"
  by (simp add: days_in_month_def)

lemma regex_match_date:
  assumes "0 \<le> y" "y \<le> 9999" "1 \<le> m" "m \<le> 12" "1 \<le> d" "d \<le> 31"
    and "regex_match ds rest = Some (toks, rest')"
  shows "regex_match (fmt_date @ ds) (date_text y m d @ rest) =
           Some (pad 4 y # pad 2 m # pad 2 d # toks, rest')"
proof -
  from alts_Dird [OF assms(5,6), of rest] obtain o1 where
    "List.map_filter (\<lambda>alt. match_classes alt (pad 2 d @ rest)) (directive_alts Dird) =
       (pad 2 d, rest) # o1" by blast
  then have 1: "regex_match (Dird # ds) (pad 2 d @ rest) = Some (pad 2 d # toks, rest')"
    by (rule regex_match_first [rotated]) (simp_all add: assms(7))
  from alts_Dirm [OF assms(3,4), of "CHR ''-'' # pad 2 d @ rest"] obtain o2 where
    "List.map_filter (\<lambda>alt. match_classes alt (pad 2 m @ CHR ''-'' # pad 2 d @ rest))
       (directive_alts Dirm) = (pad 2 m, CHR ''-'' # pad 2 d @ rest) # o2" by blast
  then have 2: "regex_match (Dirm # Lit (CHR ''-'') # Dird # ds) (pad 2 m @ CHR ''-'' # pad 2 d @ rest) =
                  Some (pad 2 m # pad 2 d # toks, rest')"
    by (rule regex_match_first [rotated]) (simp only: regex_match_Lit 1, simp)
  have "List.map_filter
          (\<lambda>alt. match_classes alt (pad 4 y @ CHR ''-'' # pad 2 m @ CHR ''-'' # pad 2 d @ rest))
          (directive_alts DirY) = (pad 4 y, CHR ''-'' # pad 2 m @ CHR ''-'' # pad 2 d @ rest) # []"
    by (rule alts_DirY [OF assms(1,2)])
  then have "regex_match (DirY # Lit (CHR ''-'') # Dirm # Lit (CHR ''-'') # Dird # ds)
               (pad 4 y @ CHR ''-'' # pad 2 m @ CHR ''-'' # pad 2 d @ rest) =
             Some (pad 4 y # pad 2 m # pad 2 d # toks, rest')"
    by (rule regex_match_first [rotated]) (simp only: regex_match_Lit 2, simp)
  moreover have "fmt_date @ ds = DirY # Lit (CHR ''-'') # Dirm # Lit (CHR ''-'') # Dird # ds"
    by (simp add: fmt_date_def)
  moreover have "date_text y m d @ rest =
                   pad 4 y @ CHR ''-'' # pad 2 m @ CHR ''-'' # pad 2 d @ rest"
    by (simp add: date_text_def)
  ultimately show ?thesis by (simp only:)
qed

lemma regex_match_time:
  assumes "0 \<le> hh" "hh \<le> 23" "0 \<le> mm" "mm \<le> 59" "0 \<le> ss" "ss \<le> 59"
    and "regex_match ds rest = Some (toks, rest')"
  shows "regex_match (Lit (CHR ''T'') # DirH # Lit (CHR '':'') # DirM # Lit (CHR '':'') # DirS # ds)
           (CHR ''T'' # pad 2 hh @ CHR '':'' # pad 2 mm @ CHR '':'' # pad 2 ss @ rest) =
           Some (pad 2 hh # pad 2 mm # pad 2 ss # toks, rest')"
proof -
  from alts_DirS [OF assms(5,6), of rest] obtain o1 where
    "List.map_filter (\<lambda>alt. match_classes alt (pad 2 ss @ rest)) (directive_alts DirS) =
       (pad 2 ss, rest) # o1" by blast
  then have 1: "regex_match (DirS # ds) (pad 2 ss @ rest) = Some (pad 2 ss # toks, rest')"
    by (rule regex_match_first [rotated]) (simp_all add: assms(7))
  from alts_DirM [OF assms(3,4), of "CHR '':'' # pad 2 ss @ rest"] obtain o2 where
    "List.map_filter (\<lambda>alt. match_classes alt (pad 2 mm @ CHR '':'' # pad 2 ss @ rest))
       (directive_alts DirM) = (pad 2 mm, CHR '':'' # pad 2 ss @ rest) # o2" by blast
  then have 2: "regex_match (DirM # Lit (CHR '':'') # DirS # ds) (pad 2 mm @ CHR '':'' # pad 2 ss @ rest) =
                  Some (pad 2 mm # pad 2 ss # toks, rest')"
    by (rule regex_match_first [rotated]) (simp only: regex_match_Lit 1, simp)
  from alts_DirH [OF assms(1,2), of "CHR '':'' # pad 2 mm @ CHR '':'' # pad 2 ss @ rest"] obtain o3 where
    "List.map_filter
       (\<lambda>alt. match_classes alt (pad 2 hh @ CHR '':'' # pad 2 mm @ CHR '':'' # pad 2 ss @ rest))
       (directive_alts DirH) = (pad 2 hh, CHR '':'' # pad 2 mm @ CHR '':'' # pad 2 ss @ rest) # o3"
    by blast
  then have "regex_match (DirH # Lit (CHR '':'') # DirM # Lit (CHR '':'') # DirS # ds)
               (pad 2 hh @ CHR '':'' # pad 2 mm @ CHR '':'' # pad 2 ss @ rest) =
             Some (pad 2 hh # pad 2 mm # pad 2 ss # toks, rest')"
    by (rule regex_match_first [rotated]) (simp only: regex_match_Lit 2, simp)
  then show ?thesis by (simp only: regex_match_Lit)
qed

text \<open>The microseconds of a date and time of day.\<close>

lemma strptime_date:
  assumes "valid_civil y m d 0 0 0"
  shows "strptime (date_text y m d) fmt_date = Inr (Naive (days_from_civil y m d * 86400 * 1000000))"
proof -
  from assms have r: "0 \<le> y" "y \<le> 9999" "1 \<le> m" "m \<le> 12" "1 \<le> d" "d \<le> 31"
    using days_in_month_le [of y m] by (simp_all add: valid_civil_def)
  have "regex_match (fmt_date @ []) (date_text y m d @ []) = Some (pad 4 y # pad 2 m # pad 2 d # [], [])"
    by (rule regex_match_date [OF r]) simp
  then have "regex_match fmt_date (date_text y m d) = Some ([pad 4 y, pad 2 m, pad 2 d], [])"
    by simp
  moreover from r have "map py_int [pad 4 y, pad 2 m, pad 2 d] = [y, m, d]"
    by (simp add: py_int_pad)
  moreover from assms have "mk_datetime y m d 0 0 0 =
      Inr (Naive (days_from_civil y m d * 86400 * 1000000))"
    by (simp add: mk_datetime_def valid_civil_def)
  ultimately show ?thesis by (simp add: strptime_def)
qed

lemma regex_match_datetime:
  assumes "valid_civil y m d hh mm ss"
    and "regex_match ds rest = Some ([], rest')"
  shows "regex_match (fmt_datetime @ ds) (datetime_text y m d hh mm ss @ rest) =
           Some ([pad 4 y, pad 2 m, pad 2 d, pad 2 hh, pad 2 mm, pad 2 ss], rest')"
proof -
  from assms(1) have r: "0 \<le> y" "y \<le> 9999" "1 \<le> m" "m \<le> 12" "1 \<le> d" "d \<le> 31"
    and t: "0 \<le> hh" "hh \<le> 23" "0 \<le> mm" "mm \<le> 59" "0 \<le> ss" "ss \<le> 59"
    using days_in_month_le [of y m] by (simp_all add: valid_civil_def)
  have "regex_match (Lit (CHR ''T'') # DirH # Lit (CHR '':'') # DirM # Lit (CHR '':'') # DirS # ds)
           (CHR ''T'' # pad 2 hh @ CHR '':'' # pad 2 mm @ CHR '':'' # pad 2 ss @ rest) =
           Some (pad 2 hh # pad 2 mm # pad 2 ss # [], rest')"
    by (rule regex_match_time [OF t assms(2)])
  from regex_match_date [OF r this]
  show ?thesis by (simp add: fmt_datetime_def datetime_text_def)
qed

lemma mk_datetime_valid:
  "valid_civil y m d hh mm ss \<Longrightarrow>
   mk_datetime y m d hh mm ss =
     Inr (Naive ((days_from_civil y m d * 86400 + hh * 3600 + mm * 60 + ss) * 1000000))"
  by (simp add: mk_datetime_def valid_civil_def)

lemma py_int_fields:
  assumes "valid_civil y m d hh mm ss"
  shows "map py_int [pad 4 y, pad 2 m, pad 2 d, pad 2 hh, pad 2 mm, pad 2 ss] = [y, m, d, hh, mm, ss]"
  using assms by (simp add: py_int_pad valid_civil_def)

lemma strptime_datetime:
  assumes "valid_civil y m d hh mm ss"
  shows "strptime (datetime_text y m d hh mm ss) fmt_datetime =
           Inr (Naive ((days_from_civil y m d * 86400 + hh * 3600 + mm * 60 + ss) * 1000000))"
proof -
  have "regex_match (fmt_datetime @ []) (datetime_text y m d hh mm ss @ []) =
          Some ([pad 4 y, pad 2 m, pad 2 d, pad 2 hh, pad 2 mm, pad 2 ss], [])"
    by (rule regex_match_datetime [OF assms]) simp
  then have "regex_match fmt_datetime (datetime_text y m d hh mm ss) =
               Some ([pad 4 y, pad 2 m, pad 2 d, pad 2 hh, pad 2 mm, pad 2 ss], [])"
    by simp
  with py_int_fields [OF assms] mk_datetime_valid [OF assms]
  show ?thesis by (simp add: strptime_def)
qed

lemma strptime_datetime_Z:
  assumes "valid_civil y m d hh mm ss"
  shows "strptime (datetime_text_Z y m d hh mm ss) fmt_datetime_Z =
           Inr (Naive ((days_from_civil y m d * 86400 + hh * 3600 + mm * 60 + ss) * 1000000))"
proof -
  have "regex_match [Lit (CHR ''Z'')] ''Z'' = Some ([], [])"
    by (simp add: same_letter_def)
  from regex_match_datetime [OF assms this]
  have "regex_match fmt_datetime_Z (datetime_text_Z y m d hh mm ss) =
          Some ([pad 4 y, pad 2 m, pad 2 d, pad 2 hh, pad 2 mm, pad 2 ss], [])"
    by (simp add: fmt_datetime_Z_def datetime_text_Z_def)
  with py_int_fields [OF assms] mk_datetime_valid [OF assms]
  show ?thesis by (simp add: strptime_def)
qed

lemma Lit_Z_mem: "Lit (CHR ''Z'') \<in> set fmt_datetime_Z"
  by (simp add: fmt_datetime_Z_def)

lemma Lit_T_mem: "Lit (CHR ''T'') \<in> set fmt_datetime"
  by (simp add: fmt_datetime_def)

lemma try_formats_datetime_Z:
  assumes "valid_civil y m d hh mm ss"
  shows "try_formats (datetime_text_Z y m d hh mm ss) iso_formats =
           Inr (Aware ((days_from_civil y m d * 86400 + hh * 3600 + mm * 60 + ss) * 1000000))"
  by (simp add: iso_formats_def strptime_datetime_Z [OF assms])

lemma try_formats_datetime:
  assumes "valid_civil y m d hh mm ss"
  shows "try_formats (datetime_text y m d hh mm ss) iso_formats =
           Inr (Aware ((days_from_civil y m d * 86400 + hh * 3600 + mm * 60 + ss) * 1000000))"
proof -
  have "strptime (datetime_text y m d hh mm ss) fmt_datetime_Z = Inl ValueError"
    by (rule strptime_fails [OF Lit_Z_mem]) (simp add: datetime_text_chars)
  then show ?thesis by (simp add: iso_formats_def strptime_datetime [OF assms])
qed

lemma try_formats_date:
  assumes "valid_civil y m d 0 0 0"
  shows "try_formats (date_text y m d) iso_formats =
           Inr (Aware (days_from_civil y m d * 86400 * 1000000))"
proof -
  have "strptime (date_text y m d) fmt_datetime_Z = Inl ValueError"
    by (rule strptime_fails [OF Lit_Z_mem]) (simp add: date_text_chars)
  moreover have "strptime (date_text y m d) fmt_datetime = Inl ValueError"
    by (rule strptime_fails [OF Lit_T_mem]) (simp add: date_text_chars)
  ultimately show ?thesis by (simp add: iso_formats_def strptime_date [OF assms])
qed

subsection \<open>C9: the forms of \<^verbatim>\<open>--from\<close> and \<^verbatim>\<open>--to\<close>\<close>

lemma valid_civil_midnight: "valid_civil y m d hh mm ss \<Longrightarrow> valid_civil y m d 0 0 0"
  by (simp add: valid_civil_def)

lemma micro_to_milli: "(x * 1000000) div 1000 = x * (1000 :: int)"
  by simp

text \<open>
  C9 as stated fails in both scripts: \<^verbatim>\<open>2026-02-20T10:00:00\<close>, with no \<^verbatim>\<open>Z\<close>, has
  neither of the two documented forms, and both scripts accept it and go on, since
  \<^verbatim>\<open>parse_iso_date\<close> also tries the format \<^verbatim>\<open>%Y-%m-%dT%H:%M:%S\<close>.
\<close>

theorem other_forms_rejected_counterexample:
  "\<not> documented_form ''2026-02-20T10:00:00'' \<and>
   claude_main_dates (Some ''2026-02-20T10:00:00'') (Some ''2026-02-21T10:00:00'') =
     Inr (Aware 1771581600000000, Aware 1771668000000000) \<and>
   opencode_main_dates (Some ''2026-02-20T10:00:00'') (Some ''2026-02-21T10:00:00'') =
     Inr (1771581600000, 1771668000000)"
  by code_simp

text \<open>
  C9, amended. Both scripts read three forms: for every date and time of day of the
  calendar, the text \<^verbatim>\<open>YYYY-MM-DDTHH:MM:SSZ\<close>, the same text without the \<^verbatim>\<open>Z\<close>, and
  the text \<^verbatim>\<open>YYYY-MM-DD\<close> are accepted and denote that instant in UTC (midnight for
  the last). A text is accepted exactly when \<^verbatim>\<open>strptime\<close> reads it in one of the
  three formats. When one of the two arguments is not accepted, the run ends with
  exit code 1, one diagnostic and no output; otherwise it goes on with the two bounds.
\<close>

theorem date_arguments:
  "(valid_civil y m d hh mm ss \<longrightarrow>
      claude_parse_iso_date (datetime_text_Z y m d hh mm ss) =
        Inr (Aware ((days_from_civil y m d * 86400 + hh * 3600 + mm * 60 + ss) * 1000000)) \<and>
      claude_parse_iso_date (datetime_text y m d hh mm ss) =
        Inr (Aware ((days_from_civil y m d * 86400 + hh * 3600 + mm * 60 + ss) * 1000000)) \<and>
      claude_parse_iso_date (date_text y m d) =
        Inr (Aware (days_from_civil y m d * 86400 * 1000000)) \<and>
      opencode_parse_iso_date (datetime_text_Z y m d hh mm ss) =
        Inr ((days_from_civil y m d * 86400 + hh * 3600 + mm * 60 + ss) * 1000) \<and>
      opencode_parse_iso_date (datetime_text y m d hh mm ss) =
        Inr ((days_from_civil y m d * 86400 + hh * 3600 + mm * 60 + ss) * 1000) \<and>
      opencode_parse_iso_date (date_text y m d) = Inr (days_from_civil y m d * 86400 * 1000)) \<and>
   ((\<exists>dt. claude_parse_iso_date s = Inr dt) \<longleftrightarrow>
      (\<exists>fmt \<in> set iso_formats. \<exists>dt. strptime s fmt = Inr dt)) \<and>
   ((\<exists>ms. opencode_parse_iso_date s = Inr ms) \<longleftrightarrow>
      (\<exists>fmt \<in> set iso_formats. \<exists>dt. strptime s fmt = Inr dt)) \<and>
   claude_main_dates (Some f) (Some t) =
     (case claude_parse_iso_date f of
        Inl e \<Rightarrow> Inl \<lparr>exit_code = 1, stdout_lines = [], stderr_lines = [DateParseError]\<rparr>
      | Inr from_dt \<Rightarrow>
          (case claude_parse_iso_date t of
             Inl e \<Rightarrow> Inl \<lparr>exit_code = 1, stdout_lines = [], stderr_lines = [DateParseError]\<rparr>
           | Inr to_dt \<Rightarrow> Inr (from_dt, to_dt))) \<and>
   opencode_main_dates (Some f) (Some t) =
     (case opencode_parse_iso_date f of
        Inl e \<Rightarrow> Inl \<lparr>exit_code = 1, stdout_lines = [], stderr_lines = [DateParseError]\<rparr>
      | Inr from_ms \<Rightarrow>
          (case opencode_parse_iso_date t of
             Inl e \<Rightarrow> Inl \<lparr>exit_code = 1, stdout_lines = [], stderr_lines = [DateParseError]\<rparr>
           | Inr to_ms \<Rightarrow> Inr (from_ms, to_ms)))"
proof (intro conjI impI)
  assume v: "valid_civil y m d hh mm ss"
  then have v0: "valid_civil y m d 0 0 0" by (rule valid_civil_midnight)
  note a = try_formats_datetime_Z [OF v] and b = try_formats_datetime [OF v]
    and c = try_formats_date [OF v0]
  show "claude_parse_iso_date (datetime_text_Z y m d hh mm ss) =
        Inr (Aware ((days_from_civil y m d * 86400 + hh * 3600 + mm * 60 + ss) * 1000000))"
    by (simp only: claude_parse_iso_date_def a)
  show "claude_parse_iso_date (datetime_text y m d hh mm ss) =
        Inr (Aware ((days_from_civil y m d * 86400 + hh * 3600 + mm * 60 + ss) * 1000000))"
    by (simp only: claude_parse_iso_date_def b)
  show "claude_parse_iso_date (date_text y m d) =
        Inr (Aware (days_from_civil y m d * 86400 * 1000000))"
    by (simp only: claude_parse_iso_date_def c)
  show "opencode_parse_iso_date (datetime_text_Z y m d hh mm ss) =
        Inr ((days_from_civil y m d * 86400 + hh * 3600 + mm * 60 + ss) * 1000)"
    by (simp only: opencode_parse_iso_date_def a ebind_Inr datetime.case micro_to_milli)
  show "opencode_parse_iso_date (datetime_text y m d hh mm ss) =
        Inr ((days_from_civil y m d * 86400 + hh * 3600 + mm * 60 + ss) * 1000)"
    by (simp only: opencode_parse_iso_date_def b ebind_Inr datetime.case micro_to_milli)
  show "opencode_parse_iso_date (date_text y m d) = Inr (days_from_civil y m d * 86400 * 1000)"
    by (simp only: opencode_parse_iso_date_def c ebind_Inr datetime.case micro_to_milli)
next
  show "(\<exists>dt. claude_parse_iso_date s = Inr dt) \<longleftrightarrow>
      (\<exists>fmt \<in> set iso_formats. \<exists>dt. strptime s fmt = Inr dt)"
    by (simp only: claude_parse_iso_date_def try_formats_Inr_iff)
  show "(\<exists>ms. opencode_parse_iso_date s = Inr ms) \<longleftrightarrow>
      (\<exists>fmt \<in> set iso_formats. \<exists>dt. strptime s fmt = Inr dt)"
    by (simp only: opencode_parse_Inr_iff try_formats_Inr_iff)
  show "claude_main_dates (Some f) (Some t) =
     (case claude_parse_iso_date f of
        Inl e \<Rightarrow> Inl \<lparr>exit_code = 1, stdout_lines = [], stderr_lines = [DateParseError]\<rparr>
      | Inr from_dt \<Rightarrow>
          (case claude_parse_iso_date t of
             Inl e \<Rightarrow> Inl \<lparr>exit_code = 1, stdout_lines = [], stderr_lines = [DateParseError]\<rparr>
           | Inr to_dt \<Rightarrow> Inr (from_dt, to_dt)))"
    by (simp only: claude_main_dates_cases usage_error_def)
  show "opencode_main_dates (Some f) (Some t) =
     (case opencode_parse_iso_date f of
        Inl e \<Rightarrow> Inl \<lparr>exit_code = 1, stdout_lines = [], stderr_lines = [DateParseError]\<rparr>
      | Inr from_ms \<Rightarrow>
          (case opencode_parse_iso_date t of
             Inl e \<Rightarrow> Inl \<lparr>exit_code = 1, stdout_lines = [], stderr_lines = [DateParseError]\<rparr>
           | Inr to_ms \<Rightarrow> Inr (from_ms, to_ms)))"
    by (simp only: opencode_main_dates_cases usage_error_def)
qed

theorem date_arguments_witness:
  "claude_parse_iso_date ''2026-02-20T10:00:00Z'' = Inr (Aware 1771581600000000) \<and>
   claude_parse_iso_date ''2026-02-20T10:00:00'' = Inr (Aware 1771581600000000) \<and>
   claude_parse_iso_date ''2026-02-20'' = Inr (Aware 1771545600000000) \<and>
   opencode_parse_iso_date ''2026-02-20'' = Inr 1771545600000 \<and>
   (\<exists>ms. opencode_parse_iso_date ''2026-2-3'' = Inr ms) \<and>
   claude_main_dates (Some ''2026-02-20'') (Some ''2026-02-30'') =
     Inl \<lparr>exit_code = 1, stdout_lines = [], stderr_lines = [DateParseError]\<rparr> \<and>
   opencode_main_dates (Some ''20 Feb 2026'') (Some ''2026-02-20'') =
     Inl \<lparr>exit_code = 1, stdout_lines = [], stderr_lines = [DateParseError]\<rparr>"
proof -
  have v: "valid_civil 2026 2 20 10 0 0"
    by (simp add: valid_civil_def days_in_month_def is_leap_def)
  have tz: "datetime_text_Z 2026 2 20 10 0 0 = ''2026-02-20T10:00:00Z''"
    and tn: "datetime_text 2026 2 20 10 0 0 = ''2026-02-20T10:00:00''"
    and td: "date_text 2026 2 20 = ''2026-02-20''"
    by code_simp+
  have us: "(days_from_civil 2026 2 20 * 86400 + 10 * 3600 + 0 * 60 + 0) * 1000000 = 1771581600000000"
    and us0: "days_from_civil 2026 2 20 * 86400 * 1000000 = 1771545600000000"
    and ms0: "days_from_civil 2026 2 20 * 86400 * 1000 = 1771545600000"
    by code_simp+
  note inst = date_arguments [where y = 2026 and m = 2 and d = 20 and hh = 10 and mm = 0 and ss = 0
                                and s = "''2026-2-3''"]
  note forms = inst [THEN conjunct1, THEN mp, OF v]
  have w1: "claude_parse_iso_date ''2026-02-20T10:00:00Z'' = Inr (Aware 1771581600000000)"
    using forms [THEN conjunct1] by (simp only: tz us)
  have w2: "claude_parse_iso_date ''2026-02-20T10:00:00'' = Inr (Aware 1771581600000000)"
    using forms [THEN conjunct2, THEN conjunct1] by (simp only: tn us)
  have w3: "claude_parse_iso_date ''2026-02-20'' = Inr (Aware 1771545600000000)"
    using forms [THEN conjunct2, THEN conjunct2, THEN conjunct1] by (simp only: td us0)
  have w4: "opencode_parse_iso_date ''2026-02-20'' = Inr 1771545600000"
    using forms [THEN conjunct2, THEN conjunct2, THEN conjunct2, THEN conjunct2, THEN conjunct2]
    by (simp only: td ms0)
  have "case strptime ''2026-2-3'' fmt_date of Inr dt \<Rightarrow> True | Inl e \<Rightarrow> False"
    by code_simp
  then obtain dt where "strptime ''2026-2-3'' fmt_date = Inr dt"
    by (auto split: sum.splits)
  moreover have "fmt_date \<in> set iso_formats" by (simp add: iso_formats_def)
  ultimately have h: "\<exists>fmt \<in> set iso_formats. \<exists>dt. strptime ''2026-2-3'' fmt = Inr dt"
    by blast
  have w5: "\<exists>ms. opencode_parse_iso_date ''2026-2-3'' = Inr ms"
    by (rule inst [THEN conjunct2, THEN conjunct2, THEN conjunct1, THEN iffD2, OF h])
  have bad: "claude_parse_iso_date ''2026-02-30'' = Inl ValueError"
    by code_simp
  have w6: "claude_main_dates (Some ''2026-02-20'') (Some ''2026-02-30'') =
     Inl \<lparr>exit_code = 1, stdout_lines = [], stderr_lines = [DateParseError]\<rparr>"
    using date_arguments [where f = "''2026-02-20''" and t = "''2026-02-30''",
            THEN conjunct2, THEN conjunct2, THEN conjunct2, THEN conjunct1]
    by (simp only: w3 bad sum.case)
  have bad': "opencode_parse_iso_date ''20 Feb 2026'' = Inl ValueError"
    by code_simp
  have w7: "opencode_main_dates (Some ''20 Feb 2026'') (Some ''2026-02-20'') =
     Inl \<lparr>exit_code = 1, stdout_lines = [], stderr_lines = [DateParseError]\<rparr>"
    using date_arguments [where f = "''20 Feb 2026''" and t = "''2026-02-20''",
            THEN conjunct2, THEN conjunct2, THEN conjunct2, THEN conjunct2]
    by (simp only: bad' sum.case)
  from w1 w2 w3 w4 w5 w6 w7 show ?thesis by (intro conjI)
qed

end
